theory Spec2Isabelle
  imports Main "HOL-Library.AList"
begin

section \<open>Task management system: the domain model and its services\<close>

text \<open>
  A shallow embedding of the Python sources \<^verbatim>\<open>models/*.py\<close>, \<^verbatim>\<open>repositories/*.py\<close> and
  \<^verbatim>\<open>services/*.py\<close>. A Python object is a record; a method that mutates \<^verbatim>\<open>self\<close> takes the
  object and returns the object after the call. A method that can raise returns a pair: the
  outcome (\<open>Inl\<close> the exception, \<open>Inr\<close> the returned value) and the object as the call left it,
  so that an assignment made before a \<^verbatim>\<open>raise\<close> would show. Every reading of the clock
  (\<^verbatim>\<open>datetime.utcnow()\<close>) is the parameter \<open>now\<close>; every fresh identifier
  (\<^verbatim>\<open>uuid.uuid4()\<close>) and every fresh salt (\<^verbatim>\<open>secrets.token_hex\<close>) is a parameter as well.
\<close>

subsection \<open>Exceptions and time\<close>

text \<open>The exception classes the sources raise, each with its message.\<close>

datatype exn =
    ValueError string
  | PermissionError string
  | ValidationError string
  | KeyError string
  | TypeError string
  | AttributeError string

text \<open>
  A naive \<^verbatim>\<open>datetime\<close> is its number of microseconds since a fixed epoch; the difference of
  two is a \<^verbatim>\<open>timedelta\<close>, again in microseconds. Python normalises a timedelta so that
  \<^verbatim>\<open>0 <= seconds < 86400\<close>, hence \<^verbatim>\<open>.days\<close> is the floor of the quotient by one day.
\<close>

type_synonym datetime = int
type_synonym timedelta = int

definition microseconds_per_day :: int where
  "microseconds_per_day = 86400000000"

definition timedelta_days :: "timedelta \<Rightarrow> int" where
  "timedelta_days d = d div microseconds_per_day"

subsection \<open>models/task.py\<close>

datatype task_status = TODO | IN_PROGRESS | REVIEW | DONE | CANCELLED

datatype task_priority = LOW | MEDIUM | HIGH | URGENT

record task_comment =
  comment_id :: string
  comment_author_id :: string
  comment_content :: string
  comment_created_at :: datetime

record task =
  task_id :: string
  task_title :: string
  task_description :: string
  task_status :: task_status
  task_priority :: task_priority
  task_assignee_id :: "string option"
  task_due_date :: "datetime option"
  task_created_at :: datetime
  task_updated_at :: datetime
  task_comments :: "task_comment list"
  task_tags :: "string list"

text \<open>\<^verbatim>\<open>Task.update_status\<close> (task.py, lines 144-150).\<close>

definition update_status :: "datetime \<Rightarrow> task \<Rightarrow> task_status \<Rightarrow> (exn + unit) \<times> task" where
  "update_status now self new_status =
     (if task_status self = DONE \<and> new_status \<noteq> DONE
      then (Inl (ValueError ''Cannot change status of completed task''), self)
      else (Inr (), self\<lparr>task_status := new_status, task_updated_at := now\<rparr>))"

text \<open>
  \<^verbatim>\<open>Task.is_urgent\<close> (task.py, lines 187-196). A \<^verbatim>\<open>datetime\<close> object is always truthy, so
  \<^verbatim>\<open>if self._due_date\<close> tests for \<^verbatim>\<open>None\<close> only.
\<close>

definition is_urgent :: "datetime \<Rightarrow> task \<Rightarrow> bool" where
  "is_urgent now self =
     (if task_priority self = URGENT then True
      else case task_due_date self of
             Some due \<Rightarrow>
               (let days_until_due = timedelta_days (due - now)
                in days_until_due \<le> 1 \<and> task_priority self \<in> {HIGH, URGENT})
           | None \<Rightarrow> False)"

text \<open>
  The urgency rule in the words of the specification: the priority is Urgent, or a due date
  exists, the priority is High or Urgent, and the due date is within one day of the
  evaluation time.
\<close>

definition is_urgent_spec :: "datetime \<Rightarrow> task \<Rightarrow> bool" where
  "is_urgent_spec now self =
     (task_priority self = URGENT \<or>
      (\<exists>due. task_due_date self = Some due \<and> task_priority self \<in> {HIGH, URGENT} \<and>
             \<bar>due - now\<bar> \<le> microseconds_per_day))"

text \<open>A High-priority task due 36 hours after the evaluation time \<open>0\<close>.\<close>

definition task_due_in_36_hours :: task where
  "task_due_in_36_hours =
     \<lparr>task_id = ''t1'', task_title = ''Report'', task_description = '''',
      task_status = TODO, task_priority = HIGH, task_assignee_id = None,
      task_due_date = Some 129600000000, task_created_at = 0, task_updated_at = 0,
      task_comments = [], task_tags = []\<rparr>"

subsection \<open>Strings and numbers of the Python runtime\<close>

text \<open>\<^verbatim>\<open>str(n)\<close> for a natural number: its decimal digits.\<close>

fun string_of_nat :: "nat \<Rightarrow> string" where
  "string_of_nat n =
     (if n < 10 then [''0123456789'' ! n]
      else string_of_nat (n div 10) @ [''0123456789'' ! (n mod 10)])"

declare string_of_nat.simps [simp del]

text \<open>
  Python's \<^verbatim>\<open>float\<close> is IEEE 754 binary64. A non-negative finite float is a pair
  \<open>(m, e)\<close> with value \<open>m * 2 ^ e\<close>, where \<open>m < 2 ^ 53\<close>; a normal one has
  \<open>2 ^ 52 \<le> m\<close>. \<^verbatim>\<open>a / b\<close> on two ints is the correctly rounded quotient and
  \<^verbatim>\<open>x * y\<close> the correctly rounded product, both to nearest, ties to even;
  \<^verbatim>\<open>int(x)\<close> truncates. Overflow and subnormal results are left out: the quotients
  taken here lie between \<open>1 / n\<close> and \<open>1\<close> for the length \<open>n\<close> of a list, and the
  products between \<open>0\<close> and \<open>100\<close>.
\<close>

fun bit_length :: "nat \<Rightarrow> nat" where
  "bit_length n = (if n = 0 then 0 else Suc (bit_length (n div 2)))"

declare bit_length.simps [simp del]

text \<open>The quotient \<open>a / b\<close> rounded to the nearest integer, a tie to the even one.\<close>

definition round_half_even :: "nat \<Rightarrow> nat \<Rightarrow> nat" where
  "round_half_even a b =
     (let q = a div b; r = a mod b
      in if 2 * r < b then q
         else if b < 2 * r then q + 1
         else if even q then q else q + 1)"

type_synonym float = "nat \<times> int"

text \<open>
  The float nearest to \<open>p / q\<close>. With \<open>d\<close> the difference of the bit lengths,
  \<open>2 ^ (d - 1) < p / q < 2 ^ (d + 1)\<close>, so the exponent that puts the mantissa in
  \<open>[2 ^ 52, 2 ^ 53)\<close> is \<open>d - 53\<close> or \<open>d - 52\<close>; a mantissa that rounds up to
  \<open>2 ^ 53\<close> is renormalised.
\<close>

definition float_of_ratio :: "nat \<Rightarrow> nat \<Rightarrow> float" where
  "float_of_ratio p q =
     (if p = 0 then (0, 0)
      else
        let d = int (bit_length p) - int (bit_length q);
            scaled = (\<lambda>e. if 0 \<le> e then (p, q * 2 ^ nat e) else (p * 2 ^ nat (- e), q));
            e = (if fst (scaled (d - 53)) < 2 ^ 53 * snd (scaled (d - 53)) then d - 53 else d - 52);
            m = round_half_even (fst (scaled e)) (snd (scaled e))
        in if m = 2 ^ 53 then (2 ^ 52, e + 1) else (m, e))"

definition float_mul :: "float \<Rightarrow> float \<Rightarrow> float" where
  "float_mul x y =
     (let m = fst x * fst y; e = snd x + snd y
      in if 0 \<le> e then float_of_ratio (m * 2 ^ nat e) 1 else float_of_ratio m (2 ^ nat (- e)))"

definition float_of_int :: "nat \<Rightarrow> float" where
  "float_of_int n = float_of_ratio n 1"

definition int_of_float :: "float \<Rightarrow> nat" where
  "int_of_float x = (if 0 \<le> snd x then fst x * 2 ^ nat (snd x) else fst x div 2 ^ nat (- snd x))"

subsection \<open>models/project.py\<close>

datatype project_status = PLANNING | ACTIVE | ON_HOLD | COMPLETED | PROJECT_CANCELLED

record project_milestone =
  milestone_id :: string
  milestone_title :: string
  milestone_description :: string
  milestone_due_date :: datetime
  milestone_completed :: bool
  milestone_completed_at :: "datetime option"

record project =
  project_id :: string
  project_name :: string
  project_description :: string
  project_status :: project_status
  project_owner_id :: "string option"
  project_created_at :: datetime
  project_updated_at :: datetime
  project_tasks :: "task list"
  project_milestones :: "project_milestone list"
  project_team_members :: "string list"

text \<open>
  \<^verbatim>\<open>Task.__eq__\<close> (task.py, lines 262-263) compares identifiers; \<^verbatim>\<open>task in self._tasks\<close>
  and \<^verbatim>\<open>self._tasks.remove(task)\<close> use it, the latter removing the first equal element.
\<close>

definition task_eq :: "task \<Rightarrow> task \<Rightarrow> bool" where
  "task_eq self other = (task_id self = task_id other)"

definition task_in :: "task \<Rightarrow> task list \<Rightarrow> bool" where
  "task_in task tasks = list_ex (\<lambda>x. task_eq x task) tasks"

fun list_remove_task :: "task list \<Rightarrow> task \<Rightarrow> task list" where
  "list_remove_task [] task = []"
| "list_remove_task (x # xs) task = (if task_eq x task then xs else x # list_remove_task xs task)"

text \<open>\<^verbatim>\<open>Project.add_task\<close> and \<^verbatim>\<open>Project.remove_task\<close> (project.py, lines 130-140).\<close>

definition add_task :: "datetime \<Rightarrow> project \<Rightarrow> task \<Rightarrow> project" where
  "add_task now self task =
     (if \<not> task_in task (project_tasks self)
      then self\<lparr>project_tasks := project_tasks self @ [task], project_updated_at := now\<rparr>
      else self)"

definition remove_task :: "datetime \<Rightarrow> project \<Rightarrow> task \<Rightarrow> project" where
  "remove_task now self task =
     (if task_in task (project_tasks self)
      then self\<lparr>project_tasks := list_remove_task (project_tasks self) task,
                project_updated_at := now\<rparr>
      else self)"

text \<open>
  \<^verbatim>\<open>Project.get_tasks_by_status\<close> and \<^verbatim>\<open>Project.get_progress_percentage\<close>
  (project.py, lines 142-144 and 185-191): \<^verbatim>\<open>int((completed_tasks / len(self._tasks)) * 100)\<close>.
\<close>

definition get_tasks_by_status :: "project \<Rightarrow> task_status \<Rightarrow> task list" where
  "get_tasks_by_status self status = filter (\<lambda>task. task_status task = status) (project_tasks self)"

definition get_progress_percentage :: "project \<Rightarrow> nat" where
  "get_progress_percentage self =
     (if project_tasks self = [] then 0
      else
        let completed_tasks = length (get_tasks_by_status self DONE)
        in int_of_float
             (float_mul (float_of_ratio completed_tasks (length (project_tasks self)))
                        (float_of_int 100)))"

text \<open>A call of one of the two methods that change the task list.\<close>

datatype task_op = AddTask task | RemoveTask task

fun apply_task_op :: "datetime \<Rightarrow> project \<Rightarrow> task_op \<Rightarrow> project" where
  "apply_task_op now p (AddTask t) = add_task now p t"
| "apply_task_op now p (RemoveTask t) = remove_task now p t"

text \<open>Example data: a project of 50 tasks, of which the first 29 are Done.\<close>

definition numbered_task :: "nat \<Rightarrow> task_status \<Rightarrow> task" where
  "numbered_task i st =
     \<lparr>task_id = ''task-'' @ string_of_nat i, task_title = ''Task'', task_description = '''',
      task_status = st, task_priority = MEDIUM, task_assignee_id = None,
      task_due_date = None, task_created_at = 0, task_updated_at = 0,
      task_comments = [], task_tags = []\<rparr>"

definition project_with_tasks :: "task list \<Rightarrow> project" where
  "project_with_tasks ts =
     \<lparr>project_id = ''p1'', project_name = ''Launch'', project_description = '''',
      project_status = PLANNING, project_owner_id = None, project_created_at = 0,
      project_updated_at = 0, project_tasks = ts, project_milestones = [],
      project_team_members = []\<rparr>"

definition project_29_of_50 :: project where
  "project_29_of_50 =
     project_with_tasks
       (map (\<lambda>i. numbered_task i DONE) [0..<29] @ map (\<lambda>i. numbered_task i TODO) [29..<50])"

text \<open>
  A string is a sequence of code points below 256. \<^verbatim>\<open>str.strip()\<close> removes leading and
  trailing whitespace (tab, line feed, vertical tab, form feed, carriage return, the four
  separators 0x1C-0x1F, the space, the next-line character 0x85 and the no-break space
  0xA0); \<^verbatim>\<open>str.lower()\<close> maps \<^verbatim>\<open>A-Z\<close> to \<^verbatim>\<open>a-z\<close> and the capital letters
  0xC0-0xDE, the multiplication sign 0xD7 apart, to 0xE0-0xFE;
  \<^verbatim>\<open>isalpha\<close> and \<^verbatim>\<open>isalnum\<close> are the character classes \<^verbatim>\<open>[a-zA-Z]\<close> and
  \<^verbatim>\<open>[a-zA-Z0-9]\<close> of the regular expressions below.
\<close>

definition is_space :: "char \<Rightarrow> bool" where
  "is_space c = (c \<in> set [CHR 0x09, CHR 0x0A, CHR 0x0B, CHR 0x0C, CHR 0x0D,
                            CHR 0x1C, CHR 0x1D, CHR 0x1E, CHR 0x1F, CHR '' '',
                            CHR 0x85, CHR 0xA0])"

definition strip :: "string \<Rightarrow> string" where
  "strip s = rev (dropWhile is_space (rev (dropWhile is_space s)))"

definition lower_char :: "char \<Rightarrow> char" where
  "lower_char c =
     (case map_of
             (zip (''ABCDEFGHIJKLMNOPQRSTUVWXYZ'' @
                   [CHR 0xC0, CHR 0xC1, CHR 0xC2, CHR 0xC3, CHR 0xC4, CHR 0xC5, CHR 0xC6,
                    CHR 0xC7, CHR 0xC8, CHR 0xC9, CHR 0xCA, CHR 0xCB, CHR 0xCC, CHR 0xCD,
                    CHR 0xCE, CHR 0xCF, CHR 0xD0, CHR 0xD1, CHR 0xD2, CHR 0xD3, CHR 0xD4,
                    CHR 0xD5, CHR 0xD6, CHR 0xD8, CHR 0xD9, CHR 0xDA, CHR 0xDB, CHR 0xDC,
                    CHR 0xDD, CHR 0xDE])
                  (''abcdefghijklmnopqrstuvwxyz'' @
                   [CHR 0xE0, CHR 0xE1, CHR 0xE2, CHR 0xE3, CHR 0xE4, CHR 0xE5, CHR 0xE6,
                    CHR 0xE7, CHR 0xE8, CHR 0xE9, CHR 0xEA, CHR 0xEB, CHR 0xEC, CHR 0xED,
                    CHR 0xEE, CHR 0xEF, CHR 0xF0, CHR 0xF1, CHR 0xF2, CHR 0xF3, CHR 0xF4,
                    CHR 0xF5, CHR 0xF6, CHR 0xF8, CHR 0xF9, CHR 0xFA, CHR 0xFB, CHR 0xFC,
                    CHR 0xFD, CHR 0xFE])) c of
        Some l \<Rightarrow> l
      | None \<Rightarrow> c)"

definition lower :: "string \<Rightarrow> string" where
  "lower s = map lower_char s"

definition is_alpha :: "char \<Rightarrow> bool" where
  "is_alpha c = (c \<in> set ''abcdefghijklmnopqrstuvwxyzABCDEFGHIJKLMNOPQRSTUVWXYZ'')"

definition is_alnum :: "char \<Rightarrow> bool" where
  "is_alnum c = (is_alpha c \<or> c \<in> set ''0123456789'')"

text \<open>
  The apostrophe of the f-string messages.
\<close>

definition quote :: string where
  "quote = [CHR 0x27]"

subsection \<open>models/user.py\<close>

datatype user_role = ADMIN | USER | GUEST

record user_profile =
  first_name :: string
  last_name :: string
  bio :: string

text \<open>
  The stored credential is the string \<^verbatim>\<open>salt:hexdigest\<close> with the PBKDF2-HMAC-SHA256
  digest of the password under the salt. It is kept symbolic: \<open>Pbkdf2 salt key\<close> stands
  for that string, where \<open>key\<close> is the HMAC key made of the password. HMAC pads a key of
  at most 64 bytes with zero bytes, so such a password and the same password followed by NUL
  characters give one key, \<open>Padded\<close> of the password without its trailing NULs; a longer
  key is replaced by its SHA-256 digest, \<open>Hashed\<close> of the password. The password is
  encoded in UTF-8, a code point from 128 on taking two bytes. SHA-256 and the digest are
  taken to be free of collisions: two credentials are equal iff salt and key are.
\<close>

datatype hmac_key = Padded string | Hashed string

definition utf8_length :: "string \<Rightarrow> nat" where
  "utf8_length s = sum_list (map (\<lambda>c. if digit7 c then 2 else 1) s)"

definition hmac_key_of :: "string \<Rightarrow> hmac_key" where
  "hmac_key_of password =
     (if utf8_length password \<le> 64
      then Padded (rev (dropWhile (\<lambda>c. c = CHR 0x00) (rev password)))
      else Hashed password)"

datatype password_hash = Pbkdf2 (hash_salt: string) (hash_key: hmac_key)

record user =
  user_id :: "string option"
  user_username :: string
  user_email :: string
  user_password_hash :: password_hash
  user_role :: user_role
  user_profile :: user_profile
  user_created_at :: datetime
  user_permissions :: "string list"

definition is_admin :: "user \<Rightarrow> bool" where
  "is_admin self = (user_role self = ADMIN)"

text \<open>
  The public setter of \<^verbatim>\<open>User.id\<close> (user.py, lines 52-56); the value is a string.
\<close>

definition set_user_id :: "user \<Rightarrow> string \<Rightarrow> (exn + unit) \<times> user" where
  "set_user_id self v =
     (if v = [] then (Inl (ValidationError ''Invalid user ID''), self)
      else (Inr (), self\<lparr>user_id := Some v\<rparr>))"

text \<open>
  \<^verbatim>\<open>User._validate_username\<close>, \<^verbatim>\<open>User._validate_email\<close>, \<^verbatim>\<open>User._hash_password\<close> and
  \<^verbatim>\<open>User._get_permissions\<close> (user.py, lines 79-103). The length of the username is tested
  before \<^verbatim>\<open>lower().strip()\<close> is applied.
\<close>

definition validate_username :: "string \<Rightarrow> exn + string" where
  "validate_username username =
     (if username = [] \<or> length username < 3
      then Inl (ValidationError ''Username must be at least 3 characters'')
      else Inr (strip (lower username)))"

text \<open>
  \<^verbatim>\<open>EMAIL_REGEX.match(email)\<close> for
  \<^verbatim>\<open>^[a-zA-Z0-9._%+-]+@[a-zA-Z0-9.-]+\.[a-zA-Z]{2,}$\<close>. Neither character class holds
  \<^verbatim>\<open>@\<close>, so the local part is the longest prefix of local characters and must be followed
  by \<^verbatim>\<open>@\<close>; the last group holds no dot, so it is the longest suffix of letters and must
  be preceded by a dot. The argument is already stripped, so \<^verbatim>\<open>$\<close> is the end of the
  string.
\<close>

definition EMAIL_REGEX_match :: "string \<Rightarrow> bool" where
  "EMAIL_REGEX_match s =
     (let local_char = (\<lambda>c. is_alnum c \<or> c \<in> set ''._%+-'');
          domain_char = (\<lambda>c. is_alnum c \<or> c \<in> set ''.-'');
          local_part = takeWhile local_char s
      in local_part \<noteq> [] \<and>
         (case dropWhile local_char s of
            [] \<Rightarrow> False
          | at # domain \<Rightarrow>
              at = CHR ''@'' \<and>
              (let tld = takeWhile is_alpha (rev domain)
               in 2 \<le> length tld \<and>
                  (case dropWhile is_alpha (rev domain) of
                     [] \<Rightarrow> False
                   | dot # name \<Rightarrow> dot = CHR ''.'' \<and> name \<noteq> [] \<and> list_all domain_char name))))"

definition validate_email :: "string \<Rightarrow> exn + string" where
  "validate_email email0 =
     (let email = lower (strip email0)
      in if \<not> EMAIL_REGEX_match email then Inl (ValidationError ''Invalid email format'')
         else Inr email)"

definition hash_password :: "string \<Rightarrow> string \<Rightarrow> exn + password_hash" where
  "hash_password salt password =
     (if length password < 6 then Inl (ValidationError ''Password too short'')
      else Inr (Pbkdf2 salt (hmac_key_of password)))"

definition get_permissions :: "user_role \<Rightarrow> string list" where
  "get_permissions role =
     (case role of
        ADMIN \<Rightarrow> [''admin.panel'', ''user.manage'', ''system.settings'']
      | USER \<Rightarrow> [''profile.update'', ''content.create'']
      | GUEST \<Rightarrow> [''content.read''])"

text \<open>
  \<^verbatim>\<open>User.__init__\<close> (user.py, lines 37-45): the three validations in order, each raising
  before the object exists.
\<close>

definition new_user :: "string \<Rightarrow> datetime \<Rightarrow> string \<Rightarrow> string \<Rightarrow> string \<Rightarrow> user_role \<Rightarrow> exn + user" where
  "new_user salt now username email password role =
     (case validate_username username of
        Inl e \<Rightarrow> Inl e
      | Inr username' \<Rightarrow>
     (case validate_email email of
        Inl e \<Rightarrow> Inl e
      | Inr email' \<Rightarrow>
     (case hash_password salt password of
        Inl e \<Rightarrow> Inl e
      | Inr h \<Rightarrow>
          Inr \<lparr>user_id = None, user_username = username', user_email = email',
               user_password_hash = h, user_role = role,
               user_profile = \<lparr>first_name = [], last_name = [], bio = []\<rparr>,
               user_created_at = now, user_permissions = get_permissions role\<rparr>)))"

text \<open>
  \<^verbatim>\<open>User.verify_password\<close> and \<^verbatim>\<open>User.change_password\<close> (user.py, lines 106-118).
  \<^verbatim>\<open>split(':')\<close> yields two parts iff the salt holds no colon; any exception gives
  \<^verbatim>\<open>False\<close>.
\<close>

definition verify_password :: "user \<Rightarrow> string \<Rightarrow> bool" where
  "verify_password self password =
     (CHR '':'' \<notin> set (hash_salt (user_password_hash self)) \<and>
      Pbkdf2 (hash_salt (user_password_hash self)) (hmac_key_of password) =
        user_password_hash self)"

definition change_password :: "string \<Rightarrow> user \<Rightarrow> string \<Rightarrow> string \<Rightarrow> (exn + bool) \<times> user" where
  "change_password salt self old_password new_password =
     (if \<not> verify_password self old_password
      then (Inl (ValidationError ''Current password incorrect''), self)
      else case hash_password salt new_password of
             Inl e \<Rightarrow> (Inl e, self)
           | Inr h \<Rightarrow> (Inr True, self\<lparr>user_password_hash := h\<rparr>))"

subsection \<open>repositories/user_repository.py\<close>

text \<open>
  \<^verbatim>\<open>BaseRepository\<close> and \<^verbatim>\<open>UserRepository\<close>. The dict \<^verbatim>\<open>_data\<close> keeps insertion order:
  it is an association list, \<open>AList.update\<close> overwriting the entry of a present key in
  place and appending a new one. The repository holds references: after
  \<^verbatim>\<open>user = get_by_id(key)\<close>, an assignment to a field of \<^verbatim>\<open>user\<close> changes the stored
  object at once. \<open>user_put repo key obj\<close> records that the object held under \<open>key\<close>
  is now \<open>obj\<close>; the services below apply it after every entity method, whether the
  method raised or not, and only then call \<open>user_save\<close> as the source does. An object that
  has been filed under two keys is followed under the key of the look-up and, through
  \<open>user_save\<close>, under the key that is its identifier.
\<close>

record user_repository =
  user_data :: "(string \<times> user) list"
  user_next_id :: nat

definition new_user_repository :: user_repository where
  "new_user_repository = \<lparr>user_data = [], user_next_id = 1\<rparr>"

definition user_get_by_id :: "user_repository \<Rightarrow> string \<Rightarrow> user option" where
  "user_get_by_id repo uid = map_of (user_data repo) uid"

definition user_get_all :: "user_repository \<Rightarrow> user list" where
  "user_get_all repo = map snd (user_data repo)"

definition get_by_username :: "user_repository \<Rightarrow> string \<Rightarrow> user option" where
  "get_by_username repo username = find (\<lambda>user. user_username user = username) (user_get_all repo)"

definition get_by_email :: "user_repository \<Rightarrow> string \<Rightarrow> user option" where
  "get_by_email repo email = find (\<lambda>user. user_email user = email) (user_get_all repo)"

definition user_put :: "user_repository \<Rightarrow> string \<Rightarrow> user \<Rightarrow> user_repository" where
  "user_put repo key obj = repo\<lparr>user_data := AList.update key obj (user_data repo)\<rparr>"

text \<open>
  \<^verbatim>\<open>UserRepository.save\<close> (user_repository.py, lines 16-22) with
  \<^verbatim>\<open>BaseRepository._generate_id\<close>: a user without identifier (\<^verbatim>\<open>None\<close> or empty) gets
  \<^verbatim>\<open>userrepository_<next_id>\<close>.
\<close>

definition user_save :: "user_repository \<Rightarrow> user \<Rightarrow> user \<times> user_repository" where
  "user_save repo user =
     (if user_id user = None \<or> user_id user = Some []
      then
        let entity_id = ''userrepository_'' @ string_of_nat (user_next_id repo);
            user' = user\<lparr>user_id := Some entity_id\<rparr>
        in (user', (user_put repo entity_id user')\<lparr>user_next_id := user_next_id repo + 1\<rparr>)
      else (user, user_put repo (the (user_id user)) user))"

subsection \<open>services/user_service.py\<close>

text \<open>
  \<^verbatim>\<open>UserService.create_user\<close> (user_service.py, lines 19-44). The two look-ups take the
  arguments as passed; \<^verbatim>\<open>except ValidationError as e: raise ValueError(str(e))\<close> turns
  the entity's exception into a \<^verbatim>\<open>ValueError\<close> with the same message.
\<close>

definition create_user ::
  "string \<Rightarrow> datetime \<Rightarrow> user_repository \<Rightarrow> string \<Rightarrow> string \<Rightarrow> string \<Rightarrow> user_role \<Rightarrow>
   (exn + user) \<times> user_repository" where
  "create_user salt now repo username email password role =
     (if get_by_username repo username \<noteq> None
      then (Inl (ValueError (''Username '' @ quote @ username @ quote @ '' already exists'')), repo)
      else if get_by_email repo email \<noteq> None
      then (Inl (ValueError (''Email '' @ quote @ email @ quote @ '' already exists'')), repo)
      else case new_user salt now username email password role of
             Inl (ValidationError msg) \<Rightarrow> (Inl (ValueError msg), repo)
           | Inl e \<Rightarrow> (Inl e, repo)
           | Inr user \<Rightarrow> (Inr (fst (user_save repo user)), snd (user_save repo user)))"

definition get_users_by_role :: "user_repository \<Rightarrow> user_role \<Rightarrow> user list" where
  "get_users_by_role repo role = filter (\<lambda>user. user_role user = role) (user_get_all repo)"

text \<open>
  \<^verbatim>\<open>UserService.change_user_password\<close> (user_service.py, lines 86-101).
\<close>

definition change_user_password ::
  "string \<Rightarrow> user_repository \<Rightarrow> string \<Rightarrow> string \<Rightarrow> string \<Rightarrow> (exn + user) \<times> user_repository" where
  "change_user_password salt repo uid old_password new_password =
     (case user_get_by_id repo uid of
        None \<Rightarrow> (Inl (ValueError (''User with ID '' @ uid @ '' not found'')), repo)
      | Some user \<Rightarrow>
          let (outcome, user') = change_password salt user old_password new_password;
              repo' = user_put repo uid user'
          in case outcome of
               Inl (ValidationError msg) \<Rightarrow> (Inl (ValueError msg), repo')
             | Inl e \<Rightarrow> (Inl e, repo')
             | Inr _ \<Rightarrow> (Inr (fst (user_save repo' user')), snd (user_save repo' user')))"

text \<open>
  \<^verbatim>\<open>UserService.promote_user\<close> and \<^verbatim>\<open>UserService.deactivate_user\<close>
  (user_service.py, lines 103-156); the number of admins is computed from the repository at
  the moment of the call.
\<close>

definition promote_user ::
  "user_repository \<Rightarrow> string \<Rightarrow> user_role \<Rightarrow> string \<Rightarrow> (exn + user) \<times> user_repository" where
  "promote_user repo uid new_role promoter_id =
     (case user_get_by_id repo uid of
        None \<Rightarrow> (Inl (ValueError (''User with ID '' @ uid @ '' not found'')), repo)
      | Some user \<Rightarrow>
     (case user_get_by_id repo promoter_id of
        None \<Rightarrow> (Inl (ValueError (''Promoter with ID '' @ promoter_id @ '' not found'')), repo)
      | Some promoter \<Rightarrow>
          if \<not> is_admin promoter
          then (Inl (PermissionError ''Only admins can promote users''), repo)
          else if is_admin user \<and> new_role \<noteq> ADMIN \<and> length (get_users_by_role repo ADMIN) \<le> 1
          then (Inl (ValueError ''Cannot demote the last admin user''), repo)
          else
            let user' = user\<lparr>user_role := new_role, user_permissions := get_permissions new_role\<rparr>;
                repo' = user_put repo uid user'
            in (Inr (fst (user_save repo' user')), snd (user_save repo' user'))))"

definition deactivate_user ::
  "user_repository \<Rightarrow> string \<Rightarrow> string \<Rightarrow> (exn + user) \<times> user_repository" where
  "deactivate_user repo uid deactivator_id =
     (case user_get_by_id repo uid of
        None \<Rightarrow> (Inl (ValueError (''User with ID '' @ uid @ '' not found'')), repo)
      | Some user \<Rightarrow>
     (case user_get_by_id repo deactivator_id of
        None \<Rightarrow> (Inl (ValueError (''Deactivator with ID '' @ deactivator_id @ '' not found'')), repo)
      | Some deactivator \<Rightarrow>
          if \<not> is_admin deactivator
          then (Inl (PermissionError ''Only admins can deactivate users''), repo)
          else if is_admin user \<and> length (get_users_by_role repo ADMIN) \<le> 1
          then (Inl (ValueError ''Cannot deactivate the last admin user''), repo)
          else
            let user' = user\<lparr>user_role := GUEST, user_permissions := get_permissions GUEST\<rparr>;
                repo' = user_put repo uid user'
            in (Inr (fst (user_save repo' user')), snd (user_save repo' user'))))"

subsection \<open>models/user.py: serialisation\<close>

text \<open>
  The values of a serialised record: \<^verbatim>\<open>None\<close>, strings, numbers, booleans, lists and
  nested dicts. \<open>getitem\<close> is \<^verbatim>\<open>data[key]\<close>, \<open>get_or\<close> is
  \<^verbatim>\<open>data.get(key, default)\<close>. A value of another Python type than the field expects is
  outside the model and reported as \<open>TypeError\<close>.
\<close>

datatype pyval =
    PNone
  | PStr string
  | PInt int
  | PBool bool
  | PList "pyval list"
  | PDict "(string \<times> pyval) list"

type_synonym pydict = "(string \<times> pyval) list"

definition getitem :: "pydict \<Rightarrow> string \<Rightarrow> exn + pyval" where
  "getitem data key = (case map_of data key of None \<Rightarrow> Inl (KeyError key) | Some v \<Rightarrow> Inr v)"

definition get_or :: "pydict \<Rightarrow> string \<Rightarrow> pyval \<Rightarrow> pyval" where
  "get_or data key dflt = (case map_of data key of None \<Rightarrow> dflt | Some v \<Rightarrow> v)"

definition as_str :: "pyval \<Rightarrow> exn + string" where
  "as_str v = (case v of PStr s \<Rightarrow> Inr s | _ \<Rightarrow> Inl (TypeError ''expected str''))"

definition as_str_list :: "pyval \<Rightarrow> exn + string list" where
  "as_str_list v =
     (case v of
        PList vs \<Rightarrow>
          if list_all (\<lambda>x. case x of PStr _ \<Rightarrow> True | _ \<Rightarrow> False) vs
          then Inr (map (\<lambda>x. case x of PStr s \<Rightarrow> s | _ \<Rightarrow> []) vs)
          else Inl (TypeError ''expected list of str'')
      | _ \<Rightarrow> Inl (TypeError ''expected list of str''))"

definition as_dict :: "pyval \<Rightarrow> exn + pydict" where
  "as_dict v = (case v of PDict d \<Rightarrow> Inr d | _ \<Rightarrow> Inl (TypeError ''expected dict''))"

text \<open>
  \<^verbatim>\<open>UserRole.value\<close> and the enum look-up \<^verbatim>\<open>UserRole(value)\<close>.
\<close>

definition user_role_value :: "user_role \<Rightarrow> string" where
  "user_role_value role = (case role of ADMIN \<Rightarrow> ''admin'' | USER \<Rightarrow> ''user'' | GUEST \<Rightarrow> ''guest'')"

definition UserRole :: "pyval \<Rightarrow> exn + user_role" where
  "UserRole v =
     (if v = PStr ''admin'' then Inr ADMIN
      else if v = PStr ''user'' then Inr USER
      else if v = PStr ''guest'' then Inr GUEST
      else Inl (ValueError ''not a valid UserRole''))"

text \<open>
  \<^verbatim>\<open>User.to_dict\<close> and \<^verbatim>\<open>User.from_dict\<close> (user.py, lines 136-172); the password
  credential is not part of the record. \<^verbatim>\<open>datetime.isoformat\<close> and
  \<^verbatim>\<open>datetime.fromisoformat\<close> are parameters. \<open>user_from_dict\<close> evaluates the constructor
  arguments in order and calls the constructor with the password \<^verbatim>\<open>"dummy"\<close>;
  \<open>user_from_dict_restore\<close> is the rest of the method.
\<close>

definition user_to_dict :: "(datetime \<Rightarrow> string) \<Rightarrow> user \<Rightarrow> pydict" where
  "user_to_dict isoformat self =
     [(''id'', case user_id self of None \<Rightarrow> PNone | Some i \<Rightarrow> PStr i),
      (''username'', PStr (user_username self)),
      (''email'', PStr (user_email self)),
      (''role'', PStr (user_role_value (user_role self))),
      (''profile'', PDict [(''first_name'', PStr (first_name (user_profile self))),
                           (''last_name'', PStr (last_name (user_profile self))),
                           (''bio'', PStr (bio (user_profile self)))]),
      (''created_at'', PStr (isoformat (user_created_at self))),
      (''permissions'', PList (map PStr (user_permissions self)))]"

definition user_from_dict_restore ::
  "(string \<Rightarrow> exn + datetime) \<Rightarrow> pydict \<Rightarrow> user \<Rightarrow> exn + user" where
  "user_from_dict_restore fromisoformat data user =
     (case (case get_or data ''id'' PNone of PNone \<Rightarrow> Inr None | v \<Rightarrow> map_sum id Some (as_str v)) of
        Inl e \<Rightarrow> Inl e
      | Inr ident \<Rightarrow>
     (case getitem data ''created_at'' of
        Inl e \<Rightarrow> Inl e
      | Inr created_v \<Rightarrow>
     (case as_str created_v of
        Inl e \<Rightarrow> Inl e
      | Inr created_s \<Rightarrow>
     (case fromisoformat created_s of
        Inl e \<Rightarrow> Inl e
      | Inr created \<Rightarrow>
     (case as_str_list (get_or data ''permissions'' (PList [])) of
        Inl e \<Rightarrow> Inl e
      | Inr permissions \<Rightarrow>
     (case as_dict (get_or data ''profile'' (PDict [])) of
        Inl e \<Rightarrow> Inl e
      | Inr profile_data \<Rightarrow>
     (case as_str (get_or profile_data ''first_name'' (PStr [])) of
        Inl e \<Rightarrow> Inl e
      | Inr fn \<Rightarrow>
     (case as_str (get_or profile_data ''last_name'' (PStr [])) of
        Inl e \<Rightarrow> Inl e
      | Inr ln \<Rightarrow>
     (case as_str (get_or profile_data ''bio'' (PStr [])) of
        Inl e \<Rightarrow> Inl e
      | Inr b \<Rightarrow>
          Inr (user\<lparr>user_id := ident, user_created_at := created,
                     user_permissions := permissions,
                     user_profile := \<lparr>first_name = fn, last_name = ln, bio = b\<rparr>\<rparr>))))))))))"

definition user_from_dict ::
  "string \<Rightarrow> datetime \<Rightarrow> (string \<Rightarrow> exn + datetime) \<Rightarrow> pydict \<Rightarrow> exn + user" where
  "user_from_dict salt now fromisoformat data =
     (case getitem data ''username'' of
        Inl e \<Rightarrow> Inl e
      | Inr username_v \<Rightarrow>
     (case getitem data ''email'' of
        Inl e \<Rightarrow> Inl e
      | Inr email_v \<Rightarrow>
     (case getitem data ''role'' of
        Inl e \<Rightarrow> Inl e
      | Inr role_v \<Rightarrow>
     (case UserRole role_v of
        Inl e \<Rightarrow> Inl e
      | Inr role \<Rightarrow>
     (case as_str username_v of
        Inl e \<Rightarrow> Inl e
      | Inr username \<Rightarrow>
     (case as_str email_v of
        Inl e \<Rightarrow> Inl e
      | Inr email \<Rightarrow>
     (case new_user salt now username email ''dummy'' role of
        Inl e \<Rightarrow> Inl e
      | Inr user \<Rightarrow> user_from_dict_restore fromisoformat data user)))))))"

text \<open>
  The user of the repository's own serialisation test:
  \<^verbatim>\<open>User("testuser", "test@example.com", "password123")\<close> with identifier
  \<^verbatim>\<open>user_001\<close> and profile John Doe.
\<close>

definition test_user :: user where
  "test_user =
     \<lparr>user_id = Some ''user_001'', user_username = ''testuser'',
      user_email = ''test@example.com'',
      user_password_hash = Pbkdf2 ''5f2a'' (Padded ''password123''), user_role = USER,
      user_profile = \<lparr>first_name = ''John'', last_name = ''Doe'', bio = []\<rparr>,
      user_created_at = 0, user_permissions = [''profile.update'', ''content.create'']\<rparr>"

subsection \<open>User repositories: admins, well-formedness, example data\<close>

text \<open>
  The number of admins as the services count it,
  \<^verbatim>\<open>len(self.get_users_by_role(UserRole.ADMIN))\<close>, and the repositories in which every
  user is filed once, under its own identifier. \<open>create_user\<close> alone builds such
  repositories, but the program does not keep them so: after the public setter of
  \<^verbatim>\<open>User.id\<close>, a save files the same user under a second key.
\<close>

definition admin_count :: "user_repository \<Rightarrow> nat" where
  "admin_count repo = length (get_users_by_role repo ADMIN)"

definition user_repository_ok :: "user_repository \<Rightarrow> bool" where
  "user_repository_ok repo =
     (distinct (map fst (user_data repo)) \<and>
      list_all (\<lambda>(key, user). user_id user = Some key \<and> key \<noteq> []) (user_data repo))"

text \<open>
  Example data: the user that \<^verbatim>\<open>create_user("Bob", "bob@example.com", "secret1")\<close> stores
  in a new repository, and repositories with one and with two admins.
\<close>

definition bob_user :: user where
  "bob_user =
     \<lparr>user_id = Some ''userrepository_1'', user_username = ''bob'',
      user_email = ''bob@example.com'', user_password_hash = Pbkdf2 ''a1'' (Padded ''secret1''),
      user_role = USER, user_profile = \<lparr>first_name = [], last_name = [], bio = []\<rparr>,
      user_created_at = 0, user_permissions = [''profile.update'', ''content.create'']\<rparr>"

definition repo_after_bob :: user_repository where
  "repo_after_bob = \<lparr>user_data = [(''userrepository_1'', bob_user)], user_next_id = 2\<rparr>"

definition alice_admin :: user where
  "alice_admin =
     \<lparr>user_id = Some ''userrepository_1'', user_username = ''alice'',
      user_email = ''alice@example.com'', user_password_hash = Pbkdf2 ''a1'' (Padded ''secret1''),
      user_role = ADMIN, user_profile = \<lparr>first_name = [], last_name = [], bio = []\<rparr>,
      user_created_at = 0,
      user_permissions = [''admin.panel'', ''user.manage'', ''system.settings'']\<rparr>"

definition carol_admin :: user where
  "carol_admin =
     alice_admin\<lparr>user_id := Some ''userrepository_2'', user_username := ''carol'',
                  user_email := ''carol@example.com''\<rparr>"

text \<open>
  The only admin of a new repository, as
  \<^verbatim>\<open>create_user("admin", "admin@company.com", "admin123", UserRole.ADMIN)\<close> stores it, and
  the repository after \<^verbatim>\<open>admin.id = "user_001"\<close> and a save of the admin.
\<close>

definition sole_admin :: user where
  "sole_admin =
     \<lparr>user_id = Some ''userrepository_1'', user_username = ''admin'',
      user_email = ''admin@company.com'',
      user_password_hash = Pbkdf2 ''a1'' (Padded ''admin123''), user_role = ADMIN,
      user_profile = \<lparr>first_name = [], last_name = [], bio = []\<rparr>, user_created_at = 0,
      user_permissions = [''admin.panel'', ''user.manage'', ''system.settings'']\<rparr>"

definition repo_sole_admin :: user_repository where
  "repo_sole_admin = \<lparr>user_data = [(''userrepository_1'', sole_admin)], user_next_id = 2\<rparr>"

definition repo_admin_refiled :: user_repository where
  "repo_admin_refiled =
     \<lparr>user_data = [(''userrepository_1'', sole_admin\<lparr>user_id := Some ''user_001''\<rparr>),
                   (''user_001'', sole_admin\<lparr>user_id := Some ''user_001''\<rparr>)],
      user_next_id = 2\<rparr>"

definition repo_one_admin :: user_repository where
  "repo_one_admin =
     \<lparr>user_data = [(''userrepository_1'', alice_admin),
                   (''userrepository_2'', bob_user\<lparr>user_id := Some ''userrepository_2''\<rparr>)],
      user_next_id = 3\<rparr>"

definition repo_two_admins :: user_repository where
  "repo_two_admins =
     \<lparr>user_data = [(''userrepository_1'', alice_admin), (''userrepository_2'', carol_admin)],
      user_next_id = 3\<rparr>"

subsection \<open>models/task.py, continued\<close>

text \<open>
  \<^verbatim>\<open>Task._validate_title\<close>, \<^verbatim>\<open>Task.__init__\<close>, the setter of \<^verbatim>\<open>assignee_id\<close> and
  \<^verbatim>\<open>Task.add_comment\<close> (task.py, lines 47-65, 107-110, 138-142, 152-165). The readings of
  the clock within one call are taken at the same instant.
\<close>

definition validate_title :: "string \<Rightarrow> exn + string" where
  "validate_title title =
     (if title = [] \<or> strip title = [] then Inl (ValueError ''Task title cannot be empty'')
      else Inr (strip title))"

definition new_task ::
  "string \<Rightarrow> datetime \<Rightarrow> string \<Rightarrow> string \<Rightarrow> string option \<Rightarrow> task_priority \<Rightarrow>
   datetime option \<Rightarrow> exn + task" where
  "new_task uuid now title description assignee_id priority due_date =
     (case validate_title title of
        Inl e \<Rightarrow> Inl e
      | Inr title' \<Rightarrow>
          Inr \<lparr>task_id = uuid, task_title = title', task_description = description,
               task_status = TODO, task_priority = priority, task_assignee_id = assignee_id,
               task_due_date = due_date, task_created_at = now, task_updated_at = now,
               task_comments = [], task_tags = []\<rparr>)"

definition set_assignee_id :: "datetime \<Rightarrow> task \<Rightarrow> string option \<Rightarrow> task" where
  "set_assignee_id now self v = self\<lparr>task_assignee_id := v, task_updated_at := now\<rparr>"

definition add_comment ::
  "string \<Rightarrow> datetime \<Rightarrow> task \<Rightarrow> string \<Rightarrow> string \<Rightarrow> (exn + task_comment) \<times> task" where
  "add_comment uuid now self author_id content =
     (if strip content = [] then (Inl (ValueError ''Comment content cannot be empty''), self)
      else
        let comment = \<lparr>comment_id = uuid, comment_author_id = author_id,
                       comment_content = strip content, comment_created_at = now\<rparr>
        in (Inr comment,
            self\<lparr>task_comments := task_comments self @ [comment], task_updated_at := now\<rparr>))"

subsection \<open>repositories/task_repository.py\<close>

text \<open>
  \<^verbatim>\<open>TaskRepository\<close> (task_repository.py, lines 17-38). \<^verbatim>\<open>Task.id\<close> is a property without
  setter, so \<^verbatim>\<open>task.id = self._generate_id()\<close> raises \<^verbatim>\<open>AttributeError\<close> after the
  counter has been advanced; the identifier of a task made by the constructor is a UUID and
  never empty.
\<close>

record task_repository =
  task_data :: "(string \<times> task) list"
  task_next_id :: nat

definition task_get_by_id :: "task_repository \<Rightarrow> string \<Rightarrow> task option" where
  "task_get_by_id repo tid = map_of (task_data repo) tid"

definition task_put :: "task_repository \<Rightarrow> string \<Rightarrow> task \<Rightarrow> task_repository" where
  "task_put repo key obj = repo\<lparr>task_data := AList.update key obj (task_data repo)\<rparr>"

definition task_save :: "task_repository \<Rightarrow> task \<Rightarrow> (exn + task) \<times> task_repository" where
  "task_save repo task =
     (if task_id task = []
      then (Inl (AttributeError ''can't set attribute''),
            repo\<lparr>task_next_id := task_next_id repo + 1\<rparr>)
      else (Inr task, task_put repo (task_id task) task))"

subsection \<open>services/task_service.py\<close>

text \<open>An optional string is truthy when it is present and not empty.\<close>

definition truthy :: "string option \<Rightarrow> bool" where
  "truthy v = (case v of None \<Rightarrow> False | Some s \<Rightarrow> s \<noteq> [])"

text \<open>
  \<^verbatim>\<open>TaskService._can_modify_task\<close>, \<^verbatim>\<open>_can_assign_task\<close> and \<^verbatim>\<open>_can_comment_on_task\<close>
  (task_service.py, lines 217-262).
\<close>

definition can_modify_task :: "user_repository \<Rightarrow> string \<Rightarrow> task \<Rightarrow> bool" where
  "can_modify_task users uid task =
     (case user_get_by_id users uid of
        None \<Rightarrow> False
      | Some user \<Rightarrow>
          if is_admin user then True
          else if task_assignee_id task = Some uid then True
          else False)"

definition can_assign_task :: "user_repository \<Rightarrow> string \<Rightarrow> task \<Rightarrow> bool" where
  "can_assign_task users uid task =
     (case user_get_by_id users uid of
        None \<Rightarrow> False
      | Some user \<Rightarrow> if is_admin user then True else False)"

definition can_comment_on_task :: "user_repository \<Rightarrow> string \<Rightarrow> task \<Rightarrow> bool" where
  "can_comment_on_task users uid task =
     (case user_get_by_id users uid of
        None \<Rightarrow> False
      | Some user \<Rightarrow>
          if is_admin user then True
          else if task_assignee_id task = Some uid then True
          else False)"

text \<open>\<^verbatim>\<open>TaskService.create_task\<close> (task_service.py, lines 22-48).\<close>

definition create_task ::
  "string \<Rightarrow> datetime \<Rightarrow> task_repository \<Rightarrow> user_repository \<Rightarrow> string \<Rightarrow> string \<Rightarrow>
   string option \<Rightarrow> task_priority \<Rightarrow> datetime option \<Rightarrow> string option \<Rightarrow>
   (exn + task) \<times> task_repository" where
  "create_task uuid now repo users title description assignee_id priority due_date creator_id =
     (if truthy assignee_id \<and> user_get_by_id users (the assignee_id) = None
      then (Inl (ValueError (''Assignee with ID '' @ the assignee_id @ '' not found'')), repo)
      else if truthy creator_id \<and> user_get_by_id users (the creator_id) = None
      then (Inl (ValueError (''Creator with ID '' @ the creator_id @ '' not found'')), repo)
      else case new_task uuid now title description assignee_id priority due_date of
             Inl e \<Rightarrow> (Inl e, repo)
           | Inr task \<Rightarrow> task_save repo task)"

text \<open>\<^verbatim>\<open>TaskService.update_task_status\<close> (task_service.py, lines 54-71).\<close>

definition update_task_status ::
  "datetime \<Rightarrow> task_repository \<Rightarrow> user_repository \<Rightarrow> string \<Rightarrow> task_status \<Rightarrow>
   string option \<Rightarrow> (exn + task) \<times> task_repository" where
  "update_task_status now repo users tid new_status uid =
     (case task_get_by_id repo tid of
        None \<Rightarrow> (Inl (ValueError (''Task with ID '' @ tid @ '' not found'')), repo)
      | Some task \<Rightarrow>
          if truthy uid \<and> \<not> can_modify_task users (the uid) task
          then (Inl (PermissionError ''User does not have permission to modify this task''), repo)
          else
            let (outcome, task') = update_status now task new_status;
                repo' = task_put repo tid task'
            in case outcome of
                 Inl e \<Rightarrow> (Inl e, repo')
               | Inr _ \<Rightarrow> task_save repo' task')"

text \<open>\<^verbatim>\<open>TaskService.assign_task\<close> (task_service.py, lines 73-88).\<close>

definition assign_task ::
  "datetime \<Rightarrow> task_repository \<Rightarrow> user_repository \<Rightarrow> string \<Rightarrow> string \<Rightarrow> string \<Rightarrow>
   (exn + task) \<times> task_repository" where
  "assign_task now repo users tid assignee_id assigner_id =
     (case task_get_by_id repo tid of
        None \<Rightarrow> (Inl (ValueError (''Task with ID '' @ tid @ '' not found'')), repo)
      | Some task \<Rightarrow>
     (case user_get_by_id users assignee_id of
        None \<Rightarrow> (Inl (ValueError (''Assignee with ID '' @ assignee_id @ '' not found'')), repo)
      | Some assignee \<Rightarrow>
          if \<not> can_assign_task users assigner_id task
          then (Inl (PermissionError ''User does not have permission to assign this task''), repo)
          else
            let task' = set_assignee_id now task (Some assignee_id);
                repo' = task_put repo tid task'
            in task_save repo' task'))"

text \<open>\<^verbatim>\<open>TaskService.add_task_comment\<close> (task_service.py, lines 90-110).\<close>

definition add_task_comment ::
  "string \<Rightarrow> datetime \<Rightarrow> task_repository \<Rightarrow> user_repository \<Rightarrow> string \<Rightarrow> string \<Rightarrow> string \<Rightarrow>
   (exn + task) \<times> task_repository" where
  "add_task_comment uuid now repo users tid author_id content =
     (case task_get_by_id repo tid of
        None \<Rightarrow> (Inl (ValueError (''Task with ID '' @ tid @ '' not found'')), repo)
      | Some task \<Rightarrow>
     (case user_get_by_id users author_id of
        None \<Rightarrow> (Inl (ValueError (''Author with ID '' @ author_id @ '' not found'')), repo)
      | Some author \<Rightarrow>
          if \<not> can_comment_on_task users author_id task
          then (Inl (PermissionError ''User does not have permission to comment on this task''),
                repo)
          else
            let (outcome, task') = add_comment uuid now task author_id content;
                repo' = task_put repo tid task'
            in case outcome of
                 Inl e \<Rightarrow> (Inl e, repo')
               | Inr _ \<Rightarrow> task_save repo' task'))"

text \<open>
  A task repository as \<open>task_save\<close> builds it: each stored task carries its key as
  identifier, and no key is empty.
\<close>

definition task_repository_ok :: "task_repository \<Rightarrow> bool" where
  "task_repository_ok repo =
     list_all (\<lambda>(key, task). task_id task = key \<and> key \<noteq> []) (task_data repo)"

text \<open>
  Example data for the scenario of the specification: admin A and standard user B, and a
  task T assigned to B.
\<close>

definition user_A :: user where
  "user_A = alice_admin"

definition user_B :: user where
  "user_B = bob_user\<lparr>user_id := Some ''userrepository_2''\<rparr>"

definition task_T :: task where
  "task_T =
     \<lparr>task_id = ''0f8b'', task_title = ''Write report'', task_description = '''',
      task_status = TODO, task_priority = MEDIUM, task_assignee_id = Some ''userrepository_2'',
      task_due_date = None, task_created_at = 0, task_updated_at = 0,
      task_comments = [], task_tags = []\<rparr>"

definition repo_T :: task_repository where
  "repo_T = \<lparr>task_data = [(''0f8b'', task_T)], task_next_id = 1\<rparr>"

subsection \<open>models/team.py\<close>

datatype team_role = LEADER | MEMBER | CONTRIBUTOR

record team_member =
  member_user_id :: string
  member_role :: team_role
  member_joined_at :: datetime
  member_permissions :: "string list"

record team =
  team_id :: string
  team_name :: string
  team_description :: string
  team_leader_id :: "string option"
  team_created_at :: datetime
  team_updated_at :: datetime
  team_members :: "team_member list"
  team_projects :: "string list"

text \<open>
  \<^verbatim>\<open>Team._validate_name\<close>, \<^verbatim>\<open>Team.__init__\<close> and \<^verbatim>\<open>Team._get_default_permissions\<close>
  (team.py, lines 39-52 and 103-124). The constructor records the leader's identifier and
  starts with an empty member list.
\<close>

definition team_validate_name :: "string \<Rightarrow> exn + string" where
  "team_validate_name name =
     (if name = [] \<or> strip name = [] then Inl (ValueError ''Team name cannot be empty'')
      else Inr (strip name))"

definition new_team :: "string \<Rightarrow> datetime \<Rightarrow> string \<Rightarrow> string \<Rightarrow> string option \<Rightarrow> exn + team" where
  "new_team uuid now name description leader_id =
     (case team_validate_name name of
        Inl e \<Rightarrow> Inl e
      | Inr name' \<Rightarrow>
          Inr \<lparr>team_id = uuid, team_name = name', team_description = description,
               team_leader_id = leader_id, team_created_at = now, team_updated_at = now,
               team_members = [], team_projects = []\<rparr>)"

definition get_default_permissions :: "team_role \<Rightarrow> string list" where
  "get_default_permissions role =
     (case role of
        LEADER \<Rightarrow> [''team.manage'', ''project.create'', ''project.assign'',
                    ''member.add'', ''member.remove'', ''member.promote'']
      | MEMBER \<Rightarrow> [''project.view'', ''task.create'', ''task.assign'',
                    ''comment.add'', ''milestone.view'']
      | CONTRIBUTOR \<Rightarrow> [''project.view'', ''task.view'', ''comment.add''])"

text \<open>\<^verbatim>\<open>Team.is_member\<close> and \<^verbatim>\<open>Team.get_member_role\<close> (team.py, lines 168-177).\<close>

definition is_member :: "team \<Rightarrow> string \<Rightarrow> bool" where
  "is_member self uid = list_ex (\<lambda>member. member_user_id member = uid) (team_members self)"

definition get_member_role :: "team \<Rightarrow> string \<Rightarrow> team_role option" where
  "get_member_role self uid =
     map_option member_role (find (\<lambda>member. member_user_id member = uid) (team_members self))"

text \<open>\<^verbatim>\<open>Team.add_member\<close> (team.py, lines 126-144).\<close>

definition add_member :: "datetime \<Rightarrow> team \<Rightarrow> string \<Rightarrow> team_role \<Rightarrow> (exn + team_member) \<times> team" where
  "add_member now self uid role =
     (if is_member self uid
      then (Inl (ValueError ''User is already a member of this team''), self)
      else
        let member = \<lparr>member_user_id = uid, member_role = role, member_joined_at = now,
                      member_permissions = get_default_permissions role\<rparr>
        in (Inr member,
            self\<lparr>team_members := team_members self @ [member], team_updated_at := now\<rparr>))"

text \<open>
  \<^verbatim>\<open>Team.remove_member\<close> (team.py, lines 146-156). \<open>remove_member_scan\<close> is the loop over
  the member list: \<open>None\<close> when it ends without a match, otherwise the outcome at the
  first member with the given identifier: the leader test, then \<^verbatim>\<open>pop(i)\<close>.
\<close>

fun remove_member_scan ::
  "string option \<Rightarrow> string \<Rightarrow> team_member list \<Rightarrow> (exn + team_member list) option" where
  "remove_member_scan leader_id uid [] = None"
| "remove_member_scan leader_id uid (member # rest) =
     (if member_user_id member = uid
      then (if Some uid = leader_id then Some (Inl (ValueError ''Cannot remove team leader''))
            else Some (Inr rest))
      else map_option (map_sum id (Cons member)) (remove_member_scan leader_id uid rest))"

definition remove_member :: "datetime \<Rightarrow> team \<Rightarrow> string \<Rightarrow> (exn + bool) \<times> team" where
  "remove_member now self uid =
     (case remove_member_scan (team_leader_id self) uid (team_members self) of
        None \<Rightarrow> (Inr False, self)
      | Some (Inl e) \<Rightarrow> (Inl e, self)
      | Some (Inr members') \<Rightarrow>
          (Inr True, self\<lparr>team_members := members', team_updated_at := now\<rparr>))"

subsection \<open>repositories/team_repository.py\<close>

text \<open>
  \<^verbatim>\<open>TeamRepository\<close> (team_repository.py, lines 17-27); \<^verbatim>\<open>Team.id\<close> has no setter either.
\<close>

record team_repository =
  team_data :: "(string \<times> team) list"
  team_next_id :: nat

definition team_get_by_id :: "team_repository \<Rightarrow> string \<Rightarrow> team option" where
  "team_get_by_id repo tid = map_of (team_data repo) tid"

definition team_put :: "team_repository \<Rightarrow> string \<Rightarrow> team \<Rightarrow> team_repository" where
  "team_put repo key obj = repo\<lparr>team_data := AList.update key obj (team_data repo)\<rparr>"

definition team_save :: "team_repository \<Rightarrow> team \<Rightarrow> (exn + team) \<times> team_repository" where
  "team_save repo team =
     (if team_id team = []
      then (Inl (AttributeError ''can't set attribute''),
            repo\<lparr>team_next_id := team_next_id repo + 1\<rparr>)
      else (Inr team, team_put repo (team_id team) team))"

definition team_repository_ok :: "team_repository \<Rightarrow> bool" where
  "team_repository_ok repo =
     list_all (\<lambda>(key, team). team_id team = key \<and> key \<noteq> []) (team_data repo)"

subsection \<open>services/team_service.py\<close>

text \<open>
  \<^verbatim>\<open>TeamService._can_manage_team\<close> and \<^verbatim>\<open>TeamService.remove_team_member\<close>
  (team_service.py, lines 268-287 and 71-88).
\<close>

definition can_manage_team :: "user_repository \<Rightarrow> string \<Rightarrow> team \<Rightarrow> bool" where
  "can_manage_team users uid team =
     (case user_get_by_id users uid of
        None \<Rightarrow> False
      | Some user \<Rightarrow>
          if is_admin user then True
          else if team_leader_id team = Some uid then True
          else if get_member_role team uid = Some LEADER then True
          else False)"

definition remove_team_member ::
  "datetime \<Rightarrow> team_repository \<Rightarrow> user_repository \<Rightarrow> string \<Rightarrow> string \<Rightarrow> string \<Rightarrow>
   (exn + bool) \<times> team_repository" where
  "remove_team_member now repo users tid uid remover_id =
     (case team_get_by_id repo tid of
        None \<Rightarrow> (Inl (ValueError (''Team with ID '' @ tid @ '' not found'')), repo)
      | Some team \<Rightarrow>
          if \<not> can_manage_team users remover_id team
          then (Inl (PermissionError ''User does not have permission to manage this team''), repo)
          else
            let (outcome, team') = remove_member now team uid;
                repo' = team_put repo tid team'
            in case outcome of
                 Inl e \<Rightarrow> (Inl e, repo')
               | Inr success \<Rightarrow>
                   if success
                   then (case fst (team_save repo' team') of
                           Inl e \<Rightarrow> (Inl e, snd (team_save repo' team'))
                         | Inr _ \<Rightarrow> (Inr success, snd (team_save repo' team')))
                   else (Inr success, repo'))"

text \<open>
  Example data: the team of the repository's model tests,
  \<^verbatim>\<open>Team("Test Team", "A test team", leader_id="user_001")\<close>, and a team whose leader
  \<^verbatim>\<open>userrepository_2\<close> is enrolled with a second member.
\<close>

definition test_team :: team where
  "test_team =
     \<lparr>team_id = ''6c1d'', team_name = ''Test Team'', team_description = ''A test team'',
      team_leader_id = Some ''user_001'', team_created_at = 0, team_updated_at = 0,
      team_members = [], team_projects = []\<rparr>"

definition led_team :: team where
  "led_team =
     \<lparr>team_id = ''7e2f'', team_name = ''Core'', team_description = '''',
      team_leader_id = Some ''userrepository_2'', team_created_at = 0, team_updated_at = 0,
      team_members =
        [\<lparr>member_user_id = ''userrepository_2'', member_role = LEADER, member_joined_at = 0,
          member_permissions = get_default_permissions LEADER\<rparr>,
         \<lparr>member_user_id = ''userrepository_3'', member_role = MEMBER, member_joined_at = 1,
          member_permissions = get_default_permissions MEMBER\<rparr>],
      team_projects = []\<rparr>"

definition repo_led_team :: team_repository where
  "repo_led_team = \<lparr>team_data = [(''7e2f'', led_team)], team_next_id = 1\<rparr>"

text \<open>Example data: the task T once it is Done.\<close>

definition repo_T_done :: task_repository where
  "repo_T_done = \<lparr>task_data = [(''0f8b'', task_T\<lparr>task_status := DONE\<rparr>)], task_next_id = 1\<rparr>"

subsection \<open>models/user.py: the profile\<close>

text \<open>
  \<^verbatim>\<open>User.update_profile\<close> (user.py, lines 120-123) for keyword arguments whose values are
  strings: a name that is a field of the profile is assigned. The property
  \<^verbatim>\<open>full_name\<close> has no setter, so assigning it raises \<^verbatim>\<open>AttributeError\<close>; any other name
  is skipped (the names of inherited attributes are left out).
\<close>

fun update_profile_loop :: "user_profile \<Rightarrow> (string \<times> string) list \<Rightarrow> (exn + unit) \<times> user_profile" where
  "update_profile_loop profile [] = (Inr (), profile)"
| "update_profile_loop profile ((key, v) # kwargs) =
     (if key = ''first_name'' then update_profile_loop (profile\<lparr>first_name := v\<rparr>) kwargs
      else if key = ''last_name'' then update_profile_loop (profile\<lparr>last_name := v\<rparr>) kwargs
      else if key = ''bio'' then update_profile_loop (profile\<lparr>bio := v\<rparr>) kwargs
      else if key = ''full_name'' then (Inl (AttributeError ''can't set attribute''), profile)
      else update_profile_loop profile kwargs)"

definition update_profile :: "user \<Rightarrow> (string \<times> string) list \<Rightarrow> (exn + unit) \<times> user" where
  "update_profile self kwargs =
     (fst (update_profile_loop (user_profile self) kwargs),
      self\<lparr>user_profile := snd (update_profile_loop (user_profile self) kwargs)\<rparr>)"

subsection \<open>services/user_service.py: the profile\<close>

text \<open>
  \<^verbatim>\<open>UserService.update_user_profile\<close> (user_service.py, lines 65-84). The loop validates
  every keyword argument before the profile is touched; \<open>profile_strings\<close> reads the
  validated values, which are all strings.
\<close>

fun validate_profile_data :: "(string \<times> pyval) list \<Rightarrow> exn option" where
  "validate_profile_data [] = None"
| "validate_profile_data ((key, v) # profile_data) =
     (if key \<notin> set [''first_name'', ''last_name'', ''bio'']
      then Some (ValueError (''Invalid profile field: '' @ key))
      else if (case v of PStr _ \<Rightarrow> False | _ \<Rightarrow> True)
      then Some (ValueError (''Profile field '' @ key @ '' must be a string''))
      else validate_profile_data profile_data)"

definition profile_strings :: "(string \<times> pyval) list \<Rightarrow> (string \<times> string) list" where
  "profile_strings profile_data =
     map (\<lambda>(key, v). (key, case v of PStr s \<Rightarrow> s | _ \<Rightarrow> [])) profile_data"

definition update_user_profile ::
  "user_repository \<Rightarrow> string \<Rightarrow> (string \<times> pyval) list \<Rightarrow> (exn + user) \<times> user_repository" where
  "update_user_profile repo uid profile_data =
     (case user_get_by_id repo uid of
        None \<Rightarrow> (Inl (ValueError (''User with ID '' @ uid @ '' not found'')), repo)
      | Some user \<Rightarrow>
     (case validate_profile_data profile_data of
        Some e \<Rightarrow> (Inl e, repo)
      | None \<Rightarrow>
          let (outcome, user') = update_profile user (profile_strings profile_data);
              repo' = user_put repo uid user'
          in case outcome of
               Inl e \<Rightarrow> (Inl e, repo')
             | Inr _ \<Rightarrow> (Inr (fst (user_save repo' user')), snd (user_save repo' user'))))"

subsection \<open>models/project.py, continued\<close>

text \<open>
  \<^verbatim>\<open>Project._validate_name\<close>, \<^verbatim>\<open>Project.__init__\<close>, \<^verbatim>\<open>Project.update_status\<close>,
  \<^verbatim>\<open>Project.add_milestone\<close>, \<^verbatim>\<open>Project.complete_milestone\<close>,
  \<^verbatim>\<open>Project.add_team_member\<close> and \<^verbatim>\<open>Project.remove_team_member\<close> (project.py, lines
  45-60, 119-128 and 146-183). \<open>complete_milestone_scan\<close> is the loop over the milestones,
  \<open>None\<close> when no milestone has the identifier; \<^verbatim>\<open>list.remove\<close> removes the first
  occurrence.
\<close>

definition project_validate_name :: "string \<Rightarrow> exn + string" where
  "project_validate_name name =
     (if name = [] \<or> strip name = [] then Inl (ValueError ''Project name cannot be empty'')
      else Inr (strip name))"

definition new_project ::
  "string \<Rightarrow> datetime \<Rightarrow> string \<Rightarrow> string \<Rightarrow> string option \<Rightarrow> exn + project" where
  "new_project uuid now name description owner_id =
     (case project_validate_name name of
        Inl e \<Rightarrow> Inl e
      | Inr name' \<Rightarrow>
          Inr \<lparr>project_id = uuid, project_name = name', project_description = description,
               project_status = PLANNING, project_owner_id = owner_id,
               project_created_at = now, project_updated_at = now, project_tasks = [],
               project_milestones = [], project_team_members = []\<rparr>)"

definition project_update_status :: "datetime \<Rightarrow> project \<Rightarrow> project_status \<Rightarrow> project" where
  "project_update_status now self new_status =
     self\<lparr>project_status := new_status, project_updated_at := now\<rparr>"

definition project_add_milestone ::
  "string \<Rightarrow> datetime \<Rightarrow> project \<Rightarrow> string \<Rightarrow> string \<Rightarrow> datetime \<Rightarrow> project_milestone \<times> project" where
  "project_add_milestone uuid now self title description due_date =
     (let milestone = \<lparr>milestone_id = uuid, milestone_title = strip title,
                        milestone_description = strip description,
                        milestone_due_date = due_date, milestone_completed = False,
                        milestone_completed_at = None\<rparr>
      in (milestone,
          self\<lparr>project_milestones := project_milestones self @ [milestone],
               project_updated_at := now\<rparr>))"

fun complete_milestone_scan ::
  "datetime \<Rightarrow> string \<Rightarrow> project_milestone list \<Rightarrow> project_milestone list option" where
  "complete_milestone_scan now mid [] = None"
| "complete_milestone_scan now mid (milestone # rest) =
     (if milestone_id milestone = mid
      then Some (milestone\<lparr>milestone_completed := True, milestone_completed_at := Some now\<rparr>
                 # rest)
      else map_option (Cons milestone) (complete_milestone_scan now mid rest))"

definition project_complete_milestone :: "datetime \<Rightarrow> project \<Rightarrow> string \<Rightarrow> bool \<times> project" where
  "project_complete_milestone now self mid =
     (case complete_milestone_scan now mid (project_milestones self) of
        None \<Rightarrow> (False, self)
      | Some milestones' \<Rightarrow>
          (True, self\<lparr>project_milestones := milestones', project_updated_at := now\<rparr>))"

definition project_add_team_member :: "datetime \<Rightarrow> project \<Rightarrow> string \<Rightarrow> project" where
  "project_add_team_member now self uid =
     (if uid \<notin> set (project_team_members self)
      then self\<lparr>project_team_members := project_team_members self @ [uid],
                project_updated_at := now\<rparr>
      else self)"

definition project_remove_team_member :: "datetime \<Rightarrow> project \<Rightarrow> string \<Rightarrow> project" where
  "project_remove_team_member now self uid =
     (if uid \<in> set (project_team_members self)
      then self\<lparr>project_team_members := remove1 uid (project_team_members self),
                project_updated_at := now\<rparr>
      else self)"

subsection \<open>repositories/project_repository.py\<close>

text \<open>
  \<^verbatim>\<open>ProjectRepository\<close> (project_repository.py, lines 17-27); \<^verbatim>\<open>Project.id\<close> has no
  setter.
\<close>

record project_repository =
  project_data :: "(string \<times> project) list"
  project_next_id :: nat

definition project_get_by_id :: "project_repository \<Rightarrow> string \<Rightarrow> project option" where
  "project_get_by_id repo pid = map_of (project_data repo) pid"

definition project_put :: "project_repository \<Rightarrow> string \<Rightarrow> project \<Rightarrow> project_repository" where
  "project_put repo key obj = repo\<lparr>project_data := AList.update key obj (project_data repo)\<rparr>"

definition project_save ::
  "project_repository \<Rightarrow> project \<Rightarrow> (exn + project) \<times> project_repository" where
  "project_save repo project =
     (if project_id project = []
      then (Inl (AttributeError ''can't set attribute''),
            repo\<lparr>project_next_id := project_next_id repo + 1\<rparr>)
      else (Inr project, project_put repo (project_id project) project))"

definition project_repository_ok :: "project_repository \<Rightarrow> bool" where
  "project_repository_ok repo =
     list_all (\<lambda>(key, project). project_id project = key \<and> key \<noteq> []) (project_data repo)"

subsection \<open>services/project_service.py\<close>

text \<open>\<^verbatim>\<open>ProjectService._can_modify_project\<close> (project_service.py, lines 291-309).\<close>

definition can_modify_project :: "user_repository \<Rightarrow> string \<Rightarrow> project \<Rightarrow> bool" where
  "can_modify_project users uid project =
     (case user_get_by_id users uid of
        None \<Rightarrow> False
      | Some user \<Rightarrow>
          if is_admin user then True
          else if project_owner_id project = Some uid then True
          else if uid \<in> set (project_team_members project) then True
          else False)"

text \<open>
  The mutating operations of \<^verbatim>\<open>ProjectService\<close> (project_service.py, lines 24-173), in
  the order of the source.
\<close>

definition create_project ::
  "string \<Rightarrow> datetime \<Rightarrow> project_repository \<Rightarrow> user_repository \<Rightarrow> string \<Rightarrow> string \<Rightarrow>
   string option \<Rightarrow> (exn + project) \<times> project_repository" where
  "create_project uuid now repo users name description owner_id =
     (if truthy owner_id \<and> user_get_by_id users (the owner_id) = None
      then (Inl (ValueError (''Owner with ID '' @ the owner_id @ '' not found'')), repo)
      else case new_project uuid now name description owner_id of
             Inl e \<Rightarrow> (Inl e, repo)
           | Inr project \<Rightarrow> project_save repo project)"

definition update_project_status ::
  "datetime \<Rightarrow> project_repository \<Rightarrow> user_repository \<Rightarrow> string \<Rightarrow> project_status \<Rightarrow> string \<Rightarrow>
   (exn + project) \<times> project_repository" where
  "update_project_status now repo users pid new_status uid =
     (case project_get_by_id repo pid of
        None \<Rightarrow> (Inl (ValueError (''Project with ID '' @ pid @ '' not found'')), repo)
      | Some project \<Rightarrow>
          if \<not> can_modify_project users uid project
          then (Inl (PermissionError ''User does not have permission to modify this project''),
                repo)
          else
            let project' = project_update_status now project new_status;
                repo' = project_put repo pid project'
            in project_save repo' project')"

definition add_task_to_project ::
  "datetime \<Rightarrow> project_repository \<Rightarrow> user_repository \<Rightarrow> string \<Rightarrow> task \<Rightarrow> string \<Rightarrow>
   (exn + project) \<times> project_repository" where
  "add_task_to_project now repo users pid task uid =
     (case project_get_by_id repo pid of
        None \<Rightarrow> (Inl (ValueError (''Project with ID '' @ pid @ '' not found'')), repo)
      | Some project \<Rightarrow>
          if \<not> can_modify_project users uid project
          then (Inl (PermissionError ''User does not have permission to modify this project''),
                repo)
          else
            let project' = add_task now project task;
                repo' = project_put repo pid project'
            in project_save repo' project')"

definition remove_task_from_project ::
  "datetime \<Rightarrow> project_repository \<Rightarrow> user_repository \<Rightarrow> string \<Rightarrow> task \<Rightarrow> string \<Rightarrow>
   (exn + project) \<times> project_repository" where
  "remove_task_from_project now repo users pid task uid =
     (case project_get_by_id repo pid of
        None \<Rightarrow> (Inl (ValueError (''Project with ID '' @ pid @ '' not found'')), repo)
      | Some project \<Rightarrow>
          if \<not> can_modify_project users uid project
          then (Inl (PermissionError ''User does not have permission to modify this project''),
                repo)
          else
            let project' = remove_task now project task;
                repo' = project_put repo pid project'
            in project_save repo' project')"

definition add_milestone ::
  "string \<Rightarrow> datetime \<Rightarrow> project_repository \<Rightarrow> user_repository \<Rightarrow> string \<Rightarrow> string \<Rightarrow> string \<Rightarrow>
   datetime \<Rightarrow> string \<Rightarrow> (exn + project_milestone) \<times> project_repository" where
  "add_milestone uuid now repo users pid title description due_date uid =
     (case project_get_by_id repo pid of
        None \<Rightarrow> (Inl (ValueError (''Project with ID '' @ pid @ '' not found'')), repo)
      | Some project \<Rightarrow>
          if \<not> can_modify_project users uid project
          then (Inl (PermissionError ''User does not have permission to modify this project''),
                repo)
          else
            let (milestone, project') =
                  project_add_milestone uuid now project title description due_date;
                repo' = project_put repo pid project'
            in case fst (project_save repo' project') of
                 Inl e \<Rightarrow> (Inl e, snd (project_save repo' project'))
               | Inr _ \<Rightarrow> (Inr milestone, snd (project_save repo' project')))"

definition complete_milestone ::
  "datetime \<Rightarrow> project_repository \<Rightarrow> user_repository \<Rightarrow> string \<Rightarrow> string \<Rightarrow> string \<Rightarrow>
   (exn + bool) \<times> project_repository" where
  "complete_milestone now repo users pid mid uid =
     (case project_get_by_id repo pid of
        None \<Rightarrow> (Inl (ValueError (''Project with ID '' @ pid @ '' not found'')), repo)
      | Some project \<Rightarrow>
          if \<not> can_modify_project users uid project
          then (Inl (PermissionError ''User does not have permission to modify this project''),
                repo)
          else
            let (success, project') = project_complete_milestone now project mid;
                repo' = project_put repo pid project'
            in if success
               then (case fst (project_save repo' project') of
                       Inl e \<Rightarrow> (Inl e, snd (project_save repo' project'))
                     | Inr _ \<Rightarrow> (Inr success, snd (project_save repo' project')))
               else (Inr success, repo'))"

definition project_service_add_team_member ::
  "datetime \<Rightarrow> project_repository \<Rightarrow> user_repository \<Rightarrow> string \<Rightarrow> string \<Rightarrow> string \<Rightarrow>
   (exn + project) \<times> project_repository" where
  "project_service_add_team_member now repo users pid uid adder_id =
     (case project_get_by_id repo pid of
        None \<Rightarrow> (Inl (ValueError (''Project with ID '' @ pid @ '' not found'')), repo)
      | Some project \<Rightarrow>
     (case user_get_by_id users uid of
        None \<Rightarrow> (Inl (ValueError (''User with ID '' @ uid @ '' not found'')), repo)
      | Some user \<Rightarrow>
          if \<not> can_modify_project users adder_id project
          then (Inl (PermissionError ''User does not have permission to modify this project''),
                repo)
          else
            let project' = project_add_team_member now project uid;
                repo' = project_put repo pid project'
            in project_save repo' project'))"

definition project_service_remove_team_member ::
  "datetime \<Rightarrow> project_repository \<Rightarrow> user_repository \<Rightarrow> string \<Rightarrow> string \<Rightarrow> string \<Rightarrow>
   (exn + project) \<times> project_repository" where
  "project_service_remove_team_member now repo users pid uid remover_id =
     (case project_get_by_id repo pid of
        None \<Rightarrow> (Inl (ValueError (''Project with ID '' @ pid @ '' not found'')), repo)
      | Some project \<Rightarrow>
          if \<not> can_modify_project users remover_id project
          then (Inl (PermissionError ''User does not have permission to modify this project''),
                repo)
          else
            let project' = project_remove_team_member now project uid;
                repo' = project_put repo pid project'
            in project_save repo' project')"

subsection \<open>models/team.py, continued\<close>

text \<open>
  \<^verbatim>\<open>Team.promote_member\<close>, \<^verbatim>\<open>Team.add_project\<close>, \<^verbatim>\<open>Team.remove_project\<close> and the setter
  of \<^verbatim>\<open>leader_id\<close> (team.py, lines 81-84, 158-166 and 186-196). \<open>promote_member_scan\<close> is
  the loop over the members.
\<close>

fun promote_member_scan :: "string \<Rightarrow> team_role \<Rightarrow> team_member list \<Rightarrow> team_member list option" where
  "promote_member_scan uid new_role [] = None"
| "promote_member_scan uid new_role (member # rest) =
     (if member_user_id member = uid
      then Some (member\<lparr>member_role := new_role,
                        member_permissions := get_default_permissions new_role\<rparr> # rest)
      else map_option (Cons member) (promote_member_scan uid new_role rest))"

definition promote_member :: "datetime \<Rightarrow> team \<Rightarrow> string \<Rightarrow> team_role \<Rightarrow> bool \<times> team" where
  "promote_member now self uid new_role =
     (case promote_member_scan uid new_role (team_members self) of
        None \<Rightarrow> (False, self)
      | Some members' \<Rightarrow> (True, self\<lparr>team_members := members', team_updated_at := now\<rparr>))"

definition add_project :: "datetime \<Rightarrow> team \<Rightarrow> string \<Rightarrow> team" where
  "add_project now self pid =
     (if pid \<notin> set (team_projects self)
      then self\<lparr>team_projects := team_projects self @ [pid], team_updated_at := now\<rparr>
      else self)"

definition remove_project :: "datetime \<Rightarrow> team \<Rightarrow> string \<Rightarrow> team" where
  "remove_project now self pid =
     (if pid \<in> set (team_projects self)
      then self\<lparr>team_projects := remove1 pid (team_projects self), team_updated_at := now\<rparr>
      else self)"

definition set_leader_id :: "datetime \<Rightarrow> team \<Rightarrow> string option \<Rightarrow> team" where
  "set_leader_id now self v = self\<lparr>team_leader_id := v, team_updated_at := now\<rparr>"

subsection \<open>services/team_service.py, continued\<close>

text \<open>
  The other mutating operations of \<^verbatim>\<open>TeamService\<close> (team_service.py, lines 21-69 and
  90-169), in the order of the source.
\<close>

definition create_team ::
  "string \<Rightarrow> datetime \<Rightarrow> team_repository \<Rightarrow> user_repository \<Rightarrow> string \<Rightarrow> string \<Rightarrow>
   string option \<Rightarrow> (exn + team) \<times> team_repository" where
  "create_team uuid now repo users name description leader_id =
     (if truthy leader_id \<and> user_get_by_id users (the leader_id) = None
      then (Inl (ValueError (''Leader with ID '' @ the leader_id @ '' not found'')), repo)
      else case new_team uuid now name description leader_id of
             Inl e \<Rightarrow> (Inl e, repo)
           | Inr team \<Rightarrow>
               if truthy leader_id
               then (case add_member now team (the leader_id) LEADER of
                       (Inl e, team') \<Rightarrow> (Inl e, repo)
                     | (Inr _, team') \<Rightarrow> team_save repo team')
               else team_save repo team)"

definition add_team_member ::
  "datetime \<Rightarrow> team_repository \<Rightarrow> user_repository \<Rightarrow> string \<Rightarrow> string \<Rightarrow> team_role \<Rightarrow> string \<Rightarrow>
   (exn + team_member) \<times> team_repository" where
  "add_team_member now repo users tid uid role adder_id =
     (case team_get_by_id repo tid of
        None \<Rightarrow> (Inl (ValueError (''Team with ID '' @ tid @ '' not found'')), repo)
      | Some team \<Rightarrow>
     (case user_get_by_id users uid of
        None \<Rightarrow> (Inl (ValueError (''User with ID '' @ uid @ '' not found'')), repo)
      | Some user \<Rightarrow>
          if \<not> can_manage_team users adder_id team
          then (Inl (PermissionError ''User does not have permission to manage this team''), repo)
          else
            let (outcome, team') = add_member now team uid role;
                repo' = team_put repo tid team'
            in case outcome of
                 Inl e \<Rightarrow> (Inl e, repo')
               | Inr member \<Rightarrow>
                   (case fst (team_save repo' team') of
                      Inl e \<Rightarrow> (Inl e, snd (team_save repo' team'))
                    | Inr _ \<Rightarrow> (Inr member, snd (team_save repo' team')))))"

definition promote_team_member ::
  "datetime \<Rightarrow> team_repository \<Rightarrow> user_repository \<Rightarrow> string \<Rightarrow> string \<Rightarrow> team_role \<Rightarrow> string \<Rightarrow>
   (exn + bool) \<times> team_repository" where
  "promote_team_member now repo users tid uid new_role promoter_id =
     (case team_get_by_id repo tid of
        None \<Rightarrow> (Inl (ValueError (''Team with ID '' @ tid @ '' not found'')), repo)
      | Some team \<Rightarrow>
          if \<not> can_manage_team users promoter_id team
          then (Inl (PermissionError ''User does not have permission to manage this team''), repo)
          else
            let (success, team') = promote_member now team uid new_role;
                repo' = team_put repo tid team'
            in if success
               then (case fst (team_save repo' team') of
                       Inl e \<Rightarrow> (Inl e, snd (team_save repo' team'))
                     | Inr _ \<Rightarrow> (Inr success, snd (team_save repo' team')))
               else (Inr success, repo'))"

definition change_team_leader ::
  "datetime \<Rightarrow> team_repository \<Rightarrow> user_repository \<Rightarrow> string \<Rightarrow> string \<Rightarrow> string \<Rightarrow>
   (exn + team) \<times> team_repository" where
  "change_team_leader now repo users tid new_leader_id changer_id =
     (case team_get_by_id repo tid of
        None \<Rightarrow> (Inl (ValueError (''Team with ID '' @ tid @ '' not found'')), repo)
      | Some team \<Rightarrow>
     (case user_get_by_id users new_leader_id of
        None \<Rightarrow>
          (Inl (ValueError (''New leader with ID '' @ new_leader_id @ '' not found'')), repo)
      | Some new_leader \<Rightarrow>
          if \<not> can_manage_team users changer_id team
          then (Inl (PermissionError ''User does not have permission to manage this team''), repo)
          else
            let (outcome, team') =
                  (if \<not> is_member team new_leader_id
                   then (map_sum id (\<lambda>_. ()) (fst (add_member now team new_leader_id LEADER)),
                         snd (add_member now team new_leader_id LEADER))
                   else (Inr (), snd (promote_member now team new_leader_id LEADER)));
                repo' = team_put repo tid team'
            in case outcome of
                 Inl e \<Rightarrow> (Inl e, repo')
               | Inr _ \<Rightarrow>
                   let team'' = set_leader_id now team' (Some new_leader_id);
                       repo'' = team_put repo' tid team''
                   in team_save repo'' team''))"

definition add_project_to_team ::
  "datetime \<Rightarrow> team_repository \<Rightarrow> user_repository \<Rightarrow> string \<Rightarrow> string \<Rightarrow> string \<Rightarrow>
   (exn + team) \<times> team_repository" where
  "add_project_to_team now repo users tid pid adder_id =
     (case team_get_by_id repo tid of
        None \<Rightarrow> (Inl (ValueError (''Team with ID '' @ tid @ '' not found'')), repo)
      | Some team \<Rightarrow>
          if \<not> can_manage_team users adder_id team
          then (Inl (PermissionError ''User does not have permission to manage this team''), repo)
          else
            let team' = add_project now team pid;
                repo' = team_put repo tid team'
            in team_save repo' team')"

definition remove_project_from_team ::
  "datetime \<Rightarrow> team_repository \<Rightarrow> user_repository \<Rightarrow> string \<Rightarrow> string \<Rightarrow> string \<Rightarrow>
   (exn + team) \<times> team_repository" where
  "remove_project_from_team now repo users tid pid remover_id =
     (case team_get_by_id repo tid of
        None \<Rightarrow> (Inl (ValueError (''Team with ID '' @ tid @ '' not found'')), repo)
      | Some team \<Rightarrow>
          if \<not> can_manage_team users remover_id team
          then (Inl (PermissionError ''User does not have permission to manage this team''), repo)
          else
            let team' = remove_project now team pid;
                repo' = team_put repo tid team'
            in team_save repo' team')"

subsection \<open>Service calls\<close>

text \<open>
  The storage of the four services, and a call of one of their mutating operations with its
  arguments and with the clock reading, fresh identifier and fresh salt the call consumes.
  \<open>perform\<close> carries the call out: its outcome is the exception raised, if any, and the
  storage after the call. The remaining operations of the services only read the storage.
\<close>

record storage =
  st_users :: user_repository
  st_tasks :: task_repository
  st_projects :: project_repository
  st_teams :: team_repository

datatype service_call =
    CreateUser string datetime string string string user_role
  | UpdateUserProfile string "(string \<times> pyval) list"
  | ChangeUserPassword string string string string
  | PromoteUser string user_role string
  | DeactivateUser string string
  | CreateTask string datetime string string "string option" task_priority "datetime option"
      "string option"
  | UpdateTaskStatus datetime string task_status "string option"
  | AssignTask datetime string string string
  | AddTaskComment string datetime string string string
  | CreateProject string datetime string string "string option"
  | UpdateProjectStatus datetime string project_status string
  | AddTaskToProject datetime string task string
  | RemoveTaskFromProject datetime string task string
  | AddMilestone string datetime string string string datetime string
  | CompleteMilestone datetime string string string
  | ProjectAddTeamMember datetime string string string
  | ProjectRemoveTeamMember datetime string string string
  | CreateTeam string datetime string string "string option"
  | AddTeamMember datetime string string team_role string
  | RemoveTeamMember datetime string string string
  | PromoteTeamMember datetime string string team_role string
  | ChangeTeamLeader datetime string string string
  | AddProjectToTeam datetime string string string
  | RemoveProjectFromTeam datetime string string string

definition raised :: "exn + 'a \<Rightarrow> exn option" where
  "raised outcome = (case outcome of Inl e \<Rightarrow> Some e | Inr _ \<Rightarrow> None)"

definition on_users :: "storage \<Rightarrow> (exn + 'a) \<times> user_repository \<Rightarrow> exn option \<times> storage" where
  "on_users st r = (raised (fst r), st\<lparr>st_users := snd r\<rparr>)"

definition on_tasks :: "storage \<Rightarrow> (exn + 'a) \<times> task_repository \<Rightarrow> exn option \<times> storage" where
  "on_tasks st r = (raised (fst r), st\<lparr>st_tasks := snd r\<rparr>)"

definition on_projects :: "storage \<Rightarrow> (exn + 'a) \<times> project_repository \<Rightarrow> exn option \<times> storage" where
  "on_projects st r = (raised (fst r), st\<lparr>st_projects := snd r\<rparr>)"

definition on_teams :: "storage \<Rightarrow> (exn + 'a) \<times> team_repository \<Rightarrow> exn option \<times> storage" where
  "on_teams st r = (raised (fst r), st\<lparr>st_teams := snd r\<rparr>)"

fun perform :: "storage \<Rightarrow> service_call \<Rightarrow> exn option \<times> storage" where
  "perform st (CreateUser salt now username email password role) =
     on_users st (create_user salt now (st_users st) username email password role)"
| "perform st (UpdateUserProfile uid profile_data) =
     on_users st (update_user_profile (st_users st) uid profile_data)"
| "perform st (ChangeUserPassword salt uid old_password new_password) =
     on_users st (change_user_password salt (st_users st) uid old_password new_password)"
| "perform st (PromoteUser uid new_role promoter_id) =
     on_users st (promote_user (st_users st) uid new_role promoter_id)"
| "perform st (DeactivateUser uid deactivator_id) =
     on_users st (deactivate_user (st_users st) uid deactivator_id)"
| "perform st (CreateTask uuid now title description assignee_id priority due_date creator_id) =
     on_tasks st (create_task uuid now (st_tasks st) (st_users st) title description assignee_id
                    priority due_date creator_id)"
| "perform st (UpdateTaskStatus now tid new_status uid) =
     on_tasks st (update_task_status now (st_tasks st) (st_users st) tid new_status uid)"
| "perform st (AssignTask now tid assignee_id assigner_id) =
     on_tasks st (assign_task now (st_tasks st) (st_users st) tid assignee_id assigner_id)"
| "perform st (AddTaskComment uuid now tid author_id content) =
     on_tasks st (add_task_comment uuid now (st_tasks st) (st_users st) tid author_id content)"
| "perform st (CreateProject uuid now name description owner_id) =
     on_projects st (create_project uuid now (st_projects st) (st_users st) name description
                       owner_id)"
| "perform st (UpdateProjectStatus now pid new_status uid) =
     on_projects st (update_project_status now (st_projects st) (st_users st) pid new_status uid)"
| "perform st (AddTaskToProject now pid task uid) =
     on_projects st (add_task_to_project now (st_projects st) (st_users st) pid task uid)"
| "perform st (RemoveTaskFromProject now pid task uid) =
     on_projects st (remove_task_from_project now (st_projects st) (st_users st) pid task uid)"
| "perform st (AddMilestone uuid now pid title description due_date uid) =
     on_projects st (add_milestone uuid now (st_projects st) (st_users st) pid title description
                       due_date uid)"
| "perform st (CompleteMilestone now pid mid uid) =
     on_projects st (complete_milestone now (st_projects st) (st_users st) pid mid uid)"
| "perform st (ProjectAddTeamMember now pid uid adder_id) =
     on_projects st (project_service_add_team_member now (st_projects st) (st_users st) pid uid
                       adder_id)"
| "perform st (ProjectRemoveTeamMember now pid uid remover_id) =
     on_projects st (project_service_remove_team_member now (st_projects st) (st_users st) pid
                       uid remover_id)"
| "perform st (CreateTeam uuid now name description leader_id) =
     on_teams st (create_team uuid now (st_teams st) (st_users st) name description leader_id)"
| "perform st (AddTeamMember now tid uid role adder_id) =
     on_teams st (add_team_member now (st_teams st) (st_users st) tid uid role adder_id)"
| "perform st (RemoveTeamMember now tid uid remover_id) =
     on_teams st (remove_team_member now (st_teams st) (st_users st) tid uid remover_id)"
| "perform st (PromoteTeamMember now tid uid new_role promoter_id) =
     on_teams st (promote_team_member now (st_teams st) (st_users st) tid uid new_role
                    promoter_id)"
| "perform st (ChangeTeamLeader now tid new_leader_id changer_id) =
     on_teams st (change_team_leader now (st_teams st) (st_users st) tid new_leader_id
                    changer_id)"
| "perform st (AddProjectToTeam now tid pid adder_id) =
     on_teams st (add_project_to_team now (st_teams st) (st_users st) tid pid adder_id)"
| "perform st (RemoveProjectFromTeam now tid pid remover_id) =
     on_teams st (remove_project_from_team now (st_teams st) (st_users st) tid pid remover_id)"

text \<open>
  Storage as the \<^verbatim>\<open>save\<close> methods build it (tasks, projects and teams have no setter for
  their identifier), and calls whose fresh identifier is not empty, as every UUID is.
\<close>

definition storage_ok :: "storage \<Rightarrow> bool" where
  "storage_ok st =
     (task_repository_ok (st_tasks st) \<and> project_repository_ok (st_projects st) \<and>
      team_repository_ok (st_teams st))"

fun fresh_id_ok :: "service_call \<Rightarrow> bool" where
  "fresh_id_ok (CreateTask uuid _ _ _ _ _ _ _) = (uuid \<noteq> [])"
| "fresh_id_ok (CreateProject uuid _ _ _ _) = (uuid \<noteq> [])"
| "fresh_id_ok (CreateTeam uuid _ _ _ _) = (uuid \<noteq> [])"
| "fresh_id_ok _ = True"

text \<open>Example data: a storage with the users A and B, the Done task T and the led team.\<close>

definition example_storage :: storage where
  "example_storage =
     \<lparr>st_users = repo_one_admin, st_tasks = repo_T_done,
      st_projects = \<lparr>project_data = [], project_next_id = 1\<rparr>, st_teams = repo_led_team\<rparr>"

text \<open>
  Example data: a task U that has no assignee, a project P owned by the admin A, and the
  repositories that hold them and the test team.
\<close>

definition task_U :: task where
  "task_U = task_T\<lparr>task_id := ''2d4e'', task_title := ''Review report'', task_assignee_id := None\<rparr>"

definition repo_U :: task_repository where
  "repo_U = \<lparr>task_data = [(''2d4e'', task_U)], task_next_id = 1\<rparr>"

definition project_P :: project where
  "project_P =
     \<lparr>project_id = ''3b5a'', project_name = ''Website'', project_description = '''',
      project_status = PLANNING, project_owner_id = Some ''userrepository_1'',
      project_created_at = 0, project_updated_at = 0, project_tasks = [],
      project_milestones = [], project_team_members = []\<rparr>"

definition repo_P :: project_repository where
  "repo_P = \<lparr>project_data = [(''3b5a'', project_P)], project_next_id = 1\<rparr>"

definition repo_test_team :: team_repository where
  "repo_test_team = \<lparr>team_data = [(''6c1d'', test_team)], team_next_id = 1\<rparr>"

section \<open>Properties\<close>

subsection \<open>Task status transitions\<close>

text \<open>
  Claim C1. A task whose status is Done rejects every status other than Done: the call
  raises the invalid-transition error (\<^verbatim>\<open>ValueError("Cannot change status of completed task")\<close>)
  and leaves the task, hence its status, as it was. A task whose status is not Done accepts
  every new status: the call returns, the status is the new one, the updated timestamp is
  the clock reading of the call, and nothing else changes.
\<close>

theorem update_status_terminal_done:
  "(task_status t = DONE \<and> new \<noteq> DONE \<longrightarrow>
      update_status now t new =
        (Inl (ValueError ''Cannot change status of completed task''), t) \<and>
      task_status (snd (update_status now t new)) = DONE)
   \<and> (task_status t \<noteq> DONE \<longrightarrow>
      update_status now t new = (Inr (), t\<lparr>task_status := new, task_updated_at := now\<rparr>))"
  by (simp add: update_status_def)

theorem update_status_terminal_done_witness:
  "task_status (task_due_in_36_hours\<lparr>task_status := DONE\<rparr>) = DONE \<and> TODO \<noteq> DONE
   \<and> update_status 7 (task_due_in_36_hours\<lparr>task_status := DONE\<rparr>) TODO =
       (Inl (ValueError ''Cannot change status of completed task''),
        task_due_in_36_hours\<lparr>task_status := DONE\<rparr>)
   \<and> task_status task_due_in_36_hours \<noteq> DONE
   \<and> update_status 7 task_due_in_36_hours REVIEW =
       (Inr (), task_due_in_36_hours\<lparr>task_status := REVIEW, task_updated_at := 7\<rparr>)"
  using update_status_terminal_done [of "task_due_in_36_hours\<lparr>task_status := DONE\<rparr>" TODO 7]
        update_status_terminal_done [of task_due_in_36_hours REVIEW 7]
  by (simp add: task_due_in_36_hours_def)

subsection \<open>Task urgency\<close>

text \<open>
  Claim C6, as the specification words it, fails: a High-priority task due 36 hours after
  the evaluation time is urgent for the code, although its due date is not within one day
  (neither at a distance of at most one day, nor at most one day ahead).
\<close>

theorem is_urgent_spec_counterexample:
  "is_urgent 0 task_due_in_36_hours \<and> \<not> is_urgent_spec 0 task_due_in_36_hours
   \<and> task_due_date task_due_in_36_hours = Some 129600000000
   \<and> \<not> (129600000000 - 0 \<le> microseconds_per_day)"
  by (simp add: is_urgent_def is_urgent_spec_def task_due_in_36_hours_def
      timedelta_days_def microseconds_per_day_def)

text \<open>
  Claim C6, amended. \<open>is_urgent\<close> is true if the priority is Urgent, whatever the due date;
  otherwise it is true iff a due date exists, the priority is High, and the whole-day count
  of (due date - evaluation time) is at most 1, that is, the due date lies less than two
  days after the evaluation time (any due date in the past included); it is false in all
  other cases.
\<close>

theorem is_urgent_characterisation:
  "is_urgent now t =
     (task_priority t = URGENT \<or>
      (task_priority t = HIGH \<and>
       (\<exists>due. task_due_date t = Some due \<and> due - now < 2 * microseconds_per_day)))"
proof -
  have days: "timedelta_days d \<le> 1 \<longleftrightarrow> d < 2 * microseconds_per_day" for d
    unfolding timedelta_days_def microseconds_per_day_def by linarith
  show ?thesis
    by (cases "task_due_date t") (auto simp: is_urgent_def days)
qed

subsection \<open>Project progress\<close>

lemma bit_length_29: "bit_length 29 = 5"
  by (simp add: bit_length.simps)

lemma bit_length_50: "bit_length 50 = 6"
  by (simp add: bit_length.simps)

lemma float_29_over_50: "float_of_ratio 29 50 = (5224175567749775, - 53)"
  by (simp add: float_of_ratio_def bit_length_29 bit_length_50 round_half_even_def Let_def)

lemma float_100: "float_of_int 100 = (7036874417766400, - 46)"
  by (simp add: float_of_int_def float_of_ratio_def bit_length.simps round_half_even_def Let_def)

lemma float_29_over_50_times_100:
  "float_mul (5224175567749775, - 53) (7036874417766400, - 46) = (8162774324609023, - 47)"
  by (simp add: float_mul_def float_of_ratio_def bit_length.simps round_half_even_def Let_def)

lemma int_of_float_57: "int_of_float (8162774324609023, - 47) = 57"
  by (simp add: int_of_float_def)

lemma length_project_29_of_50: "length (project_tasks project_29_of_50) = 50"
  by (simp add: project_29_of_50_def project_with_tasks_def)

lemma done_project_29_of_50: "length (get_tasks_by_status project_29_of_50 DONE) = 29"
  by (simp add: get_tasks_by_status_def project_29_of_50_def project_with_tasks_def
      numbered_task_def filter_map o_def)

lemma get_progress_percentage_empty: "get_progress_percentage (project_with_tasks []) = 0"
  by (simp add: get_progress_percentage_def project_with_tasks_def)

text \<open>
  Claim C2 fails on the code. For a project of 50 tasks of which 29 are Done,
  \<open>floor (100 * 29 / 50) = 58\<close>, but the method divides and multiplies in binary
  floating point: \<open>29 / 50\<close> rounds to \<open>5224175567749775 * 2 ^ (- 53)\<close>, its product with
  \<open>100\<close> rounds to \<open>8162774324609023 * 2 ^ (- 47) = 57.99999999999999\<close>, and \<^verbatim>\<open>int\<close>
  truncates that to 57.
\<close>

theorem get_progress_percentage_29_of_50:
  "length (project_tasks project_29_of_50) = 50
   \<and> length (get_tasks_by_status project_29_of_50 DONE) = 29
   \<and> get_progress_percentage project_29_of_50 = 57
   \<and> (100 * 29) div 50 = (58 :: nat)"
proof -
  have "project_tasks project_29_of_50 \<noteq> []"
    using length_project_29_of_50 by auto
  then have "get_progress_percentage project_29_of_50 = 57"
    by (simp add: get_progress_percentage_def length_project_29_of_50 done_project_29_of_50
        float_29_over_50 float_100 float_29_over_50_times_100 int_of_float_57)
  then show ?thesis
    by (simp add: length_project_29_of_50 done_project_29_of_50)
qed

subsection \<open>Project task list\<close>

lemma task_in_iff: "task_in t ts \<longleftrightarrow> (\<exists>x\<in>set ts. task_id x = task_id t)"
  by (simp add: task_in_def task_eq_def list_ex_iff)

lemma list_remove_task_subset: "set (list_remove_task ts t) \<subseteq> set ts"
  by (induction ts) auto

lemma distinct_list_remove_task:
  "distinct (map task_id ts) \<Longrightarrow> distinct (map task_id (list_remove_task ts t))"
proof (induction ts)
  case Nil
  then show ?case by simp
next
  case (Cons x xs)
  have "task_id x \<notin> task_id ` set (list_remove_task xs t)"
    using Cons.prems list_remove_task_subset [of xs t] by auto
  with Cons show ?case by simp
qed

lemma distinct_add_task:
  "distinct (map task_id (project_tasks p)) \<Longrightarrow>
   distinct (map task_id (project_tasks (add_task now p t)))"
  by (auto simp: add_task_def task_in_iff)

lemma distinct_remove_task:
  "distinct (map task_id (project_tasks p)) \<Longrightarrow>
   distinct (map task_id (project_tasks (remove_task now p t)))"
  by (simp add: remove_task_def distinct_list_remove_task)

lemma distinct_apply_task_ops:
  "distinct (map task_id (project_tasks p)) \<Longrightarrow>
   distinct (map task_id (project_tasks (foldl (apply_task_op now) p ops)))"
proof (induction ops arbitrary: p)
  case Nil
  then show ?case by simp
next
  case (Cons a ops)
  have "distinct (map task_id (project_tasks (apply_task_op now p a)))"
    using Cons.prems by (cases a) (simp_all add: distinct_add_task distinct_remove_task)
  then show ?case using Cons.IH by simp
qed

text \<open>
  Claim C10. Adding a task whose identifier is that of a task already in the project's list
  leaves the project unchanged, timestamp included; adding any other task appends it; adding
  the same task twice is adding it once. Hence a task list with pairwise different
  identifiers keeps that property under every sequence of \<open>add_task\<close> and
  \<open>remove_task\<close> calls, in particular from the empty list of a new project.
\<close>

theorem add_task_idempotent_by_id:
  "((\<exists>x\<in>set (project_tasks p). task_id x = task_id t) \<longrightarrow> add_task now p t = p)
   \<and> (\<not> (\<exists>x\<in>set (project_tasks p). task_id x = task_id t) \<longrightarrow>
        project_tasks (add_task now p t) = project_tasks p @ [t])
   \<and> add_task now' (add_task now p t) t = add_task now p t
   \<and> (distinct (map task_id (project_tasks p)) \<longrightarrow>
        distinct (map task_id (project_tasks (foldl (apply_task_op now) p ops))))"
proof -
  have "task_in t (project_tasks (add_task now p t))"
    by (auto simp: add_task_def task_in_iff)
  then have "add_task now' (add_task now p t) t = add_task now p t"
    by (simp add: add_task_def [of now'])
  then show ?thesis
    using distinct_apply_task_ops [of p now ops]
    by (auto simp: add_task_def task_in_iff)
qed

theorem add_task_idempotent_by_id_witness:
  "add_task 5 (project_with_tasks [numbered_task 0 TODO]) (numbered_task 0 DONE) =
     project_with_tasks [numbered_task 0 TODO]
   \<and> project_tasks (add_task 5 (project_with_tasks []) (numbered_task 0 TODO)) =
       [numbered_task 0 TODO]
   \<and> distinct (map task_id (project_tasks
         (foldl (apply_task_op 5) (project_with_tasks [])
            [AddTask (numbered_task 0 TODO), AddTask (numbered_task 0 DONE),
             RemoveTask (numbered_task 0 REVIEW)])))"
  using add_task_idempotent_by_id
          [where t = "numbered_task 0 DONE" and p = "project_with_tasks [numbered_task 0 TODO]"
             and now = 5 and now' = 5 and ops = "[]"]
        add_task_idempotent_by_id
          [where t = "numbered_task 0 TODO" and p = "project_with_tasks []"
             and now = 5 and now' = 5
             and ops = "[AddTask (numbered_task 0 TODO), AddTask (numbered_task 0 DONE),
                         RemoveTask (numbered_task 0 REVIEW)]"]
  by (simp add: project_with_tasks_def numbered_task_def)

subsection \<open>User serialisation\<close>

lemma new_user_dummy_not_Inr: "new_user salt now username email ''dummy'' role \<noteq> Inr u"
  by (simp add: new_user_def hash_password_def split: sum.splits)

lemma user_from_dict_not_Inr: "user_from_dict salt now fromisoformat data \<noteq> Inr u"
  by (simp add: user_from_dict_def new_user_dummy_not_Inr split: sum.splits)

lemma user_from_dict_never_returns: "\<exists>e. user_from_dict salt now fromisoformat data = Inl e"
  using user_from_dict_not_Inr [of salt now fromisoformat data]
  by (cases "user_from_dict salt now fromisoformat data") auto

lemma validate_username_testuser: "validate_username ''testuser'' = Inr ''testuser''"
  by (simp add: validate_username_def lower_def lower_char_def strip_def is_space_def)

lemma validate_email_test: "validate_email ''test@example.com'' = Inr ''test@example.com''"
  by (simp add: validate_email_def lower_def lower_char_def strip_def is_space_def
      EMAIL_REGEX_match_def is_alnum_def is_alpha_def)

lemma new_user_test_dummy:
  "new_user salt now ''testuser'' ''test@example.com'' ''dummy'' USER =
     Inl (ValidationError ''Password too short'')"
  by (simp add: new_user_def validate_username_testuser validate_email_test hash_password_def)

text \<open>
  Claim C8 fails on the code for users. \<open>user_from_dict\<close> builds the user with the
  five-character password \<^verbatim>\<open>"dummy"\<close>, which \<open>hash_password\<close> rejects: for the user of
  the repository's serialisation test, \<open>from_dict (to_dict user)\<close> raises
  \<^verbatim>\<open>ValidationError("Password too short")\<close>, and for no record at all does
  \<open>user_from_dict\<close> return a user.
\<close>

theorem user_from_dict_to_dict_raises:
  "user_from_dict salt now fromisoformat (user_to_dict isoformat test_user) =
     Inl (ValidationError ''Password too short'')
   \<and> (\<exists>e. user_from_dict salt now fromisoformat data = Inl e)"
proof -
  have "user_from_dict salt now fromisoformat (user_to_dict isoformat test_user) =
          Inl (ValidationError ''Password too short'')"
    by (simp add: user_from_dict_def user_to_dict_def test_user_def getitem_def UserRole_def
        user_role_value_def as_str_def new_user_test_dummy)
  then show ?thesis
    using user_from_dict_never_returns by blast
qed

subsection \<open>User creation\<close>

lemma hmac_key_of_secret1: "hmac_key_of ''secret1'' = Padded ''secret1''"
  by (simp add: hmac_key_of_def utf8_length_def)

lemma validate_username_Bob: "validate_username ''Bob'' = Inr ''bob''"
  by (simp add: validate_username_def lower_def lower_char_def strip_def is_space_def)

lemma validate_username_padded: "validate_username ''  a'' = Inr ''a''"
  by (simp add: validate_username_def lower_def lower_char_def strip_def is_space_def)

lemma validate_email_bob: "validate_email ''bob@example.com'' = Inr ''bob@example.com''"
  by (simp add: validate_email_def lower_def lower_char_def strip_def is_space_def
      EMAIL_REGEX_match_def is_alnum_def is_alpha_def)

lemma validate_email_robert: "validate_email ''robert@example.com'' = Inr ''robert@example.com''"
  by (simp add: validate_email_def lower_def lower_char_def strip_def is_space_def
      EMAIL_REGEX_match_def is_alnum_def is_alpha_def)

lemma validate_email_a: "validate_email ''a@example.com'' = Inr ''a@example.com''"
  by (simp add: validate_email_def lower_def lower_char_def strip_def is_space_def
      EMAIL_REGEX_match_def is_alnum_def is_alpha_def)

lemma create_user_Bob:
  "create_user ''a1'' 0 new_user_repository ''Bob'' ''bob@example.com'' ''secret1'' USER =
     (Inr bob_user, repo_after_bob)"
  by (simp add: create_user_def new_user_repository_def get_by_username_def get_by_email_def
      user_get_all_def new_user_def validate_username_Bob validate_email_bob hash_password_def
      hmac_key_of_secret1
      get_permissions_def user_save_def user_put_def string_of_nat.simps Let_def
      bob_user_def repo_after_bob_def)

lemma create_user_Bob_again:
  "map user_username (user_get_all (snd
     (create_user ''b2'' 1 repo_after_bob ''Bob'' ''robert@example.com'' ''secret2'' USER))) =
   [''bob'', ''bob'']"
  by (simp add: create_user_def repo_after_bob_def bob_user_def get_by_username_def
      get_by_email_def user_get_all_def new_user_def validate_username_Bob
      validate_email_robert hash_password_def get_permissions_def user_save_def user_put_def
      string_of_nat.simps Let_def)

lemma create_user_Bob_again_returns:
  "\<exists>u. fst (create_user ''b2'' 1 repo_after_bob ''Bob'' ''robert@example.com'' ''secret2'' USER)
        = Inr u"
  by (simp add: create_user_def repo_after_bob_def bob_user_def get_by_username_def
      get_by_email_def user_get_all_def new_user_def validate_username_Bob
      validate_email_robert hash_password_def)

lemma create_user_padded:
  "map user_username (user_get_all (snd
     (create_user ''c3'' 0 new_user_repository ''  a'' ''a@example.com'' ''secret1'' USER))) =
   [''a'']"
  by (simp add: create_user_def new_user_repository_def get_by_username_def get_by_email_def
      user_get_all_def new_user_def validate_username_padded validate_email_a
      hash_password_def get_permissions_def user_save_def user_put_def string_of_nat.simps
      Let_def)

text \<open>
  Claim C7 fails on the code. \<open>create_user\<close> looks the username up as it was typed, but
  stores it lower-cased: after \<^verbatim>\<open>create_user("Bob", "bob@example.com", "secret1")\<close>, the call
  \<^verbatim>\<open>create_user("Bob", "robert@example.com", "secret2")\<close> returns a second user, and the
  repository holds two users named \<^verbatim>\<open>bob\<close>. The length of a username is tested before
  it is stripped: \<^verbatim>\<open>create_user("  a", "a@example.com", "secret1")\<close> stores the
  one-character username \<^verbatim>\<open>a\<close>.
\<close>

theorem create_user_duplicate_username:
  "create_user ''a1'' 0 new_user_repository ''Bob'' ''bob@example.com'' ''secret1'' USER =
     (Inr bob_user, repo_after_bob)
   \<and> user_username bob_user = ''bob''
   \<and> (\<exists>u. fst (create_user ''b2'' 1 repo_after_bob ''Bob'' ''robert@example.com'' ''secret2'' USER)
          = Inr u)
   \<and> map user_username (user_get_all (snd
        (create_user ''b2'' 1 repo_after_bob ''Bob'' ''robert@example.com'' ''secret2'' USER))) =
      [''bob'', ''bob'']
   \<and> map user_username (user_get_all (snd
        (create_user ''c3'' 0 new_user_repository ''  a'' ''a@example.com'' ''secret1'' USER))) =
      [''a'']"
  using create_user_Bob create_user_Bob_again create_user_Bob_again_returns create_user_padded
  by (simp add: bob_user_def)

subsection \<open>The last admin\<close>

lemma count_update:
  "map_of al k = Some u \<Longrightarrow>
   length (filter P (map snd (AList.update k u' al))) + (if P u then 1 else 0) =
   length (filter P (map snd al)) + (if P u' then 1 else 0)"
  by (induction al) (auto split: if_splits)

lemma user_repository_ok_lookup:
  "user_repository_ok repo \<Longrightarrow> user_get_by_id repo uid = Some u \<Longrightarrow>
   user_id u = Some uid \<and> uid \<noteq> []"
  by (auto simp: user_repository_ok_def user_get_by_id_def list_all_iff dest!: map_of_SomeD)

lemma user_save_stored:
  "user_id u = Some uid \<Longrightarrow> uid \<noteq> [] \<Longrightarrow>
   user_save (user_put repo uid u) u = (u, user_put repo uid u)"
  by (simp add: user_save_def user_put_def)

lemma admin_count_user_put:
  "user_get_by_id repo uid = Some u \<Longrightarrow>
   admin_count (user_put repo uid u') + (if is_admin u then 1 else 0) =
   admin_count repo + (if is_admin u' then 1 else 0)"
  using count_update [of "user_data repo" uid u "\<lambda>user. user_role user = ADMIN" u']
  by (simp add: admin_count_def get_users_by_role_def user_get_all_def user_put_def
      user_get_by_id_def is_admin_def)

lemma promote_user_returns:
  assumes "user_repository_ok repo" "user_get_by_id repo uid = Some u"
    "user_get_by_id repo pid = Some p" "is_admin p"
    "\<not> (is_admin u \<and> new_role \<noteq> ADMIN \<and> admin_count repo \<le> 1)"
  shows "promote_user repo uid new_role pid =
           (Inr (u\<lparr>user_role := new_role, user_permissions := get_permissions new_role\<rparr>),
            user_put repo uid
              (u\<lparr>user_role := new_role, user_permissions := get_permissions new_role\<rparr>))"
proof -
  have "user_id u = Some uid \<and> uid \<noteq> []"
    using assms(1,2) by (rule user_repository_ok_lookup)
  then have "user_save (user_put repo uid
                 (u\<lparr>user_role := new_role, user_permissions := get_permissions new_role\<rparr>))
               (u\<lparr>user_role := new_role, user_permissions := get_permissions new_role\<rparr>) =
             (u\<lparr>user_role := new_role, user_permissions := get_permissions new_role\<rparr>,
              user_put repo uid
                (u\<lparr>user_role := new_role, user_permissions := get_permissions new_role\<rparr>))"
    by (intro user_save_stored) simp_all
  then show ?thesis
    using assms(2-5) by (auto simp: promote_user_def admin_count_def Let_def)
qed

lemma deactivate_user_returns:
  assumes "user_repository_ok repo" "user_get_by_id repo uid = Some u"
    "user_get_by_id repo pid = Some p" "is_admin p"
    "\<not> (is_admin u \<and> admin_count repo \<le> 1)"
  shows "deactivate_user repo uid pid =
           (Inr (u\<lparr>user_role := GUEST, user_permissions := get_permissions GUEST\<rparr>),
            user_put repo uid
              (u\<lparr>user_role := GUEST, user_permissions := get_permissions GUEST\<rparr>))"
proof -
  have "user_id u = Some uid \<and> uid \<noteq> []"
    using assms(1,2) by (rule user_repository_ok_lookup)
  then have "user_save (user_put repo uid
                 (u\<lparr>user_role := GUEST, user_permissions := get_permissions GUEST\<rparr>))
               (u\<lparr>user_role := GUEST, user_permissions := get_permissions GUEST\<rparr>) =
             (u\<lparr>user_role := GUEST, user_permissions := get_permissions GUEST\<rparr>,
              user_put repo uid
                (u\<lparr>user_role := GUEST, user_permissions := get_permissions GUEST\<rparr>))"
    by (intro user_save_stored) simp_all
  then show ?thesis
    using assms(2-5) by (auto simp: deactivate_user_def admin_count_def Let_def)
qed

lemma promote_user_fails_unchanged:
  "fst (promote_user repo uid new_role pid) = Inl e \<Longrightarrow>
   snd (promote_user repo uid new_role pid) = repo"
  by (auto simp: promote_user_def Let_def split: option.splits if_splits)

lemma deactivate_user_fails_unchanged:
  "fst (deactivate_user repo uid pid) = Inl e \<Longrightarrow> snd (deactivate_user repo uid pid) = repo"
  by (auto simp: deactivate_user_def Let_def split: option.splits if_splits)

lemma promote_user_keeps_an_admin:
  assumes "user_repository_ok repo" "1 \<le> admin_count repo"
  shows "1 \<le> admin_count (snd (promote_user repo uid new_role pid))"
proof (cases "fst (promote_user repo uid new_role pid)")
  case (Inl e)
  then show ?thesis using assms(2) promote_user_fails_unchanged by metis
next
  case (Inr u')
  then obtain u p where up: "user_get_by_id repo uid = Some u" "user_get_by_id repo pid = Some p"
    "is_admin p" "\<not> (is_admin u \<and> new_role \<noteq> ADMIN \<and> admin_count repo \<le> 1)"
    by (auto simp: promote_user_def admin_count_def Let_def split: option.splits if_splits)
  let ?u = "u\<lparr>user_role := new_role, user_permissions := get_permissions new_role\<rparr>"
  have "snd (promote_user repo uid new_role pid) = user_put repo uid ?u"
    using promote_user_returns [OF assms(1) up] by simp
  moreover have "admin_count (user_put repo uid ?u) + (if is_admin u then 1 else 0) =
                 admin_count repo + (if is_admin ?u then 1 else 0)"
    using up(1) by (rule admin_count_user_put)
  ultimately show ?thesis
    using assms(2) up(4) by (auto simp: is_admin_def split: if_splits)
qed

lemma deactivate_user_keeps_an_admin:
  assumes "user_repository_ok repo" "1 \<le> admin_count repo"
  shows "1 \<le> admin_count (snd (deactivate_user repo uid pid))"
proof (cases "fst (deactivate_user repo uid pid)")
  case (Inl e)
  then show ?thesis using assms(2) deactivate_user_fails_unchanged by metis
next
  case (Inr u')
  then obtain u p where up: "user_get_by_id repo uid = Some u" "user_get_by_id repo pid = Some p"
    "is_admin p" "\<not> (is_admin u \<and> admin_count repo \<le> 1)"
    by (auto simp: deactivate_user_def admin_count_def Let_def split: option.splits if_splits)
  let ?u = "u\<lparr>user_role := GUEST, user_permissions := get_permissions GUEST\<rparr>"
  have "snd (deactivate_user repo uid pid) = user_put repo uid ?u"
    using deactivate_user_returns [OF assms(1) up] by simp
  moreover have "admin_count (user_put repo uid ?u) + (if is_admin u then 1 else 0) =
                 admin_count repo + (if is_admin ?u then 1 else 0)"
    using up(1) by (rule admin_count_user_put)
  ultimately show ?thesis
    using assms(2) up(4) by (auto simp: is_admin_def split: if_splits)
qed

text \<open>
  Where every user is filed once, under its own identifier, the guard works. Let \<open>u\<close> be
  an admin and \<open>new_role\<close> a role other than Admin. If \<open>u\<close> is the only admin,
  \<open>promote_user\<close> to \<open>new_role\<close> and \<open>deactivate_user\<close> both fail for every invoker and
  leave the repository unchanged. If there are at least two admins and the invoker is an
  admin, both succeed and leave exactly one admin fewer. Whatever the target, role and
  invoker, such a repository with an admin still has one after either call.
\<close>

lemma last_admin_kept_when_filed_once:
  assumes "user_repository_ok repo"
    and "user_get_by_id repo uid = Some u" and "is_admin u" and "new_role \<noteq> ADMIN"
  shows
    "(admin_count repo = 1 \<longrightarrow>
        (\<exists>e. promote_user repo uid new_role pid = (Inl e, repo)) \<and>
        (\<exists>e. deactivate_user repo uid pid = (Inl e, repo)) \<and>
        (user_get_by_id repo pid = Some u \<longrightarrow>
           promote_user repo uid new_role pid =
             (Inl (ValueError ''Cannot demote the last admin user''), repo) \<and>
           deactivate_user repo uid pid =
             (Inl (ValueError ''Cannot deactivate the last admin user''), repo)))
     \<and> (2 \<le> admin_count repo \<and> user_get_by_id repo pid = Some p \<and> is_admin p \<longrightarrow>
        (\<exists>repo'. promote_user repo uid new_role pid =
                    (Inr (u\<lparr>user_role := new_role,
                             user_permissions := get_permissions new_role\<rparr>), repo') \<and>
                 admin_count repo' + 1 = admin_count repo) \<and>
        (\<exists>repo'. deactivate_user repo uid pid =
                    (Inr (u\<lparr>user_role := GUEST,
                             user_permissions := get_permissions GUEST\<rparr>), repo') \<and>
                 admin_count repo' + 1 = admin_count repo))
     \<and> (1 \<le> admin_count repo \<longrightarrow>
        1 \<le> admin_count (snd (promote_user repo uid' role' pid')) \<and>
        1 \<le> admin_count (snd (deactivate_user repo uid' pid')))"
proof (intro conjI impI)
  assume one: "admin_count repo = 1"
  show "\<exists>e. promote_user repo uid new_role pid = (Inl e, repo)"
    using assms(2-4) one
    by (auto simp: promote_user_def admin_count_def split: option.splits)
  show "\<exists>e. deactivate_user repo uid pid = (Inl e, repo)"
    using assms(2,3) one
    by (auto simp: deactivate_user_def admin_count_def split: option.splits)
  assume "user_get_by_id repo pid = Some u"
  then show "promote_user repo uid new_role pid =
               (Inl (ValueError ''Cannot demote the last admin user''), repo)"
    and "deactivate_user repo uid pid =
               (Inl (ValueError ''Cannot deactivate the last admin user''), repo)"
    using assms(2-4) one
    by (auto simp: promote_user_def deactivate_user_def admin_count_def)
next
  assume two: "2 \<le> admin_count repo \<and> user_get_by_id repo pid = Some p \<and> is_admin p"
  let ?u = "u\<lparr>user_role := new_role, user_permissions := get_permissions new_role\<rparr>"
  let ?g = "u\<lparr>user_role := GUEST, user_permissions := get_permissions GUEST\<rparr>"
  have "promote_user repo uid new_role pid = (Inr ?u, user_put repo uid ?u)"
    using assms(1,2) two by (intro promote_user_returns) auto
  moreover have "admin_count (user_put repo uid ?u) + 1 = admin_count repo"
    using admin_count_user_put [OF assms(2), of ?u] assms(3,4) by (simp add: is_admin_def)
  ultimately show "\<exists>repo'. promote_user repo uid new_role pid = (Inr ?u, repo') \<and>
                        admin_count repo' + 1 = admin_count repo"
    by blast
  have "deactivate_user repo uid pid = (Inr ?g, user_put repo uid ?g)"
    using assms(1,2) two by (intro deactivate_user_returns) auto
  moreover have "admin_count (user_put repo uid ?g) + 1 = admin_count repo"
    using admin_count_user_put [OF assms(2), of ?g] assms(3) by (simp add: is_admin_def)
  ultimately show "\<exists>repo'. deactivate_user repo uid pid = (Inr ?g, repo') \<and>
                        admin_count repo' + 1 = admin_count repo"
    by blast
next
  assume some: "1 \<le> admin_count repo"
  show "1 \<le> admin_count (snd (promote_user repo uid' role' pid'))"
    using assms(1) some by (rule promote_user_keeps_an_admin)
  show "1 \<le> admin_count (snd (deactivate_user repo uid' pid'))"
    using assms(1) some by (rule deactivate_user_keeps_an_admin)
qed

lemma repo_one_admin_ok: "user_repository_ok repo_one_admin"
  by (simp add: user_repository_ok_def repo_one_admin_def alice_admin_def bob_user_def)

lemma repo_two_admins_ok: "user_repository_ok repo_two_admins"
  by (simp add: user_repository_ok_def repo_two_admins_def alice_admin_def carol_admin_def)

lemma admin_count_repo_one_admin: "admin_count repo_one_admin = 1"
  by (simp add: admin_count_def get_users_by_role_def user_get_all_def repo_one_admin_def
      alice_admin_def bob_user_def)

lemma admin_count_repo_two_admins: "admin_count repo_two_admins = 2"
  by (simp add: admin_count_def get_users_by_role_def user_get_all_def repo_two_admins_def
      alice_admin_def carol_admin_def)

lemma last_admin_kept_when_filed_once_example:
  "user_repository_ok repo_one_admin \<and> admin_count repo_one_admin = 1
   \<and> user_get_by_id repo_one_admin ''userrepository_1'' = Some alice_admin
   \<and> is_admin alice_admin
   \<and> promote_user repo_one_admin ''userrepository_1'' USER ''userrepository_1'' =
       (Inl (ValueError ''Cannot demote the last admin user''), repo_one_admin)
   \<and> deactivate_user repo_one_admin ''userrepository_1'' ''userrepository_1'' =
       (Inl (ValueError ''Cannot deactivate the last admin user''), repo_one_admin)
   \<and> user_repository_ok repo_two_admins \<and> admin_count repo_two_admins = 2
   \<and> user_get_by_id repo_two_admins ''userrepository_2'' = Some carol_admin
   \<and> is_admin carol_admin
   \<and> (\<exists>repo'. promote_user repo_two_admins ''userrepository_1'' USER ''userrepository_2'' =
                  (Inr (alice_admin\<lparr>user_role := USER,
                                     user_permissions := get_permissions USER\<rparr>), repo') \<and>
               admin_count repo' = 1)
   \<and> (\<exists>repo'. deactivate_user repo_two_admins ''userrepository_1'' ''userrepository_2'' =
                  (Inr (alice_admin\<lparr>user_role := GUEST,
                                     user_permissions := get_permissions GUEST\<rparr>), repo') \<and>
               admin_count repo' = 1)
   \<and> 1 \<le> admin_count (snd (promote_user repo_two_admins ''userrepository_2'' GUEST
                               ''userrepository_1''))"
proof -
  have g1: "user_get_by_id repo_one_admin ''userrepository_1'' = Some alice_admin"
    by (simp add: user_get_by_id_def repo_one_admin_def)
  have g2: "user_get_by_id repo_two_admins ''userrepository_1'' = Some alice_admin"
    by (simp add: user_get_by_id_def repo_two_admins_def)
  have g3: "user_get_by_id repo_two_admins ''userrepository_2'' = Some carol_admin"
    by (simp add: user_get_by_id_def repo_two_admins_def)
  have a: "is_admin alice_admin" "is_admin carol_admin"
    by (simp_all add: is_admin_def alice_admin_def carol_admin_def)
  have n: "USER \<noteq> ADMIN"
    by simp
  note one = last_admin_kept_when_filed_once [OF repo_one_admin_ok g1 a(1) n,
      where pid = "''userrepository_1''"]
  note two = last_admin_kept_when_filed_once [OF repo_two_admins_ok g2 a(1) n,
      where pid = "''userrepository_2''" and p = carol_admin
        and uid' = "''userrepository_2''" and role' = GUEST and pid' = "''userrepository_1''"]
  show ?thesis
    using one two g1 g3 a repo_one_admin_ok repo_two_admins_ok
    by (simp add: admin_count_repo_one_admin admin_count_repo_two_admins)
qed

lemma create_sole_admin:
  "create_user ''a1'' 0 new_user_repository ''admin'' ''admin@company.com'' ''admin123'' ADMIN =
     (Inr sole_admin, repo_sole_admin)"
proof -
  have "validate_username ''admin'' = Inr ''admin''"
    by (simp add: validate_username_def lower_def lower_char_def strip_def is_space_def)
  moreover have "validate_email ''admin@company.com'' = Inr ''admin@company.com''"
    by (simp add: validate_email_def lower_def lower_char_def strip_def is_space_def
        EMAIL_REGEX_match_def is_alnum_def is_alpha_def)
  moreover have "hmac_key_of ''admin123'' = Padded ''admin123''"
    by (simp add: hmac_key_of_def utf8_length_def)
  ultimately show ?thesis
    by (simp add: create_user_def new_user_repository_def get_by_username_def get_by_email_def
        user_get_all_def new_user_def hash_password_def get_permissions_def user_save_def
        user_put_def string_of_nat.simps Let_def sole_admin_def repo_sole_admin_def)
qed

lemma refile_sole_admin:
  "user_save (user_put repo_sole_admin ''userrepository_1''
                (sole_admin\<lparr>user_id := Some ''user_001''\<rparr>))
     (sole_admin\<lparr>user_id := Some ''user_001''\<rparr>) =
   (sole_admin\<lparr>user_id := Some ''user_001''\<rparr>, repo_admin_refiled)"
  by (simp add: user_save_def user_put_def repo_sole_admin_def repo_admin_refiled_def
      sole_admin_def)

lemma admins_of_repo_admin_refiled:
  "get_users_by_role repo_admin_refiled ADMIN =
     [sole_admin\<lparr>user_id := Some ''user_001''\<rparr>, sole_admin\<lparr>user_id := Some ''user_001''\<rparr>]"
  by (simp add: get_users_by_role_def user_get_all_def repo_admin_refiled_def sole_admin_def)

lemma get_refiled_admin:
  "user_get_by_id repo_admin_refiled ''userrepository_1'' =
     Some (sole_admin\<lparr>user_id := Some ''user_001''\<rparr>)"
  by (simp add: user_get_by_id_def repo_admin_refiled_def)

lemma refiled_admin_counted_twice:
  "\<not> length (get_users_by_role repo_admin_refiled ADMIN) \<le> 1"
  by (simp add: admins_of_repo_admin_refiled)

lemma refiled_admin_is_admin: "is_admin (sole_admin\<lparr>user_id := Some ''user_001''\<rparr>)"
  by (simp add: is_admin_def sole_admin_def)

lemma promote_refiled_admin:
  "promote_user repo_admin_refiled ''userrepository_1'' USER ''userrepository_1'' =
     (Inr (sole_admin\<lparr>user_id := Some ''user_001'', user_role := USER,
                      user_permissions := get_permissions USER\<rparr>),
      \<lparr>user_data =
         [(''userrepository_1'',
           sole_admin\<lparr>user_id := Some ''user_001'', user_role := USER,
                      user_permissions := get_permissions USER\<rparr>),
          (''user_001'',
           sole_admin\<lparr>user_id := Some ''user_001'', user_role := USER,
                      user_permissions := get_permissions USER\<rparr>)],
       user_next_id = 2\<rparr>)"
proof -
  let ?u = "sole_admin\<lparr>user_id := Some ''user_001'', user_role := USER,
                       user_permissions := get_permissions USER\<rparr>"
  let ?r = "user_put repo_admin_refiled ''userrepository_1'' ?u"
  have "promote_user repo_admin_refiled ''userrepository_1'' USER ''userrepository_1'' =
          (Inr (fst (user_save ?r ?u)), snd (user_save ?r ?u))"
    using get_refiled_admin refiled_admin_counted_twice refiled_admin_is_admin
    by (simp add: promote_user_def Let_def)
  moreover have "user_save ?r ?u =
      (?u, \<lparr>user_data = [(''userrepository_1'', ?u), (''user_001'', ?u)], user_next_id = 2\<rparr>)"
    by (simp add: user_save_def user_put_def repo_admin_refiled_def sole_admin_def)
  ultimately show ?thesis
    by simp
qed

lemma deactivate_refiled_admin:
  "deactivate_user repo_admin_refiled ''userrepository_1'' ''userrepository_1'' =
     (Inr (sole_admin\<lparr>user_id := Some ''user_001'', user_role := GUEST,
                      user_permissions := get_permissions GUEST\<rparr>),
      \<lparr>user_data =
         [(''userrepository_1'',
           sole_admin\<lparr>user_id := Some ''user_001'', user_role := GUEST,
                      user_permissions := get_permissions GUEST\<rparr>),
          (''user_001'',
           sole_admin\<lparr>user_id := Some ''user_001'', user_role := GUEST,
                      user_permissions := get_permissions GUEST\<rparr>)],
       user_next_id = 2\<rparr>)"
proof -
  let ?u = "sole_admin\<lparr>user_id := Some ''user_001'', user_role := GUEST,
                       user_permissions := get_permissions GUEST\<rparr>"
  let ?r = "user_put repo_admin_refiled ''userrepository_1'' ?u"
  have "deactivate_user repo_admin_refiled ''userrepository_1'' ''userrepository_1'' =
          (Inr (fst (user_save ?r ?u)), snd (user_save ?r ?u))"
    using get_refiled_admin refiled_admin_counted_twice refiled_admin_is_admin
    by (simp add: deactivate_user_def Let_def)
  moreover have "user_save ?r ?u =
      (?u, \<lparr>user_data = [(''userrepository_1'', ?u), (''user_001'', ?u)], user_next_id = 2\<rparr>)"
    by (simp add: user_save_def user_put_def repo_admin_refiled_def sole_admin_def)
  ultimately show ?thesis
    by simp
qed

text \<open>
  Claim C4 fails on the code. The admins are counted by listing the values of the
  repository, and the public setter of \<^verbatim>\<open>User.id\<close> lets one user be filed under two keys.
  After \<^verbatim>\<open>create_user("admin", "admin@company.com", "admin123", UserRole.ADMIN)\<close> on a new
  repository, \<^verbatim>\<open>admin.id = "user_001"\<close> and a save of the admin, the repository holds one
  admin, listed twice. The count is then 2, the guard \<^verbatim>\<open>admin_count <= 1\<close> does not
  fire, and both \<open>promote_user\<close> to the role User and \<open>deactivate_user\<close>, invoked by the
  admin on itself, return and leave a repository without any admin.
\<close>

theorem promote_user_demotes_refiled_admin:
  "create_user ''a1'' 0 new_user_repository ''admin'' ''admin@company.com'' ''admin123'' ADMIN =
     (Inr sole_admin, repo_sole_admin)
   \<and> set_user_id sole_admin ''user_001'' = (Inr (), sole_admin\<lparr>user_id := Some ''user_001''\<rparr>)
   \<and> user_save (user_put repo_sole_admin ''userrepository_1''
                   (sole_admin\<lparr>user_id := Some ''user_001''\<rparr>))
        (sole_admin\<lparr>user_id := Some ''user_001''\<rparr>) =
       (sole_admin\<lparr>user_id := Some ''user_001''\<rparr>, repo_admin_refiled)
   \<and> set (get_users_by_role repo_admin_refiled ADMIN) =
       {sole_admin\<lparr>user_id := Some ''user_001''\<rparr>}
   \<and> length (get_users_by_role repo_admin_refiled ADMIN) = 2
   \<and> fst (promote_user repo_admin_refiled ''userrepository_1'' USER ''userrepository_1'') =
       Inr (sole_admin\<lparr>user_id := Some ''user_001'', user_role := USER,
                       user_permissions := get_permissions USER\<rparr>)
   \<and> get_users_by_role
         (snd (promote_user repo_admin_refiled ''userrepository_1'' USER ''userrepository_1''))
         ADMIN = []
   \<and> fst (deactivate_user repo_admin_refiled ''userrepository_1'' ''userrepository_1'') =
       Inr (sole_admin\<lparr>user_id := Some ''user_001'', user_role := GUEST,
                       user_permissions := get_permissions GUEST\<rparr>)
   \<and> get_users_by_role
         (snd (deactivate_user repo_admin_refiled ''userrepository_1'' ''userrepository_1''))
         ADMIN = []"
proof -
  have "get_users_by_role
          (snd (promote_user repo_admin_refiled ''userrepository_1'' USER ''userrepository_1''))
          ADMIN = []"
    by (simp add: promote_refiled_admin get_users_by_role_def user_get_all_def sole_admin_def)
  moreover have "get_users_by_role
          (snd (deactivate_user repo_admin_refiled ''userrepository_1'' ''userrepository_1''))
          ADMIN = []"
    by (simp add: deactivate_refiled_admin get_users_by_role_def user_get_all_def
        sole_admin_def)
  ultimately show ?thesis
    by (simp add: create_sole_admin refile_sole_admin admins_of_repo_admin_refiled
        promote_refiled_admin deactivate_refiled_admin set_user_id_def)
qed

subsection \<open>Task permissions\<close>

lemma task_repository_ok_lookup:
  "task_repository_ok repo \<Longrightarrow> task_get_by_id repo tid = Some t \<Longrightarrow> task_id t = tid \<and> tid \<noteq> []"
  by (auto simp: task_repository_ok_def task_get_by_id_def list_all_iff dest!: map_of_SomeD)

lemma task_put_same: "task_get_by_id repo tid = Some t \<Longrightarrow> task_put repo tid t = repo"
  by (simp add: task_put_def task_get_by_id_def AList.update_triv)

lemma task_save_stored:
  "tid \<noteq> [] \<Longrightarrow> task_id t = tid \<Longrightarrow> task_save (task_put repo tid t) t = (Inr t, task_put repo tid t)"
  by (simp add: task_save_def task_put_def)


subsection \<open>Removing the team leader\<close>

lemma new_team_test_team:
  "new_team ''6c1d'' 0 ''Test Team'' ''A test team'' (Some ''user_001'') = Inr test_team"
  by (simp add: new_team_def team_validate_name_def strip_def is_space_def test_team_def)

lemma remove_member_scan_None:
  "remove_member_scan l uid ms = None \<longleftrightarrow> \<not> list_ex (\<lambda>m. member_user_id m = uid) ms"
  by (induction ms) auto

lemma remove_member_scan_leader:
  "list_ex (\<lambda>m. member_user_id m = uid) ms \<Longrightarrow>
   remove_member_scan (Some uid) uid ms = Some (Inl (ValueError ''Cannot remove team leader''))"
  by (induction ms) auto

lemma remove_member_scan_other:
  "list_ex (\<lambda>m. member_user_id m = uid) ms \<Longrightarrow> l \<noteq> Some uid \<Longrightarrow>
   remove_member_scan l uid ms =
     Some (Inr (takeWhile (\<lambda>m. member_user_id m \<noteq> uid) ms @
                tl (dropWhile (\<lambda>m. member_user_id m \<noteq> uid) ms)))"
  by (induction ms) auto

text \<open>
  Claim C3, amended. For every team whose \<open>leader_id\<close> is the given user and whose member
  list holds that user, \<open>remove_member\<close> raises
  \<^verbatim>\<open>ValueError("Cannot remove team leader")\<close> and leaves the team unchanged, also through
  \<open>remove_team_member\<close> invoked by an admin, which leaves the repository unchanged. For a
  user who is not in the member list (the leader included) it returns \<^verbatim>\<open>False\<close> and
  changes nothing. For every other member it returns \<^verbatim>\<open>True\<close>, removes the first member
  with that identifier and refreshes the timestamp.
\<close>

theorem remove_member_leader:
  "(team_leader_id t = Some uid \<and> is_member t uid \<longrightarrow>
      remove_member now t uid = (Inl (ValueError ''Cannot remove team leader''), t))
   \<and> (\<not> is_member t uid \<longrightarrow> remove_member now t uid = (Inr False, t))
   \<and> (team_leader_id t \<noteq> Some uid \<and> is_member t uid \<longrightarrow>
      remove_member now t uid =
        (Inr True,
         t\<lparr>team_members :=
              takeWhile (\<lambda>m. member_user_id m \<noteq> uid) (team_members t) @
              tl (dropWhile (\<lambda>m. member_user_id m \<noteq> uid) (team_members t)),
            team_updated_at := now\<rparr>))
   \<and> (team_get_by_id repo tid = Some t \<and> team_leader_id t = Some uid \<and> is_member t uid \<and>
        user_get_by_id users rid = Some r \<and> is_admin r \<longrightarrow>
      remove_team_member now repo users tid uid rid =
        (Inl (ValueError ''Cannot remove team leader''), repo))"
proof (intro conjI impI)
  assume "team_leader_id t = Some uid \<and> is_member t uid"
  then show "remove_member now t uid = (Inl (ValueError ''Cannot remove team leader''), t)"
    by (simp add: remove_member_def is_member_def remove_member_scan_leader)
next
  assume "\<not> is_member t uid"
  then have "remove_member_scan (team_leader_id t) uid (team_members t) = None"
    by (simp add: remove_member_scan_None is_member_def)
  then show "remove_member now t uid = (Inr False, t)"
    by (simp add: remove_member_def)
next
  assume "team_leader_id t \<noteq> Some uid \<and> is_member t uid"
  then show "remove_member now t uid =
        (Inr True,
         t\<lparr>team_members :=
              takeWhile (\<lambda>m. member_user_id m \<noteq> uid) (team_members t) @
              tl (dropWhile (\<lambda>m. member_user_id m \<noteq> uid) (team_members t)),
            team_updated_at := now\<rparr>)"
    by (simp add: remove_member_def is_member_def remove_member_scan_other)
next
  assume h: "team_get_by_id repo tid = Some t \<and> team_leader_id t = Some uid \<and> is_member t uid \<and>
             user_get_by_id users rid = Some r \<and> is_admin r"
  then have "remove_member now t uid = (Inl (ValueError ''Cannot remove team leader''), t)"
    by (simp add: remove_member_def is_member_def remove_member_scan_leader)
  moreover have "team_put repo tid t = repo"
    using h by (simp add: team_put_def team_get_by_id_def AList.update_triv)
  ultimately show "remove_team_member now repo users tid uid rid =
                     (Inl (ValueError ''Cannot remove team leader''), repo)"
    using h by (simp add: remove_team_member_def can_manage_team_def)
qed

text \<open>
  Claim C3, as stated, fails: removal of the leader raises only when the leader is in the
  member list. The constructor does not enrol the leader, so for the team of the model
  tests, \<^verbatim>\<open>Team("Test Team", "A test team", leader_id="user_001")\<close>,
  \<^verbatim>\<open>remove_member("user_001")\<close> returns \<^verbatim>\<open>False\<close> and raises nothing.
\<close>

theorem remove_member_leader_counterexample:
  "new_team ''6c1d'' 0 ''Test Team'' ''A test team'' (Some ''user_001'') = Inr test_team
   \<and> team_leader_id test_team = Some ''user_001''
   \<and> remove_member 1 test_team ''user_001'' = (Inr False, test_team)"
  using new_team_test_team by (simp add: remove_member_def test_team_def)

theorem remove_member_leader_witness:
  "team_leader_id led_team = Some ''userrepository_2'' \<and> is_member led_team ''userrepository_2''
   \<and> remove_member 5 led_team ''userrepository_2'' =
       (Inl (ValueError ''Cannot remove team leader''), led_team)
   \<and> \<not> is_member led_team ''userrepository_9''
   \<and> remove_member 5 led_team ''userrepository_9'' = (Inr False, led_team)
   \<and> is_member led_team ''userrepository_3''
   \<and> remove_member 5 led_team ''userrepository_3'' =
       (Inr True, led_team\<lparr>team_members := [hd (team_members led_team)], team_updated_at := 5\<rparr>)
   \<and> team_get_by_id repo_led_team ''7e2f'' = Some led_team
   \<and> user_get_by_id repo_one_admin ''userrepository_1'' = Some alice_admin
   \<and> is_admin alice_admin
   \<and> remove_team_member 5 repo_led_team repo_one_admin ''7e2f'' ''userrepository_2''
        ''userrepository_1'' =
       (Inl (ValueError ''Cannot remove team leader''), repo_led_team)"
  using remove_member_leader
          [where t = led_team and uid = "''userrepository_2''" and now = 5
             and repo = repo_led_team and tid = "''7e2f''" and users = repo_one_admin
             and rid = "''userrepository_1''" and r = alice_admin]
        remove_member_leader
          [where t = led_team and uid = "''userrepository_9''" and now = 5
             and repo = repo_led_team and tid = "''7e2f''" and users = repo_one_admin
             and rid = "''userrepository_1''" and r = alice_admin]
        remove_member_leader
          [where t = led_team and uid = "''userrepository_3''" and now = 5
             and repo = repo_led_team and tid = "''7e2f''" and users = repo_one_admin
             and rid = "''userrepository_1''" and r = alice_admin]
  by (simp add: led_team_def is_member_def team_get_by_id_def repo_led_team_def
      user_get_by_id_def repo_one_admin_def is_admin_def alice_admin_def)

subsection \<open>The end-to-end scenario\<close>


lemma get_user_A: "user_get_by_id repo_one_admin ''userrepository_1'' = Some user_A"
  by (simp add: user_get_by_id_def repo_one_admin_def user_A_def)

lemma get_user_B: "user_get_by_id repo_one_admin ''userrepository_2'' = Some user_B"
  by (simp add: user_get_by_id_def repo_one_admin_def user_B_def)

lemma get_task_T: "task_get_by_id repo_T ''0f8b'' = Some task_T"
  by (simp add: task_get_by_id_def repo_T_def)


subsection \<open>Failures of the service operations\<close>

lemma user_put_same: "user_get_by_id repo uid = Some u \<Longrightarrow> user_put repo uid u = repo"
  by (simp add: user_put_def user_get_by_id_def AList.update_triv)

lemma team_put_same: "team_get_by_id repo tid = Some t \<Longrightarrow> team_put repo tid t = repo"
  by (simp add: team_put_def team_get_by_id_def AList.update_triv)

lemma team_repository_ok_lookup:
  "team_repository_ok repo \<Longrightarrow> team_get_by_id repo tid = Some t \<Longrightarrow> team_id t = tid \<and> tid \<noteq> []"
  by (auto simp: team_repository_ok_def team_get_by_id_def list_all_iff dest!: map_of_SomeD)

lemma new_user_raises_ValidationError:
  "new_user salt now username email password role = Inl e \<Longrightarrow> \<exists>msg. e = ValidationError msg"
  by (auto simp: new_user_def validate_username_def validate_email_def hash_password_def Let_def
      split: sum.splits if_splits)

lemma change_password_raises:
  "fst (change_password salt u old new) = Inl e \<Longrightarrow>
   snd (change_password salt u old new) = u \<and> (\<exists>msg. e = ValidationError msg)"
  by (auto simp: change_password_def hash_password_def split: if_splits)

lemma update_status_raises:
  "fst (update_status now t new) = Inl e \<Longrightarrow> snd (update_status now t new) = t"
  by (auto simp: update_status_def split: if_splits)

lemma add_comment_raises:
  "fst (add_comment uuid now t author content) = Inl e \<Longrightarrow>
   snd (add_comment uuid now t author content) = t"
  by (auto simp: add_comment_def Let_def split: if_splits)

lemma remove_member_raises:
  "fst (remove_member now t uid) = Inl e \<Longrightarrow> snd (remove_member now t uid) = t"
  by (auto simp: remove_member_def split: option.splits sum.splits)

lemma task_id_update_status: "task_id (snd (update_status now t new)) = task_id t"
  by (simp add: update_status_def)

lemma task_id_add_comment: "task_id (snd (add_comment uuid now t author content)) = task_id t"
  by (simp add: add_comment_def Let_def)

lemma team_id_remove_member: "team_id (snd (remove_member now t uid)) = team_id t"
  by (simp add: remove_member_def split: option.splits sum.splits)

lemma create_user_fails_unchanged:
  "fst (create_user salt now repo username email password role) = Inl e \<Longrightarrow>
   snd (create_user salt now repo username email password role) = repo"
  by (auto simp: create_user_def split: if_splits sum.splits exn.splits)

lemma create_user_reraises:
  "get_by_username repo username = None \<Longrightarrow> get_by_email repo email = None \<Longrightarrow>
   new_user salt now username email password role = Inl e \<Longrightarrow>
   \<exists>msg. e = ValidationError msg \<and>
     create_user salt now repo username email password role = (Inl (ValueError msg), repo)"
  using new_user_raises_ValidationError [of salt now username email password role e]
  by (auto simp: create_user_def)

lemma change_user_password_fails_unchanged:
  "fst (change_user_password salt repo uid old new) = Inl e \<Longrightarrow>
   snd (change_user_password salt repo uid old new) = repo"
proof (cases "user_get_by_id repo uid")
  case None
  then show ?thesis by (simp add: change_user_password_def)
next
  case (Some u)
  assume f: "fst (change_user_password salt repo uid old new) = Inl e"
  obtain r u' where c: "change_password salt u old new = (r, u')"
    by (cases "change_password salt u old new")
  show ?thesis
  proof (cases r)
    case (Inl x)
    then have "u' = u"
      using change_password_raises [of salt u old new x] c by simp
    then show ?thesis
      using Some c Inl by (simp add: change_user_password_def user_put_same split: exn.splits)
  next
    case (Inr b)
    then show ?thesis
      using Some c f by (simp add: change_user_password_def Let_def)
  qed
qed

lemma change_user_password_reraises:
  "user_get_by_id repo uid = Some u \<Longrightarrow> fst (change_password salt u old new) = Inl e \<Longrightarrow>
   \<exists>msg. e = ValidationError msg \<and>
     change_user_password salt repo uid old new = (Inl (ValueError msg), repo)"
  using change_password_raises [of salt u old new e]
  by (cases "change_password salt u old new")
     (auto simp: change_user_password_def user_put_same)

lemma create_task_fails_unchanged:
  "uuid \<noteq> [] \<Longrightarrow>
   fst (create_task uuid now repo users title description assignee priority due creator) = Inl e \<Longrightarrow>
   snd (create_task uuid now repo users title description assignee priority due creator) = repo"
  by (auto simp: create_task_def new_task_def task_save_def split: if_splits sum.splits)

lemma update_task_status_propagates:
  assumes "task_get_by_id repo tid = Some t"
    and "\<not> truthy uid \<or> can_modify_task users (the uid) t"
    and "fst (update_status now t new) = Inl e"
  shows "update_task_status now repo users tid new uid = (Inl e, repo)"
proof -
  have "update_status now t new = (Inl e, t)"
    using assms(3) update_status_raises [of now t new e]
    by (cases "update_status now t new") simp
  then show ?thesis
    using assms(1,2) by (auto simp: update_task_status_def task_put_same)
qed

lemma update_task_status_fails_unchanged:
  assumes "task_repository_ok repo"
    and "fst (update_task_status now repo users tid new uid) = Inl e"
  shows "snd (update_task_status now repo users tid new uid) = repo"
proof (cases "task_get_by_id repo tid")
  case None
  then show ?thesis by (simp add: update_task_status_def)
next
  case (Some t)
  have id: "task_id t = tid \<and> tid \<noteq> []"
    using assms(1) Some by (rule task_repository_ok_lookup)
  show ?thesis
  proof (cases "truthy uid \<and> \<not> can_modify_task users (the uid) t")
    case True
    then show ?thesis using Some by (simp add: update_task_status_def)
  next
    case False
    obtain r t' where u: "update_status now t new = (r, t')"
      by (cases "update_status now t new")
    show ?thesis
    proof (cases r)
      case (Inl x)
      then have "update_task_status now repo users tid new uid = (Inl x, repo)"
        using update_task_status_propagates [OF Some, of uid users now new x] False u by auto
      then show ?thesis by simp
    next
      case (Inr y)
      have "task_id t' = tid"
        using task_id_update_status [of now t new] u id by simp
      then have "task_save (task_put repo tid t') t' = (Inr t', task_put repo tid t')"
        using id by (intro task_save_stored) simp_all
      then have "fst (update_task_status now repo users tid new uid) = Inr t'"
        using Some False u Inr by (auto simp: update_task_status_def)
      then show ?thesis using assms(2) by simp
    qed
  qed
qed

lemma assign_task_fails_unchanged:
  assumes "task_repository_ok repo"
    and "fst (assign_task now repo users tid aid uid) = Inl e"
  shows "snd (assign_task now repo users tid aid uid) = repo"
proof (cases "task_get_by_id repo tid")
  case None
  then show ?thesis by (simp add: assign_task_def)
next
  case (Some t)
  have id: "task_id t = tid \<and> tid \<noteq> []"
    using assms(1) Some by (rule task_repository_ok_lookup)
  let ?t = "set_assignee_id now t (Some aid)"
  have "task_save (task_put repo tid ?t) ?t = (Inr ?t, task_put repo tid ?t)"
    using id by (intro task_save_stored) (simp_all add: set_assignee_id_def)
  then show ?thesis
    using Some assms(2)
    by (auto simp: assign_task_def Let_def split: option.splits if_splits)
qed

lemma add_task_comment_propagates:
  assumes "task_get_by_id repo tid = Some t" and "user_get_by_id users author = Some a"
    and "can_comment_on_task users author t"
    and "fst (add_comment uuid now t author content) = Inl e"
  shows "add_task_comment uuid now repo users tid author content = (Inl e, repo)"
proof -
  have "add_comment uuid now t author content = (Inl e, t)"
    using assms(4) add_comment_raises [of uuid now t author content e]
    by (cases "add_comment uuid now t author content") simp
  then show ?thesis
    using assms(1-3) by (auto simp: add_task_comment_def task_put_same)
qed

lemma add_task_comment_fails_unchanged:
  assumes "task_repository_ok repo"
    and "fst (add_task_comment uuid now repo users tid author content) = Inl e"
  shows "snd (add_task_comment uuid now repo users tid author content) = repo"
proof (cases "task_get_by_id repo tid")
  case None
  then show ?thesis by (simp add: add_task_comment_def)
next
  case (Some t)
  have id: "task_id t = tid \<and> tid \<noteq> []"
    using assms(1) Some by (rule task_repository_ok_lookup)
  show ?thesis
  proof (cases "user_get_by_id users author")
    case None
    then show ?thesis using Some by (simp add: add_task_comment_def)
  next
    case au: (Some a)
    show ?thesis
    proof (cases "can_comment_on_task users author t")
      case False
      then show ?thesis using Some au by (simp add: add_task_comment_def)
    next
      case True
      obtain r t' where u: "add_comment uuid now t author content = (r, t')"
        by (cases "add_comment uuid now t author content")
      show ?thesis
      proof (cases r)
        case (Inl x)
        then have "add_task_comment uuid now repo users tid author content = (Inl x, repo)"
          using add_task_comment_propagates [OF Some au True, of uuid now content x] u by auto
        then show ?thesis by simp
      next
        case (Inr y)
        have "task_id t' = tid"
          using task_id_add_comment [of uuid now t author content] u id by simp
        then have "task_save (task_put repo tid t') t' = (Inr t', task_put repo tid t')"
          using id by (intro task_save_stored) simp_all
        then have "fst (add_task_comment uuid now repo users tid author content) = Inr t'"
          using Some au True u Inr by (auto simp: add_task_comment_def)
        then show ?thesis using assms(2) by simp
      qed
    qed
  qed
qed

lemma remove_team_member_propagates:
  assumes "team_get_by_id repo tid = Some t" and "can_manage_team users rid t"
    and "fst (remove_member now t uid) = Inl e"
  shows "remove_team_member now repo users tid uid rid = (Inl e, repo)"
proof -
  have "remove_member now t uid = (Inl e, t)"
    using assms(3) remove_member_raises [of now t uid e]
    by (cases "remove_member now t uid") simp
  then show ?thesis
    using assms(1,2) by (auto simp: remove_team_member_def team_put_same)
qed

lemma remove_team_member_fails_unchanged:
  assumes "team_repository_ok repo"
    and "fst (remove_team_member now repo users tid uid rid) = Inl e"
  shows "snd (remove_team_member now repo users tid uid rid) = repo"
proof (cases "team_get_by_id repo tid")
  case None
  then show ?thesis by (simp add: remove_team_member_def)
next
  case (Some t)
  have id: "team_id t = tid \<and> tid \<noteq> []"
    using assms(1) Some by (rule team_repository_ok_lookup)
  show ?thesis
  proof (cases "can_manage_team users rid t")
    case False
    then show ?thesis using Some by (simp add: remove_team_member_def)
  next
    case True
    obtain r t' where u: "remove_member now t uid = (r, t')"
      by (cases "remove_member now t uid")
    show ?thesis
    proof (cases r)
      case (Inl x)
      then have "remove_team_member now repo users tid uid rid = (Inl x, repo)"
        using remove_team_member_propagates [OF Some True, of now uid x] u by auto
      then show ?thesis by simp
    next
      case (Inr y)
      have "team_id t' = tid"
        using team_id_remove_member [of now t uid] u id by simp
      then have "team_save (team_put repo tid t') t' = (Inr t', team_put repo tid t')"
        using id by (simp add: team_save_def team_put_def)
      then have "fst (remove_team_member now repo users tid uid rid) = Inr y"
        using Some True u Inr by (auto simp: remove_team_member_def Let_def)
      then show ?thesis using assms(2) by simp
    qed
  qed
qed

lemma get_task_T_done: "task_get_by_id repo_T_done ''0f8b'' = Some (task_T\<lparr>task_status := DONE\<rparr>)"
  by (simp add: task_get_by_id_def repo_T_done_def)

lemma repo_T_done_ok: "task_repository_ok repo_T_done"
  by (simp add: task_repository_ok_def repo_T_done_def task_T_def)

lemma repo_led_team_ok: "team_repository_ok repo_led_team"
  by (simp add: team_repository_ok_def repo_led_team_def led_team_def)

lemma new_user_ab:
  "new_user ''a1'' 0 ''ab'' ''ab@example.com'' ''secret1'' USER =
     Inl (ValidationError ''Username must be at least 3 characters'')"
  by (simp add: new_user_def validate_username_def)

lemma project_put_same:
  "project_get_by_id repo pid = Some p \<Longrightarrow> project_put repo pid p = repo"
  by (simp add: project_put_def project_get_by_id_def AList.update_triv)

lemma project_repository_ok_lookup:
  "project_repository_ok repo \<Longrightarrow> project_get_by_id repo pid = Some p \<Longrightarrow>
   project_id p = pid \<and> pid \<noteq> []"
  by (auto simp: project_repository_ok_def project_get_by_id_def list_all_iff
      dest!: map_of_SomeD)

lemma project_save_stored:
  "project_repository_ok repo \<Longrightarrow> project_get_by_id repo pid = Some p \<Longrightarrow>
   project_id p' = project_id p \<Longrightarrow>
   project_save (project_put repo pid p') p' = (Inr p', project_put repo pid p')"
  using project_repository_ok_lookup [of repo pid p]
  by (simp add: project_save_def project_put_def)

lemma team_save_stored:
  "team_repository_ok repo \<Longrightarrow> team_get_by_id repo tid = Some t \<Longrightarrow>
   team_id t' = team_id t \<Longrightarrow>
   team_save (team_put repo tid t') t' = (Inr t', team_put repo tid t')"
  using team_repository_ok_lookup [of repo tid t]
  by (simp add: team_save_def team_put_def)

lemma team_put_put: "team_put (team_put repo tid t) tid t' = team_put repo tid t'"
  by (simp add: team_put_def)

lemma project_id_entity [simp]:
  "project_id (project_update_status now p st) = project_id p"
  "project_id (add_task now p t) = project_id p"
  "project_id (remove_task now p t) = project_id p"
  "project_id (snd (project_add_milestone uuid now p title descr due)) = project_id p"
  "project_id (snd (project_complete_milestone now p mid)) = project_id p"
  "project_id (project_add_team_member now p uid) = project_id p"
  "project_id (project_remove_team_member now p uid) = project_id p"
  by (simp_all add: project_update_status_def add_task_def remove_task_def
      project_add_milestone_def project_complete_milestone_def project_add_team_member_def
      project_remove_team_member_def Let_def split: option.splits)

lemma team_id_entity [simp]:
  "team_id (snd (add_member now t uid role)) = team_id t"
  "team_id (snd (promote_member now t uid role)) = team_id t"
  "team_id (add_project now t pid) = team_id t"
  "team_id (remove_project now t pid) = team_id t"
  "team_id (set_leader_id now t v) = team_id t"
  by (simp_all add: add_member_def promote_member_def add_project_def remove_project_def
      set_leader_id_def Let_def split: option.splits)

lemma add_member_raises:
  "fst (add_member now t uid role) = Inl e \<Longrightarrow> snd (add_member now t uid role) = t"
  by (auto simp: add_member_def Let_def split: if_splits)

lemma update_profile_loop_valid:
  "validate_profile_data profile_data = None \<Longrightarrow>
   fst (update_profile_loop profile (profile_strings profile_data)) = Inr ()"
proof (induction profile_data arbitrary: profile)
  case Nil
  then show ?case by (simp add: profile_strings_def)
next
  case (Cons a profile_data)
  obtain key v where a: "a = (key, v)" by (cases a)
  have rest: "validate_profile_data profile_data = None"
    and key: "key = ''first_name'' \<or> key = ''last_name'' \<or> key = ''bio''"
    using Cons.prems a by (auto split: if_splits)
  have "fst (update_profile_loop p (profile_strings profile_data)) = Inr ()" for p
    using Cons.IH [OF rest] .
  then show ?case
    using a key by (auto simp: profile_strings_def)
qed

lemma update_user_profile_fails_unchanged:
  "fst (update_user_profile repo uid profile_data) = Inl e \<Longrightarrow>
   snd (update_user_profile repo uid profile_data) = repo"
  by (auto simp: update_user_profile_def update_profile_def update_profile_loop_valid Let_def
      split: option.splits)

lemma create_project_fails_unchanged:
  "uuid \<noteq> [] \<Longrightarrow>
   fst (create_project uuid now repo users name descr owner) = Inl e \<Longrightarrow>
   snd (create_project uuid now repo users name descr owner) = repo"
  by (auto simp: create_project_def new_project_def project_save_def
      split: if_splits sum.splits)

lemma update_project_status_fails_unchanged:
  "project_repository_ok repo \<Longrightarrow>
   fst (update_project_status now repo users pid st uid) = Inl e \<Longrightarrow>
   snd (update_project_status now repo users pid st uid) = repo"
  by (auto simp: update_project_status_def Let_def project_save_stored
      split: option.splits if_splits)

lemma add_task_to_project_fails_unchanged:
  "project_repository_ok repo \<Longrightarrow>
   fst (add_task_to_project now repo users pid t uid) = Inl e \<Longrightarrow>
   snd (add_task_to_project now repo users pid t uid) = repo"
  by (auto simp: add_task_to_project_def Let_def project_save_stored
      split: option.splits if_splits)

lemma remove_task_from_project_fails_unchanged:
  "project_repository_ok repo \<Longrightarrow>
   fst (remove_task_from_project now repo users pid t uid) = Inl e \<Longrightarrow>
   snd (remove_task_from_project now repo users pid t uid) = repo"
  by (auto simp: remove_task_from_project_def Let_def project_save_stored
      split: option.splits if_splits)

lemma add_milestone_fails_unchanged:
  assumes "project_repository_ok repo"
    and "fst (add_milestone uuid now repo users pid title descr due uid) = Inl e"
  shows "snd (add_milestone uuid now repo users pid title descr due uid) = repo"
proof (cases "project_get_by_id repo pid")
  case None
  then show ?thesis by (simp add: add_milestone_def)
next
  case (Some p)
  obtain m p' where a: "project_add_milestone uuid now p title descr due = (m, p')"
    by (cases "project_add_milestone uuid now p title descr due")
  have "project_id p' = project_id p"
    using project_id_entity(4) [of uuid now p title descr due] a by simp
  then have "project_save (project_put repo pid p') p' = (Inr p', project_put repo pid p')"
    using assms(1) Some by (rule project_save_stored [rotated 2])
  then show ?thesis
    using Some a assms(2) by (auto simp: add_milestone_def split: if_splits)
qed

lemma complete_milestone_fails_unchanged:
  assumes "project_repository_ok repo"
    and "fst (complete_milestone now repo users pid mid uid) = Inl e"
  shows "snd (complete_milestone now repo users pid mid uid) = repo"
proof (cases "project_get_by_id repo pid")
  case None
  then show ?thesis by (simp add: complete_milestone_def)
next
  case (Some p)
  obtain b p' where a: "project_complete_milestone now p mid = (b, p')"
    by (cases "project_complete_milestone now p mid")
  have "project_id p' = project_id p"
    using project_id_entity(5) [of now p mid] a by simp
  then have "project_save (project_put repo pid p') p' = (Inr p', project_put repo pid p')"
    using assms(1) Some by (rule project_save_stored [rotated 2])
  then show ?thesis
    using Some a assms(2) by (auto simp: complete_milestone_def Let_def split: if_splits)
qed

lemma project_service_add_team_member_fails_unchanged:
  "project_repository_ok repo \<Longrightarrow>
   fst (project_service_add_team_member now repo users pid uid aid) = Inl e \<Longrightarrow>
   snd (project_service_add_team_member now repo users pid uid aid) = repo"
  by (auto simp: project_service_add_team_member_def Let_def project_save_stored
      split: option.splits if_splits)

lemma project_service_remove_team_member_fails_unchanged:
  "project_repository_ok repo \<Longrightarrow>
   fst (project_service_remove_team_member now repo users pid uid rid) = Inl e \<Longrightarrow>
   snd (project_service_remove_team_member now repo users pid uid rid) = repo"
  by (auto simp: project_service_remove_team_member_def Let_def project_save_stored
      split: option.splits if_splits)

lemma create_team_fails_unchanged:
  "uuid \<noteq> [] \<Longrightarrow>
   fst (create_team uuid now repo users name descr leader) = Inl e \<Longrightarrow>
   snd (create_team uuid now repo users name descr leader) = repo"
  by (auto simp: create_team_def new_team_def add_member_def is_member_def team_save_def
      Let_def split: if_splits sum.splits prod.splits)

lemma add_team_member_propagates:
  assumes "team_get_by_id repo tid = Some t" and "user_get_by_id users uid = Some u"
    and "can_manage_team users aid t"
    and "fst (add_member now t uid role) = Inl e"
  shows "add_team_member now repo users tid uid role aid = (Inl e, repo)"
proof -
  have "add_member now t uid role = (Inl e, t)"
    using assms(4) add_member_raises [of now t uid role e]
    by (cases "add_member now t uid role") simp
  then show ?thesis
    using assms(1-3) by (simp add: add_team_member_def team_put_same)
qed

lemma add_team_member_fails_unchanged:
  assumes "team_repository_ok repo"
    and "fst (add_team_member now repo users tid uid role aid) = Inl e"
  shows "snd (add_team_member now repo users tid uid role aid) = repo"
proof (cases "team_get_by_id repo tid")
  case None
  then show ?thesis by (simp add: add_team_member_def)
next
  case (Some t)
  obtain r t' where a: "add_member now t uid role = (r, t')"
    by (cases "add_member now t uid role")
  have "team_id t' = team_id t"
    using team_id_entity(1) [of now t uid role] a by simp
  then have s: "team_save (team_put repo tid t') t' = (Inr t', team_put repo tid t')"
    using assms(1) Some by (rule team_save_stored [rotated 2])
  show ?thesis
  proof (cases r)
    case (Inl x)
    then have "t' = t"
      using add_member_raises [of now t uid role x] a by simp
    then show ?thesis
      using Some a Inl by (auto simp: add_team_member_def team_put_same split: option.splits)
  next
    case (Inr m)
    then show ?thesis
      using Some a s assms(2) by (auto simp: add_team_member_def split: option.splits if_splits)
  qed
qed

lemma promote_team_member_fails_unchanged:
  assumes "team_repository_ok repo"
    and "fst (promote_team_member now repo users tid uid role pid) = Inl e"
  shows "snd (promote_team_member now repo users tid uid role pid) = repo"
proof (cases "team_get_by_id repo tid")
  case None
  then show ?thesis by (simp add: promote_team_member_def)
next
  case (Some t)
  obtain b t' where a: "promote_member now t uid role = (b, t')"
    by (cases "promote_member now t uid role")
  have "team_id t' = team_id t"
    using team_id_entity(2) [of now t uid role] a by simp
  then have "team_save (team_put repo tid t') t' = (Inr t', team_put repo tid t')"
    using assms(1) Some by (rule team_save_stored [rotated 2])
  then show ?thesis
    using Some a assms(2) by (auto simp: promote_team_member_def Let_def split: if_splits)
qed

lemma change_team_leader_fails_unchanged:
  assumes "team_repository_ok repo"
    and "fst (change_team_leader now repo users tid nid cid) = Inl e"
  shows "snd (change_team_leader now repo users tid nid cid) = repo"
proof (cases "team_get_by_id repo tid")
  case None
  then show ?thesis by (simp add: change_team_leader_def)
next
  case (Some t)
  have s: "team_save (team_put repo tid t') t' = (Inr t', team_put repo tid t')"
    if "team_id t' = team_id t" for t'
    using assms(1) Some that by (rule team_save_stored)
  show ?thesis
  proof (cases "is_member t nid")
    case True
    then show ?thesis
      using Some assms(2) s [of "set_leader_id now (snd (promote_member now t nid LEADER))
                                   (Some nid)"]
      by (auto simp: change_team_leader_def Let_def team_put_put
          split: option.splits if_splits)
  next
    case False
    then have "fst (add_member now t nid LEADER) =
                 Inr \<lparr>member_user_id = nid, member_role = LEADER, member_joined_at = now,
                      member_permissions = get_default_permissions LEADER\<rparr>"
      by (simp add: add_member_def Let_def)
    then show ?thesis
      using False Some assms(2)
        s [of "set_leader_id now (snd (add_member now t nid LEADER)) (Some nid)"]
      by (auto simp: change_team_leader_def Let_def team_put_put
          split: option.splits if_splits)
  qed
qed

lemma add_project_to_team_fails_unchanged:
  "team_repository_ok repo \<Longrightarrow>
   fst (add_project_to_team now repo users tid pid aid) = Inl e \<Longrightarrow>
   snd (add_project_to_team now repo users tid pid aid) = repo"
  by (auto simp: add_project_to_team_def Let_def team_save_stored
      split: option.splits if_splits)

lemma remove_project_from_team_fails_unchanged:
  "team_repository_ok repo \<Longrightarrow>
   fst (remove_project_from_team now repo users tid pid rid) = Inl e \<Longrightarrow>
   snd (remove_project_from_team now repo users tid pid rid) = repo"
  by (auto simp: remove_project_from_team_def Let_def team_save_stored
      split: option.splits if_splits)

lemma perform_fails_unchanged:
  assumes "storage_ok st" and "fresh_id_ok call" and "fst (perform st call) = Some e"
  shows "snd (perform st call) = st"
proof -
  have t: "task_repository_ok (st_tasks st)" and p: "project_repository_ok (st_projects st)"
    and g: "team_repository_ok (st_teams st)"
    using assms(1) by (simp_all add: storage_ok_def)
  have r: "raised x = Some e \<Longrightarrow> x = Inl e" for x :: "exn + 'a"
    by (cases x) (simp_all add: raised_def)
  show ?thesis
  proof (cases call)
    case (CreateUser salt now username email password role)
    then show ?thesis
      using assms(3) create_user_fails_unchanged [of salt now "st_users st" username email
          password role e]
      by (auto simp: on_users_def dest!: r)
  next
    case (UpdateUserProfile uid profile_data)
    then show ?thesis
      using assms(3) update_user_profile_fails_unchanged [of "st_users st" uid profile_data e]
      by (auto simp: on_users_def dest!: r)
  next
    case (ChangeUserPassword salt uid old new)
    then show ?thesis
      using assms(3) change_user_password_fails_unchanged [of salt "st_users st" uid old new e]
      by (auto simp: on_users_def dest!: r)
  next
    case (PromoteUser uid role pid)
    then show ?thesis
      using assms(3) promote_user_fails_unchanged [of "st_users st" uid role pid e]
      by (auto simp: on_users_def dest!: r)
  next
    case (DeactivateUser uid did)
    then show ?thesis
      using assms(3) deactivate_user_fails_unchanged [of "st_users st" uid did e]
      by (auto simp: on_users_def dest!: r)
  next
    case (CreateTask uuid now title descr assignee priority due creator)
    then show ?thesis
      using assms(2,3) create_task_fails_unchanged [of uuid now "st_tasks st" "st_users st"
          title descr assignee priority due creator e]
      by (auto simp: on_tasks_def dest!: r)
  next
    case (UpdateTaskStatus now tid status uid)
    then show ?thesis
      using assms(3) update_task_status_fails_unchanged [OF t, of now "st_users st" tid
          status uid e]
      by (auto simp: on_tasks_def dest!: r)
  next
    case (AssignTask now tid aid uid)
    then show ?thesis
      using assms(3) assign_task_fails_unchanged [OF t, of now "st_users st" tid aid uid e]
      by (auto simp: on_tasks_def dest!: r)
  next
    case (AddTaskComment uuid now tid author content)
    then show ?thesis
      using assms(3) add_task_comment_fails_unchanged [OF t, of uuid now "st_users st" tid
          author content e]
      by (auto simp: on_tasks_def dest!: r)
  next
    case (CreateProject uuid now name descr owner)
    then show ?thesis
      using assms(2,3) create_project_fails_unchanged [of uuid now "st_projects st"
          "st_users st" name descr owner e]
      by (auto simp: on_projects_def dest!: r)
  next
    case (UpdateProjectStatus now pid status uid)
    then show ?thesis
      using assms(3) update_project_status_fails_unchanged [OF p, of now "st_users st" pid
          status uid e]
      by (auto simp: on_projects_def dest!: r)
  next
    case (AddTaskToProject now pid task uid)
    then show ?thesis
      using assms(3) add_task_to_project_fails_unchanged [OF p, of now "st_users st" pid
          task uid e]
      by (auto simp: on_projects_def dest!: r)
  next
    case (RemoveTaskFromProject now pid task uid)
    then show ?thesis
      using assms(3) remove_task_from_project_fails_unchanged [OF p, of now "st_users st" pid
          task uid e]
      by (auto simp: on_projects_def dest!: r)
  next
    case (AddMilestone uuid now pid title descr due uid)
    then show ?thesis
      using assms(3) add_milestone_fails_unchanged [OF p, of uuid now "st_users st" pid title
          descr due uid e]
      by (auto simp: on_projects_def dest!: r)
  next
    case (CompleteMilestone now pid mid uid)
    then show ?thesis
      using assms(3) complete_milestone_fails_unchanged [OF p, of now "st_users st" pid mid
          uid e]
      by (auto simp: on_projects_def dest!: r)
  next
    case (ProjectAddTeamMember now pid uid aid)
    then show ?thesis
      using assms(3) project_service_add_team_member_fails_unchanged [OF p, of now
          "st_users st" pid uid aid e]
      by (auto simp: on_projects_def dest!: r)
  next
    case (ProjectRemoveTeamMember now pid uid rid)
    then show ?thesis
      using assms(3) project_service_remove_team_member_fails_unchanged [OF p, of now
          "st_users st" pid uid rid e]
      by (auto simp: on_projects_def dest!: r)
  next
    case (CreateTeam uuid now name descr leader)
    then show ?thesis
      using assms(2,3) create_team_fails_unchanged [of uuid now "st_teams st" "st_users st"
          name descr leader e]
      by (auto simp: on_teams_def dest!: r)
  next
    case (AddTeamMember now tid uid role aid)
    then show ?thesis
      using assms(3) add_team_member_fails_unchanged [OF g, of now "st_users st" tid uid
          role aid e]
      by (auto simp: on_teams_def dest!: r)
  next
    case (RemoveTeamMember now tid uid rid)
    then show ?thesis
      using assms(3) remove_team_member_fails_unchanged [OF g, of now "st_users st" tid uid
          rid e]
      by (auto simp: on_teams_def dest!: r)
  next
    case (PromoteTeamMember now tid uid role pid)
    then show ?thesis
      using assms(3) promote_team_member_fails_unchanged [OF g, of now "st_users st" tid uid
          role pid e]
      by (auto simp: on_teams_def dest!: r)
  next
    case (ChangeTeamLeader now tid nid cid)
    then show ?thesis
      using assms(3) change_team_leader_fails_unchanged [OF g, of now "st_users st" tid nid
          cid e]
      by (auto simp: on_teams_def dest!: r)
  next
    case (AddProjectToTeam now tid pid aid)
    then show ?thesis
      using assms(3) add_project_to_team_fails_unchanged [OF g, of now "st_users st" tid pid
          aid e]
      by (auto simp: on_teams_def dest!: r)
  next
    case (RemoveProjectFromTeam now tid pid rid)
    then show ?thesis
      using assms(3) remove_project_from_team_fails_unchanged [OF g, of now "st_users st" tid
          pid rid e]
      by (auto simp: on_teams_def dest!: r)
  qed
qed

lemma example_storage_ok: "storage_ok example_storage"
  using repo_T_done_ok repo_led_team_ok
  by (simp add: storage_ok_def example_storage_def project_repository_ok_def)

lemma user_A_is_admin: "is_admin user_A"
  by (simp add: user_A_def is_admin_def alice_admin_def)

lemma user_B_not_admin: "\<not> is_admin user_B"
  by (simp add: user_B_def is_admin_def bob_user_def)

lemma get_task_U: "task_get_by_id repo_U ''2d4e'' = Some task_U"
  by (simp add: task_get_by_id_def repo_U_def)

lemma get_project_P: "project_get_by_id repo_P ''3b5a'' = Some project_P"
  by (simp add: project_get_by_id_def repo_P_def)

lemma get_led_team: "team_get_by_id repo_led_team ''7e2f'' = Some led_team"
  by (simp add: team_get_by_id_def repo_led_team_def)

lemma get_test_team: "team_get_by_id repo_test_team ''6c1d'' = Some test_team"
  by (simp add: team_get_by_id_def repo_test_team_def)

lemma A_manages_led_team: "can_manage_team repo_one_admin ''userrepository_1'' led_team"
  by (simp add: can_manage_team_def get_user_A user_A_is_admin)

lemma B_cannot_modify_U: "\<not> can_modify_task repo_one_admin ''userrepository_2'' task_U"
  by (simp add: can_modify_task_def get_user_B user_B_not_admin task_U_def)

lemma B_cannot_assign_T: "\<not> can_assign_task repo_one_admin ''userrepository_2'' task_T"
  by (simp add: can_assign_task_def get_user_B user_B_not_admin)

lemma B_cannot_comment_on_U: "\<not> can_comment_on_task repo_one_admin ''userrepository_2'' task_U"
  by (simp add: can_comment_on_task_def get_user_B user_B_not_admin task_U_def)

lemma B_can_comment_on_T: "can_comment_on_task repo_one_admin ''userrepository_2'' task_T"
  by (simp add: can_comment_on_task_def get_user_B user_B_not_admin task_T_def)

lemma B_cannot_modify_P: "\<not> can_modify_project repo_one_admin ''userrepository_2'' project_P"
  by (simp add: can_modify_project_def get_user_B user_B_not_admin project_P_def)

lemma B_cannot_manage_test_team:
  "\<not> can_manage_team repo_one_admin ''userrepository_2'' test_team"
  by (simp add: can_manage_team_def get_user_B user_B_not_admin test_team_def
      get_member_role_def)

lemma change_password_A_short:
  "fst (change_password ''b2'' user_A ''secret1'' ''abc'') =
     Inl (ValidationError ''Password too short'')"
  by (simp add: change_password_def verify_password_def user_A_def alice_admin_def
      hmac_key_of_secret1 hash_password_def)

lemma new_task_empty_title:
  "new_task ''c1'' 9 '''' '''' None MEDIUM None = Inl (ValueError ''Task title cannot be empty'')"
  by (simp add: new_task_def validate_title_def)

lemma add_comment_empty:
  "fst (add_comment ''c1'' 9 task_T ''userrepository_2'' '''') =
     Inl (ValueError ''Comment content cannot be empty'')"
  by (simp add: add_comment_def strip_def)

lemma new_project_empty_name:
  "new_project ''c1'' 9 '''' '''' None = Inl (ValueError ''Project name cannot be empty'')"
  by (simp add: new_project_def project_validate_name_def)

lemma new_team_empty_name:
  "new_team ''c1'' 9 '''' '''' None = Inl (ValueError ''Team name cannot be empty'')"
  by (simp add: new_team_def team_validate_name_def)

lemma add_member_B_again:
  "fst (add_member 9 led_team ''userrepository_2'' MEMBER) =
     Inl (ValueError ''User is already a member of this team'')"
  by (simp add: add_member_def is_member_def led_team_def)

lemma remove_member_B_leader:
  "fst (remove_member 9 led_team ''userrepository_2'') =
     Inl (ValueError ''Cannot remove team leader'')"
  by (simp add: remove_member_def led_team_def)

lemma update_status_T_done:
  "fst (update_status 9 (task_T\<lparr>task_status := DONE\<rparr>) TODO) =
     Inl (ValueError ''Cannot change status of completed task'')"
  by (simp add: update_status_def)

lemma A_can_modify_T_done:
  "can_modify_task repo_one_admin ''userrepository_1'' (task_T\<lparr>task_status := DONE\<rparr>)"
  by (simp add: can_modify_task_def get_user_A user_A_is_admin)

lemma no_user_ab:
  "get_by_username new_user_repository ''ab'' = None"
  "get_by_email new_user_repository ''ab@example.com'' = None"
  by (simp_all add: get_by_username_def get_by_email_def user_get_all_def
      new_user_repository_def)

text \<open>
  Claim C9, amended. The operations of the four services that write to storage are the
  twenty-four calls of \<open>service_call\<close>; the others only read it. On storage as \<^verbatim>\<open>save\<close>
  builds it, and with a fresh identifier that is not empty: whenever such a call raises, the
  storage is what it was before the call. No failure is swallowed. A \<^verbatim>\<open>ValidationError\<close>
  of the \<^verbatim>\<open>User\<close> entity reaches the caller of \<open>create_user\<close> and
  \<open>change_user_password\<close> as a \<^verbatim>\<open>ValueError\<close> with the same message, the repository
  unchanged. Every other exception of an entity (of the constructors of \<^verbatim>\<open>Task\<close>,
  \<^verbatim>\<open>Project\<close> and \<^verbatim>\<open>Team\<close>, of \<open>update_status\<close>, \<open>add_comment\<close>, \<open>add_member\<close> and
  \<open>remove_member\<close>) reaches the caller of the authorised operation unchanged, the
  repository unchanged. Once the entities that a call names are found, a refusal of the policy
  reaches the caller as the \<^verbatim>\<open>PermissionError\<close> of the operation, the repository
  unchanged: for \<open>promote_user\<close> and \<open>deactivate_user\<close>, for \<open>update_task_status\<close>,
  \<open>assign_task\<close> and \<open>add_task_comment\<close>, for the seven operations on a stored project
  and for the six operations on a stored team.
\<close>

theorem service_failures:
  "(storage_ok st \<and> fresh_id_ok call \<and> fst (perform st call) = Some e \<longrightarrow>
        snd (perform st call) = st)
     \<and> (get_by_username users username = None \<and> get_by_email users email = None \<and>
          new_user salt now username email password role = Inl x \<longrightarrow>
        (\<exists>msg. x = ValidationError msg \<and>
           create_user salt now users username email password role =
             (Inl (ValueError msg), users)))
     \<and> (user_get_by_id users uid = Some u \<and> fst (change_password salt u old new) = Inl x \<longrightarrow>
        (\<exists>msg. x = ValidationError msg \<and>
           change_user_password salt users uid old new = (Inl (ValueError msg), users)))
     \<and> (\<not> (truthy assignee \<and> user_get_by_id users (the assignee) = None) \<and>
          \<not> (truthy creator \<and> user_get_by_id users (the creator) = None) \<and>
          new_task uuid now title description assignee priority due = Inl x \<longrightarrow>
        create_task uuid now tasks users title description assignee priority due creator =
          (Inl x, tasks))
     \<and> (task_get_by_id tasks tk = Some t \<and>
          (\<not> truthy actor \<or> can_modify_task users (the actor) t) \<and>
          fst (update_status now t status) = Inl x \<longrightarrow>
        update_task_status now tasks users tk status actor = (Inl x, tasks))
     \<and> (task_get_by_id tasks tk = Some t \<and> user_get_by_id users uid = Some u \<and>
          can_comment_on_task users uid t \<and>
          fst (add_comment uuid now t uid content) = Inl x \<longrightarrow>
        add_task_comment uuid now tasks users tk uid content = (Inl x, tasks))
     \<and> (\<not> (truthy owner \<and> user_get_by_id users (the owner) = None) \<and>
          new_project uuid now name description owner = Inl x \<longrightarrow>
        create_project uuid now projects users name description owner = (Inl x, projects))
     \<and> (\<not> (truthy leader \<and> user_get_by_id users (the leader) = None) \<and>
          new_team uuid now name description leader = Inl x \<longrightarrow>
        create_team uuid now teams users name description leader = (Inl x, teams))
     \<and> (team_get_by_id teams tm = Some g \<and> user_get_by_id users uid = Some u \<and>
          can_manage_team users aid g \<and> fst (add_member now g uid trole) = Inl x \<longrightarrow>
        add_team_member now teams users tm uid trole aid = (Inl x, teams))
     \<and> (team_get_by_id teams tm = Some g \<and> can_manage_team users aid g \<and>
          fst (remove_member now g uid) = Inl x \<longrightarrow>
        remove_team_member now teams users tm uid aid = (Inl x, teams))
     \<and> (user_get_by_id users uid = Some u \<and> user_get_by_id users aid = Some a \<and>
          \<not> is_admin a \<longrightarrow>
        promote_user users uid role aid =
          (Inl (PermissionError ''Only admins can promote users''), users) \<and>
        deactivate_user users uid aid =
          (Inl (PermissionError ''Only admins can deactivate users''), users))
     \<and> (task_get_by_id tasks tk = Some t \<and> truthy actor \<and>
          \<not> can_modify_task users (the actor) t \<longrightarrow>
        update_task_status now tasks users tk status actor =
          (Inl (PermissionError ''User does not have permission to modify this task''), tasks))
     \<and> (task_get_by_id tasks tk = Some t \<and> user_get_by_id users uid = Some u \<and>
          \<not> can_assign_task users aid t \<longrightarrow>
        assign_task now tasks users tk uid aid =
          (Inl (PermissionError ''User does not have permission to assign this task''), tasks))
     \<and> (task_get_by_id tasks tk = Some t \<and> user_get_by_id users uid = Some u \<and>
          \<not> can_comment_on_task users uid t \<longrightarrow>
        add_task_comment uuid now tasks users tk uid content =
          (Inl (PermissionError ''User does not have permission to comment on this task''),
           tasks))
     \<and> (project_get_by_id projects pj = Some p \<and> \<not> can_modify_project users aid p \<longrightarrow>
        update_project_status now projects users pj pstatus aid =
          (Inl (PermissionError ''User does not have permission to modify this project''),
           projects) \<and>
        add_task_to_project now projects users pj t aid =
          (Inl (PermissionError ''User does not have permission to modify this project''),
           projects) \<and>
        remove_task_from_project now projects users pj t aid =
          (Inl (PermissionError ''User does not have permission to modify this project''),
           projects) \<and>
        add_milestone uuid now projects users pj title description mdue aid =
          (Inl (PermissionError ''User does not have permission to modify this project''),
           projects) \<and>
        complete_milestone now projects users pj mid aid =
          (Inl (PermissionError ''User does not have permission to modify this project''),
           projects) \<and>
        project_service_remove_team_member now projects users pj uid aid =
          (Inl (PermissionError ''User does not have permission to modify this project''),
           projects) \<and>
        (user_get_by_id users uid = Some u \<longrightarrow>
           project_service_add_team_member now projects users pj uid aid =
             (Inl (PermissionError ''User does not have permission to modify this project''),
              projects)))
     \<and> (team_get_by_id teams tm = Some g \<and> \<not> can_manage_team users aid g \<longrightarrow>
        remove_team_member now teams users tm uid aid =
          (Inl (PermissionError ''User does not have permission to manage this team''),
           teams) \<and>
        promote_team_member now teams users tm uid trole aid =
          (Inl (PermissionError ''User does not have permission to manage this team''),
           teams) \<and>
        add_project_to_team now teams users tm pj aid =
          (Inl (PermissionError ''User does not have permission to manage this team''),
           teams) \<and>
        remove_project_from_team now teams users tm pj aid =
          (Inl (PermissionError ''User does not have permission to manage this team''),
           teams) \<and>
        (user_get_by_id users uid = Some u \<longrightarrow>
           add_team_member now teams users tm uid trole aid =
             (Inl (PermissionError ''User does not have permission to manage this team''),
              teams) \<and>
           change_team_leader now teams users tm uid aid =
             (Inl (PermissionError ''User does not have permission to manage this team''),
              teams)))"
proof (intro conjI impI)
  assume "storage_ok st \<and> fresh_id_ok call \<and> fst (perform st call) = Some e"
  then show "snd (perform st call) = st"
    using perform_fails_unchanged [of st call e] by simp
next
  assume "get_by_username users username = None \<and> get_by_email users email = None \<and>
          new_user salt now username email password role = Inl x"
  then show "\<exists>msg. x = ValidationError msg \<and>
           create_user salt now users username email password role =
             (Inl (ValueError msg), users)"
    using create_user_reraises [of users username email salt now password role x] by auto
next
  assume "user_get_by_id users uid = Some u \<and> fst (change_password salt u old new) = Inl x"
  then show "\<exists>msg. x = ValidationError msg \<and>
           change_user_password salt users uid old new = (Inl (ValueError msg), users)"
    using change_user_password_reraises [of users uid u salt old new x] by auto
next
  assume "\<not> (truthy assignee \<and> user_get_by_id users (the assignee) = None) \<and>
          \<not> (truthy creator \<and> user_get_by_id users (the creator) = None) \<and>
          new_task uuid now title description assignee priority due = Inl x"
  then show "create_task uuid now tasks users title description assignee priority due creator =
          (Inl x, tasks)"
    by (auto simp: create_task_def)
next
  assume "task_get_by_id tasks tk = Some t \<and>
          (\<not> truthy actor \<or> can_modify_task users (the actor) t) \<and>
          fst (update_status now t status) = Inl x"
  then show "update_task_status now tasks users tk status actor = (Inl x, tasks)"
    using update_task_status_propagates [of tasks tk t actor users now status x] by auto
next
  assume "task_get_by_id tasks tk = Some t \<and> user_get_by_id users uid = Some u \<and>
          can_comment_on_task users uid t \<and>
          fst (add_comment uuid now t uid content) = Inl x"
  then show "add_task_comment uuid now tasks users tk uid content = (Inl x, tasks)"
    using add_task_comment_propagates [of tasks tk t users uid u uuid now content x] by auto
next
  assume "\<not> (truthy owner \<and> user_get_by_id users (the owner) = None) \<and>
          new_project uuid now name description owner = Inl x"
  then show "create_project uuid now projects users name description owner = (Inl x, projects)"
    by (auto simp: create_project_def)
next
  assume "\<not> (truthy leader \<and> user_get_by_id users (the leader) = None) \<and>
          new_team uuid now name description leader = Inl x"
  then show "create_team uuid now teams users name description leader = (Inl x, teams)"
    by (auto simp: create_team_def)
next
  assume "team_get_by_id teams tm = Some g \<and> user_get_by_id users uid = Some u \<and>
          can_manage_team users aid g \<and> fst (add_member now g uid trole) = Inl x"
  then show "add_team_member now teams users tm uid trole aid = (Inl x, teams)"
    using add_team_member_propagates [of teams tm g users uid u aid now trole x] by auto
next
  assume "team_get_by_id teams tm = Some g \<and> can_manage_team users aid g \<and>
          fst (remove_member now g uid) = Inl x"
  then show "remove_team_member now teams users tm uid aid = (Inl x, teams)"
    using remove_team_member_propagates [of teams tm g users aid now uid x] by auto
next
  assume h: "user_get_by_id users uid = Some u \<and> user_get_by_id users aid = Some a \<and>
          \<not> is_admin a"
  show "promote_user users uid role aid =
          (Inl (PermissionError ''Only admins can promote users''), users)"
    using h by (simp add: promote_user_def)
  show "deactivate_user users uid aid =
          (Inl (PermissionError ''Only admins can deactivate users''), users)"
    using h by (simp add: deactivate_user_def)
next
  assume "task_get_by_id tasks tk = Some t \<and> truthy actor \<and>
          \<not> can_modify_task users (the actor) t"
  then show "update_task_status now tasks users tk status actor =
          (Inl (PermissionError ''User does not have permission to modify this task''), tasks)"
    by (simp add: update_task_status_def)
next
  assume "task_get_by_id tasks tk = Some t \<and> user_get_by_id users uid = Some u \<and>
          \<not> can_assign_task users aid t"
  then show "assign_task now tasks users tk uid aid =
          (Inl (PermissionError ''User does not have permission to assign this task''), tasks)"
    by (simp add: assign_task_def)
next
  assume "task_get_by_id tasks tk = Some t \<and> user_get_by_id users uid = Some u \<and>
          \<not> can_comment_on_task users uid t"
  then show "add_task_comment uuid now tasks users tk uid content =
          (Inl (PermissionError ''User does not have permission to comment on this task''),
           tasks)"
    by (simp add: add_task_comment_def)
next
  assume h: "project_get_by_id projects pj = Some p \<and> \<not> can_modify_project users aid p"
  show "update_project_status now projects users pj pstatus aid =
          (Inl (PermissionError ''User does not have permission to modify this project''),
           projects)"
    using h by (simp add: update_project_status_def)
  show "add_task_to_project now projects users pj t aid =
          (Inl (PermissionError ''User does not have permission to modify this project''),
           projects)"
    using h by (simp add: add_task_to_project_def)
  show "remove_task_from_project now projects users pj t aid =
          (Inl (PermissionError ''User does not have permission to modify this project''),
           projects)"
    using h by (simp add: remove_task_from_project_def)
  show "add_milestone uuid now projects users pj title description mdue aid =
          (Inl (PermissionError ''User does not have permission to modify this project''),
           projects)"
    using h by (simp add: add_milestone_def)
  show "complete_milestone now projects users pj mid aid =
          (Inl (PermissionError ''User does not have permission to modify this project''),
           projects)"
    using h by (simp add: complete_milestone_def)
  show "project_service_remove_team_member now projects users pj uid aid =
          (Inl (PermissionError ''User does not have permission to modify this project''),
           projects)"
    using h by (simp add: project_service_remove_team_member_def)
  show "project_service_add_team_member now projects users pj uid aid =
          (Inl (PermissionError ''User does not have permission to modify this project''),
           projects)"
    if "user_get_by_id users uid = Some u"
    using h that by (simp add: project_service_add_team_member_def)
next
  assume h: "team_get_by_id teams tm = Some g \<and> \<not> can_manage_team users aid g"
  show "remove_team_member now teams users tm uid aid =
          (Inl (PermissionError ''User does not have permission to manage this team''),
           teams)"
    using h by (simp add: remove_team_member_def)
  show "promote_team_member now teams users tm uid trole aid =
          (Inl (PermissionError ''User does not have permission to manage this team''),
           teams)"
    using h by (simp add: promote_team_member_def)
  show "add_project_to_team now teams users tm pj aid =
          (Inl (PermissionError ''User does not have permission to manage this team''),
           teams)"
    using h by (simp add: add_project_to_team_def)
  show "remove_project_from_team now teams users tm pj aid =
          (Inl (PermissionError ''User does not have permission to manage this team''),
           teams)"
    using h by (simp add: remove_project_from_team_def)
  show "add_team_member now teams users tm uid trole aid =
          (Inl (PermissionError ''User does not have permission to manage this team''),
           teams)"
    if "user_get_by_id users uid = Some u"
    using h that by (simp add: add_team_member_def)
  show "change_team_leader now teams users tm uid aid =
          (Inl (PermissionError ''User does not have permission to manage this team''),
           teams)"
    if "user_get_by_id users uid = Some u"
    using h that by (simp add: change_team_leader_def)
qed

theorem service_failures_witness:
  "(storage_ok example_storage
    \<and> fresh_id_ok (UpdateTaskStatus 9 ''0f8b'' TODO (Some ''userrepository_1''))
    \<and> perform example_storage (UpdateTaskStatus 9 ''0f8b'' TODO (Some ''userrepository_1'')) =
        (Some (ValueError ''Cannot change status of completed task''), example_storage))
   \<and> (get_by_username new_user_repository ''ab'' = None
      \<and> get_by_email new_user_repository ''ab@example.com'' = None
      \<and> new_user ''a1'' 0 ''ab'' ''ab@example.com'' ''secret1'' USER =
          Inl (ValidationError ''Username must be at least 3 characters'')
      \<and> create_user ''a1'' 0 new_user_repository ''ab'' ''ab@example.com'' ''secret1'' USER =
          (Inl (ValueError ''Username must be at least 3 characters''), new_user_repository))
   \<and> (user_get_by_id repo_one_admin ''userrepository_1'' = Some user_A
      \<and> fst (change_password ''b2'' user_A ''secret1'' ''abc'') =
          Inl (ValidationError ''Password too short'')
      \<and> change_user_password ''b2'' repo_one_admin ''userrepository_1'' ''secret1'' ''abc'' =
          (Inl (ValueError ''Password too short''), repo_one_admin))
   \<and> (\<not> truthy None
      \<and> new_task ''c1'' 9 '''' '''' None MEDIUM None =
          Inl (ValueError ''Task title cannot be empty'')
      \<and> create_task ''c1'' 9 repo_T repo_one_admin '''' '''' None MEDIUM None None =
          (Inl (ValueError ''Task title cannot be empty''), repo_T))
   \<and> (task_get_by_id repo_T_done ''0f8b'' = Some (task_T\<lparr>task_status := DONE\<rparr>)
      \<and> can_modify_task repo_one_admin ''userrepository_1'' (task_T\<lparr>task_status := DONE\<rparr>)
      \<and> fst (update_status 9 (task_T\<lparr>task_status := DONE\<rparr>) TODO) =
          Inl (ValueError ''Cannot change status of completed task'')
      \<and> update_task_status 9 repo_T_done repo_one_admin ''0f8b'' TODO
          (Some ''userrepository_1'') =
          (Inl (ValueError ''Cannot change status of completed task''), repo_T_done))
   \<and> (task_get_by_id repo_T ''0f8b'' = Some task_T
      \<and> user_get_by_id repo_one_admin ''userrepository_2'' = Some user_B
      \<and> can_comment_on_task repo_one_admin ''userrepository_2'' task_T
      \<and> fst (add_comment ''c1'' 9 task_T ''userrepository_2'' '''') =
          Inl (ValueError ''Comment content cannot be empty'')
      \<and> add_task_comment ''c1'' 9 repo_T repo_one_admin ''0f8b'' ''userrepository_2'' '''' =
          (Inl (ValueError ''Comment content cannot be empty''), repo_T))
   \<and> (new_project ''c1'' 9 '''' '''' None = Inl (ValueError ''Project name cannot be empty'')
      \<and> create_project ''c1'' 9 repo_P repo_one_admin '''' '''' None =
          (Inl (ValueError ''Project name cannot be empty''), repo_P))
   \<and> (new_team ''c1'' 9 '''' '''' None = Inl (ValueError ''Team name cannot be empty'')
      \<and> create_team ''c1'' 9 repo_led_team repo_one_admin '''' '''' None =
          (Inl (ValueError ''Team name cannot be empty''), repo_led_team))
   \<and> (team_get_by_id repo_led_team ''7e2f'' = Some led_team
      \<and> can_manage_team repo_one_admin ''userrepository_1'' led_team
      \<and> fst (add_member 9 led_team ''userrepository_2'' MEMBER) =
          Inl (ValueError ''User is already a member of this team'')
      \<and> add_team_member 9 repo_led_team repo_one_admin ''7e2f'' ''userrepository_2'' MEMBER
          ''userrepository_1'' =
          (Inl (ValueError ''User is already a member of this team''), repo_led_team))
   \<and> (fst (remove_member 9 led_team ''userrepository_2'') =
          Inl (ValueError ''Cannot remove team leader'')
      \<and> remove_team_member 9 repo_led_team repo_one_admin ''7e2f'' ''userrepository_2''
          ''userrepository_1'' =
          (Inl (ValueError ''Cannot remove team leader''), repo_led_team))
   \<and> (\<not> is_admin user_B
      \<and> promote_user repo_one_admin ''userrepository_1'' GUEST ''userrepository_2'' =
          (Inl (PermissionError ''Only admins can promote users''), repo_one_admin)
      \<and> deactivate_user repo_one_admin ''userrepository_1'' ''userrepository_2'' =
          (Inl (PermissionError ''Only admins can deactivate users''), repo_one_admin))
   \<and> (task_get_by_id repo_U ''2d4e'' = Some task_U
      \<and> truthy (Some ''userrepository_2'')
      \<and> \<not> can_modify_task repo_one_admin ''userrepository_2'' task_U
      \<and> update_task_status 9 repo_U repo_one_admin ''2d4e'' DONE (Some ''userrepository_2'') =
          (Inl (PermissionError ''User does not have permission to modify this task''), repo_U))
   \<and> (\<not> can_assign_task repo_one_admin ''userrepository_2'' task_T
      \<and> assign_task 9 repo_T repo_one_admin ''0f8b'' ''userrepository_2'' ''userrepository_2'' =
          (Inl (PermissionError ''User does not have permission to assign this task''), repo_T))
   \<and> (\<not> can_comment_on_task repo_one_admin ''userrepository_2'' task_U
      \<and> add_task_comment ''c1'' 9 repo_U repo_one_admin ''2d4e'' ''userrepository_2'' ''hello'' =
          (Inl (PermissionError ''User does not have permission to comment on this task''),
           repo_U))
   \<and> (project_get_by_id repo_P ''3b5a'' = Some project_P
      \<and> \<not> can_modify_project repo_one_admin ''userrepository_2'' project_P
      \<and> update_project_status 9 repo_P repo_one_admin ''3b5a'' ACTIVE ''userrepository_2'' =
          (Inl (PermissionError ''User does not have permission to modify this project''),
           repo_P)
      \<and> add_task_to_project 9 repo_P repo_one_admin ''3b5a'' task_T ''userrepository_2'' =
          (Inl (PermissionError ''User does not have permission to modify this project''),
           repo_P)
      \<and> remove_task_from_project 9 repo_P repo_one_admin ''3b5a'' task_T ''userrepository_2'' =
          (Inl (PermissionError ''User does not have permission to modify this project''),
           repo_P)
      \<and> add_milestone ''c1'' 9 repo_P repo_one_admin ''3b5a'' ''Beta'' '''' 30
          ''userrepository_2'' =
          (Inl (PermissionError ''User does not have permission to modify this project''),
           repo_P)
      \<and> complete_milestone 9 repo_P repo_one_admin ''3b5a'' ''m1'' ''userrepository_2'' =
          (Inl (PermissionError ''User does not have permission to modify this project''),
           repo_P)
      \<and> project_service_remove_team_member 9 repo_P repo_one_admin ''3b5a''
          ''userrepository_1'' ''userrepository_2'' =
          (Inl (PermissionError ''User does not have permission to modify this project''),
           repo_P)
      \<and> project_service_add_team_member 9 repo_P repo_one_admin ''3b5a''
          ''userrepository_1'' ''userrepository_2'' =
          (Inl (PermissionError ''User does not have permission to modify this project''),
           repo_P))
   \<and> (team_get_by_id repo_test_team ''6c1d'' = Some test_team
      \<and> \<not> can_manage_team repo_one_admin ''userrepository_2'' test_team
      \<and> remove_team_member 9 repo_test_team repo_one_admin ''6c1d'' ''userrepository_1''
          ''userrepository_2'' =
          (Inl (PermissionError ''User does not have permission to manage this team''),
           repo_test_team)
      \<and> promote_team_member 9 repo_test_team repo_one_admin ''6c1d'' ''userrepository_1''
          LEADER ''userrepository_2'' =
          (Inl (PermissionError ''User does not have permission to manage this team''),
           repo_test_team)
      \<and> add_project_to_team 9 repo_test_team repo_one_admin ''6c1d'' ''3b5a''
          ''userrepository_2'' =
          (Inl (PermissionError ''User does not have permission to manage this team''),
           repo_test_team)
      \<and> remove_project_from_team 9 repo_test_team repo_one_admin ''6c1d'' ''3b5a''
          ''userrepository_2'' =
          (Inl (PermissionError ''User does not have permission to manage this team''),
           repo_test_team)
      \<and> add_team_member 9 repo_test_team repo_one_admin ''6c1d'' ''userrepository_1'' LEADER
          ''userrepository_2'' =
          (Inl (PermissionError ''User does not have permission to manage this team''),
           repo_test_team)
      \<and> change_team_leader 9 repo_test_team repo_one_admin ''6c1d'' ''userrepository_1''
          ''userrepository_2'' =
          (Inl (PermissionError ''User does not have permission to manage this team''),
           repo_test_team))"
proof -
  note sf = service_failures
    [where st = example_storage
       and call = "UpdateTaskStatus 9 ''0f8b'' TODO (Some ''userrepository_1'')"
       and e = "ValueError ''Cannot change status of completed task''"
       and users = repo_one_admin and now = 9 and uuid = "''c1''"]
  have w5: "update_task_status 9 repo_T_done repo_one_admin ''0f8b'' TODO
              (Some ''userrepository_1'') =
              (Inl (ValueError ''Cannot change status of completed task''), repo_T_done)"
    using sf [where tasks = repo_T_done and tk = "''0f8b''"
        and t = "task_T\<lparr>task_status := DONE\<rparr>" and status = TODO
        and actor = "Some ''userrepository_1''"
        and x = "ValueError ''Cannot change status of completed task''"]
      get_task_T_done A_can_modify_T_done update_status_T_done
    by simp
  have p1: "fst (perform example_storage
                  (UpdateTaskStatus 9 ''0f8b'' TODO (Some ''userrepository_1''))) =
              Some (ValueError ''Cannot change status of completed task'')"
    using w5 by (simp add: example_storage_def on_tasks_def raised_def)
  have p2: "snd (perform example_storage
                  (UpdateTaskStatus 9 ''0f8b'' TODO (Some ''userrepository_1''))) =
              example_storage"
    using sf example_storage_ok p1 by simp
  have w1: "perform example_storage
              (UpdateTaskStatus 9 ''0f8b'' TODO (Some ''userrepository_1'')) =
              (Some (ValueError ''Cannot change status of completed task''), example_storage)"
    using p1 p2 by (simp add: prod_eq_iff)
  have w2: "create_user ''a1'' 0 new_user_repository ''ab'' ''ab@example.com'' ''secret1'' USER =
              (Inl (ValueError ''Username must be at least 3 characters''),
               new_user_repository)"
    using service_failures [where users = new_user_repository and salt = "''a1''" and now = 0
        and username = "''ab''" and email = "''ab@example.com''" and password = "''secret1''"
        and role = USER
        and x = "ValidationError ''Username must be at least 3 characters''"]
      no_user_ab new_user_ab
    by simp
  have w3: "change_user_password ''b2'' repo_one_admin ''userrepository_1'' ''secret1'' ''abc'' =
              (Inl (ValueError ''Password too short''), repo_one_admin)"
    using sf [where salt = "''b2''" and uid = "''userrepository_1''" and u = user_A
        and old = "''secret1''" and new = "''abc''"
        and x = "ValidationError ''Password too short''"]
      get_user_A change_password_A_short
    by simp
  have w4: "create_task ''c1'' 9 repo_T repo_one_admin '''' '''' None MEDIUM None None =
              (Inl (ValueError ''Task title cannot be empty''), repo_T)"
    using sf [where tasks = repo_T and title = "''''" and description = "''''"
        and assignee = None and creator = None and priority = MEDIUM and due = None
        and x = "ValueError ''Task title cannot be empty''"]
      new_task_empty_title
    by (simp add: truthy_def)
  have w6: "add_task_comment ''c1'' 9 repo_T repo_one_admin ''0f8b'' ''userrepository_2'' '''' =
              (Inl (ValueError ''Comment content cannot be empty''), repo_T)"
    using sf [where tasks = repo_T and tk = "''0f8b''" and t = task_T
        and uid = "''userrepository_2''" and u = user_B and content = "''''"
        and x = "ValueError ''Comment content cannot be empty''"]
      get_task_T get_user_B B_can_comment_on_T add_comment_empty
    by simp
  have w7: "create_project ''c1'' 9 repo_P repo_one_admin '''' '''' None =
              (Inl (ValueError ''Project name cannot be empty''), repo_P)"
    using sf [where projects = repo_P and name = "''''" and description = "''''"
        and owner = None and x = "ValueError ''Project name cannot be empty''"]
      new_project_empty_name
    by (simp add: truthy_def)
  have w8: "create_team ''c1'' 9 repo_led_team repo_one_admin '''' '''' None =
              (Inl (ValueError ''Team name cannot be empty''), repo_led_team)"
    using sf [where teams = repo_led_team and name = "''''" and description = "''''"
        and leader = None and x = "ValueError ''Team name cannot be empty''"]
      new_team_empty_name
    by (simp add: truthy_def)
  have w9: "add_team_member 9 repo_led_team repo_one_admin ''7e2f'' ''userrepository_2'' MEMBER
              ''userrepository_1'' =
              (Inl (ValueError ''User is already a member of this team''), repo_led_team)"
    using sf [where teams = repo_led_team and tm = "''7e2f''" and g = led_team
        and uid = "''userrepository_2''" and u = user_B and aid = "''userrepository_1''"
        and trole = MEMBER and x = "ValueError ''User is already a member of this team''"]
      get_led_team get_user_B A_manages_led_team add_member_B_again
    by simp
  have w10: "remove_team_member 9 repo_led_team repo_one_admin ''7e2f'' ''userrepository_2''
               ''userrepository_1'' =
               (Inl (ValueError ''Cannot remove team leader''), repo_led_team)"
    using sf [where teams = repo_led_team and tm = "''7e2f''" and g = led_team
        and uid = "''userrepository_2''" and aid = "''userrepository_1''"
        and x = "ValueError ''Cannot remove team leader''"]
      get_led_team A_manages_led_team remove_member_B_leader
    by simp
  note s11 = sf [where uid = "''userrepository_1''" and u = user_A
      and aid = "''userrepository_2''" and a = user_B and role = GUEST]
  have w11: "promote_user repo_one_admin ''userrepository_1'' GUEST ''userrepository_2'' =
               (Inl (PermissionError ''Only admins can promote users''), repo_one_admin)"
    and w11': "deactivate_user repo_one_admin ''userrepository_1'' ''userrepository_2'' =
               (Inl (PermissionError ''Only admins can deactivate users''), repo_one_admin)"
    using s11 get_user_A get_user_B user_B_not_admin by simp_all
  have w12: "update_task_status 9 repo_U repo_one_admin ''2d4e'' DONE
               (Some ''userrepository_2'') =
               (Inl (PermissionError ''User does not have permission to modify this task''),
                repo_U)"
    using sf [where tasks = repo_U and tk = "''2d4e''" and t = task_U and status = DONE
        and actor = "Some ''userrepository_2''"]
      get_task_U B_cannot_modify_U
    by (simp add: truthy_def)
  have w13: "assign_task 9 repo_T repo_one_admin ''0f8b'' ''userrepository_2''
               ''userrepository_2'' =
               (Inl (PermissionError ''User does not have permission to assign this task''),
                repo_T)"
    using sf [where tasks = repo_T and tk = "''0f8b''" and t = task_T
        and uid = "''userrepository_2''" and u = user_B and aid = "''userrepository_2''"]
      get_task_T get_user_B B_cannot_assign_T
    by simp
  have w14: "add_task_comment ''c1'' 9 repo_U repo_one_admin ''2d4e'' ''userrepository_2''
               ''hello'' =
               (Inl (PermissionError ''User does not have permission to comment on this task''),
                repo_U)"
    using sf [where tasks = repo_U and tk = "''2d4e''" and t = task_U
        and uid = "''userrepository_2''" and u = user_B and content = "''hello''"]
      get_task_U get_user_B B_cannot_comment_on_U
    by simp
  note s15 = sf [where projects = repo_P and pj = "''3b5a''" and p = project_P
      and aid = "''userrepository_2''" and uid = "''userrepository_1''" and u = user_A
      and pstatus = ACTIVE and t = task_T and title = "''Beta''" and description = "''''"
      and mdue = 30 and mid = "''m1''"]
  have w15:
    "update_project_status 9 repo_P repo_one_admin ''3b5a'' ACTIVE ''userrepository_2'' =
       (Inl (PermissionError ''User does not have permission to modify this project''), repo_P)"
    "add_task_to_project 9 repo_P repo_one_admin ''3b5a'' task_T ''userrepository_2'' =
       (Inl (PermissionError ''User does not have permission to modify this project''), repo_P)"
    "remove_task_from_project 9 repo_P repo_one_admin ''3b5a'' task_T ''userrepository_2'' =
       (Inl (PermissionError ''User does not have permission to modify this project''), repo_P)"
    "add_milestone ''c1'' 9 repo_P repo_one_admin ''3b5a'' ''Beta'' '''' 30
       ''userrepository_2'' =
       (Inl (PermissionError ''User does not have permission to modify this project''), repo_P)"
    "complete_milestone 9 repo_P repo_one_admin ''3b5a'' ''m1'' ''userrepository_2'' =
       (Inl (PermissionError ''User does not have permission to modify this project''), repo_P)"
    "project_service_remove_team_member 9 repo_P repo_one_admin ''3b5a''
       ''userrepository_1'' ''userrepository_2'' =
       (Inl (PermissionError ''User does not have permission to modify this project''), repo_P)"
    "project_service_add_team_member 9 repo_P repo_one_admin ''3b5a''
       ''userrepository_1'' ''userrepository_2'' =
       (Inl (PermissionError ''User does not have permission to modify this project''), repo_P)"
    using s15 get_project_P B_cannot_modify_P get_user_A by simp_all
  note s16 = sf [where teams = repo_test_team and tm = "''6c1d''" and g = test_team
      and aid = "''userrepository_2''" and uid = "''userrepository_1''" and u = user_A
      and trole = LEADER and pj = "''3b5a''"]
  have w16:
    "remove_team_member 9 repo_test_team repo_one_admin ''6c1d'' ''userrepository_1''
       ''userrepository_2'' =
       (Inl (PermissionError ''User does not have permission to manage this team''),
        repo_test_team)"
    "promote_team_member 9 repo_test_team repo_one_admin ''6c1d'' ''userrepository_1''
       LEADER ''userrepository_2'' =
       (Inl (PermissionError ''User does not have permission to manage this team''),
        repo_test_team)"
    "add_project_to_team 9 repo_test_team repo_one_admin ''6c1d'' ''3b5a''
       ''userrepository_2'' =
       (Inl (PermissionError ''User does not have permission to manage this team''),
        repo_test_team)"
    "remove_project_from_team 9 repo_test_team repo_one_admin ''6c1d'' ''3b5a''
       ''userrepository_2'' =
       (Inl (PermissionError ''User does not have permission to manage this team''),
        repo_test_team)"
    "add_team_member 9 repo_test_team repo_one_admin ''6c1d'' ''userrepository_1'' LEADER
       ''userrepository_2'' =
       (Inl (PermissionError ''User does not have permission to manage this team''),
        repo_test_team)"
    "change_team_leader 9 repo_test_team repo_one_admin ''6c1d'' ''userrepository_1''
       ''userrepository_2'' =
       (Inl (PermissionError ''User does not have permission to manage this team''),
        repo_test_team)"
    using s16 get_test_team B_cannot_manage_test_team get_user_A by simp_all
  have t: "truthy (Some ''userrepository_2'')" and nt: "\<not> truthy None"
    by (simp_all add: truthy_def)
  have f: "fresh_id_ok (UpdateTaskStatus 9 ''0f8b'' TODO (Some ''userrepository_1''))"
    by simp
  show ?thesis
    by (intro conjI example_storage_ok f w1 no_user_ab new_user_ab w2 get_user_A
        change_password_A_short w3 nt new_task_empty_title w4 get_task_T_done
        A_can_modify_T_done update_status_T_done w5 get_task_T get_user_B B_can_comment_on_T
        add_comment_empty w6 new_project_empty_name w7 new_team_empty_name w8 get_led_team
        A_manages_led_team add_member_B_again w9 remove_member_B_leader w10 user_B_not_admin
        w11 w11' get_task_U t B_cannot_modify_U w12 B_cannot_assign_T w13
        B_cannot_comment_on_U w14 get_project_P B_cannot_modify_P w15 get_test_team
        B_cannot_manage_test_team w16)
qed

text \<open>
  Claim C9, as stated, fails for the kind of a failure: the constructor of \<^verbatim>\<open>User\<close> raises
  \<^verbatim>\<open>ValidationError\<close> for the username \<^verbatim>\<open>ab\<close>, but the caller of \<open>create_user\<close> gets a
  \<^verbatim>\<open>ValueError\<close> with that message, the class that also reports a username already in
  use.
\<close>

theorem create_user_exception_counterexample:
  "new_user ''a1'' 0 ''ab'' ''ab@example.com'' ''secret1'' USER =
     Inl (ValidationError ''Username must be at least 3 characters'')
   \<and> create_user ''a1'' 0 new_user_repository ''ab'' ''ab@example.com'' ''secret1'' USER =
       (Inl (ValueError ''Username must be at least 3 characters''), new_user_repository)
   \<and> create_user ''a1'' 0 repo_after_bob ''bob'' ''ab@example.com'' ''secret1'' USER =
       (Inl (ValueError (''Username '' @ quote @ ''bob'' @ quote @ '' already exists'')),
        repo_after_bob)"
  by (simp add: new_user_ab create_user_def new_user_repository_def get_by_username_def
      get_by_email_def user_get_all_def repo_after_bob_def bob_user_def)

end
